(* ===== verification/Prelude.thy ===== *)
theory Prelude
  imports Main
begin

text \<open>
  Shared vocabulary of the development: the types that name the model's state
  (time values, the process environment, the console log), the ECMAScript string
  built-ins the sources call (\<open>String.prototype.split\<close> with a one-character
  separator, \<open>String.prototype.trim\<close>, array indexing that yields \<open>undefined\<close>),
  the \<open>x || default\<close> idiom of environment lookups, and the generic lemmas
  about them that the component theories use.
  Characters are Isabelle's 8-bit \<open>char\<close>, read as the UTF-16 code units
  U+0000 to U+00FF; the sources only ever handle such strings in the modelled
  paths (format strings, "HH:MM" times, ASCII identifiers).
\<close>

named_theorems js_defs \<open>definitions of the ECMAScript built-ins used by the model\<close>

subsection \<open>Types of the model\<close>

text \<open>
  A \<open>Date\<close>'s internal time value: \<open>Some t\<close> for \<open>t\<close> milliseconds since the epoch,
  \<open>None\<close> for \<open>NaN\<close> (an "Invalid Date").
\<close>
type_synonym time_value = "int option"

text \<open>\<open>process.env\<close>: a variable is either unset or holds a string.\<close>
type_synonym env = "string \<rightharpoonup> string"

text \<open>
  One call of \<open>console.log\<close> (its string arguments) or of
  \<open>console.error(label, value)\<close>; the value is kept as a value of the caller's
  error type, since Node prints it with \<open>util.inspect\<close>, which is not modelled.
\<close>
datatype 'e log_entry = Log "string list" | LogError string 'e

subsection \<open>String and array built-ins\<close>

text \<open>ECMAScript WhiteSpace and LineTerminator code units within U+0000..U+00FF.\<close>
definition is_js_ws :: "char \<Rightarrow> bool" where
  "is_js_ws c \<longleftrightarrow> of_char c \<in> {9, 10, 11, 12, 13, 32, 160 :: nat}"

text \<open>\<open>String.prototype.trim\<close>: strip white space at both ends.\<close>
definition js_trim :: "string \<Rightarrow> string" where
  "js_trim s = rev (dropWhile is_js_ws (rev (dropWhile is_js_ws s)))"

text \<open>
  \<open>String.prototype.split(sep)\<close> for a one-character separator: the pieces
  between occurrences of the separator, always at least one (\<open>"".split(":")\<close> is
  \<open>[""]\<close>).
\<close>
fun js_split :: "char \<Rightarrow> string \<Rightarrow> string list" where
  "js_split c [] = [[]]"
| "js_split c (x # xs) =
     (if x = c then [] # js_split c xs
      else (let r = js_split c xs in (x # hd r) # tl r))"

text \<open>\<open>Array.prototype.join(sep)\<close>, the inverse of \<open>js_split\<close>.\<close>
fun js_join :: "char \<Rightarrow> string list \<Rightarrow> string" where
  "js_join c [] = []"
| "js_join c [w] = w"
| "js_join c (w # v # ws) = w @ c # js_join c (v # ws)"

text \<open>Reading \<open>a[i]\<close> of an array: \<open>undefined\<close> (\<open>None\<close>) past its end.\<close>
definition js_at :: "'a list \<Rightarrow> nat \<Rightarrow> 'a option" where
  "js_at xs i = (if i < length xs then Some (xs ! i) else None)"

text \<open>
  \<open>process.env.NAME || default\<close>: the default replaces an unset variable and
  also an empty one, since \<open>""\<close> is falsy.
\<close>
definition env_or :: "env \<Rightarrow> string \<Rightarrow> string \<Rightarrow> string" where
  "env_or e k d = (case e k of None \<Rightarrow> d | Some v \<Rightarrow> if v = [] then d else v)"

text \<open>
  \<open>a < b\<close> on two strings (IsLessThan): code units compared from the left, a
  proper prefix being the smaller.
\<close>
fun js_str_less :: "string \<Rightarrow> string \<Rightarrow> bool" where
  "js_str_less [] [] = False"
| "js_str_less [] (y # ys) = True"
| "js_str_less (x # xs) [] = False"
| "js_str_less (x # xs) (y # ys) =
     (if x = y then js_str_less xs ys else (of_char x :: nat) < of_char y)"

declare is_js_ws_def [js_defs] js_trim_def [js_defs] js_at_def [js_defs] env_or_def [js_defs]

subsection \<open>Lemmas on the built-ins\<close>

lemma js_split_not_Nil [simp]: "js_split c s \<noteq> []"
  by (induction s) (auto simp: Let_def)

lemma js_join_Cons_hd:
  "r \<noteq> [] \<Longrightarrow> js_join c ((x # hd r) # tl r) = x # js_join c r"
  by (cases r; cases "tl r") auto

lemma js_join_split: "js_join c (js_split c s) = s"
proof (induction s)
  case Nil
  show ?case by simp
next
  case (Cons x xs)
  show ?case
  proof (cases "x = c")
    case True
    then show ?thesis using Cons.IH
      by (cases "js_split c xs") auto
  next
    case False
    then show ?thesis using Cons.IH by (simp add: Let_def js_join_Cons_hd)
  qed
qed

lemma js_split_sep_free: "w \<in> set (js_split c s) \<Longrightarrow> c \<notin> set w"
proof (induction s arbitrary: w)
  case Nil
  then show ?case by simp
next
  case (Cons x xs)
  then show ?case
    by (cases "js_split c xs") (auto simp: Let_def split: if_splits)
qed

lemma js_split_no_sep: "c \<notin> set s \<Longrightarrow> js_split c s = [s]"
  by (induction s) (auto simp: Let_def)

lemma js_split_append_sep:
  "c \<notin> set a \<Longrightarrow> js_split c (a @ c # b) = a # js_split c b"
  by (induction a) (auto simp: Let_def)

lemma js_at_Cons_0 [simp]: "js_at (x # xs) 0 = Some x"
  and js_at_Cons_Suc [simp]: "js_at (x # xs) (Suc i) = js_at xs i"
  and js_at_Nil [simp]: "js_at [] i = None"
  by (simp_all add: js_at_def)

lemma env_or_nonempty: "d \<noteq> [] \<Longrightarrow> env_or e k d \<noteq> []"
  by (simp add: env_or_def split: option.splits)

lemma env_or_unset [simp]: "e k = None \<Longrightarrow> env_or e k d = d"
  by (simp add: env_or_def)

lemma env_or_set: "e k = Some v \<Longrightarrow> v \<noteq> [] \<Longrightarrow> env_or e k d = v"
  by (simp add: env_or_def)

lemma dropWhile_append_not:
  "\<not> P y \<Longrightarrow> (\<forall>x\<in>set xs. P x) \<Longrightarrow> dropWhile P (xs @ y # ys) = y # ys"
  by (induction xs) auto

text \<open>
  Trimming a string that is framed by white space around a core that starts and
  ends with a visible character gives the core: what \<open>`...`.trim()\<close> does to the
  sources' multi-line templates.
\<close>
lemma js_trim_frame:
  assumes pre: "\<forall>x\<in>set p. is_js_ws x" and suf: "\<forall>x\<in>set q. is_js_ws x"
    and a: "\<not> is_js_ws a" and b: "\<not> is_js_ws b"
  shows "js_trim (p @ a # m @ [b] @ q) = a # m @ [b]"
proof -
  have "dropWhile is_js_ws (p @ a # m @ [b] @ q) = a # m @ [b] @ q"
    by (rule dropWhile_append_not [OF a pre])
  moreover have "rev (a # m @ [b] @ q) = rev q @ b # rev m @ [a]" by simp
  moreover have "dropWhile is_js_ws (rev q @ b # rev m @ [a]) = b # rev m @ [a]"
    using suf b by (intro dropWhile_append_not) auto
  ultimately show ?thesis by (simp add: js_trim_def)
qed

lemma length5_cases: "length s = 5 \<Longrightarrow> \<exists>a b x c e. s = [a, b, x, c, e]"
  by (cases s; cases "tl s"; cases "tl (tl s)"; cases "tl (tl (tl s))"; cases "tl (tl (tl (tl s)))") auto

text \<open>Comparing two two-field numbers \<open>k * a + b\<close> with \<open>b < k\<close> is lexicographic.\<close>
lemma lex_pair:
  fixes a1 a2 b1 b2 k :: nat
  assumes "b1 < k" "b2 < k"
  shows "k * a1 + b1 < k * a2 + b2 \<longleftrightarrow> a1 < a2 \<or> a1 = a2 \<and> b1 < b2"
    and "k * a1 + b1 = k * a2 + b2 \<longleftrightarrow> a1 = a2 \<and> b1 = b2"
proof -
  have lt: "k * x + c < k * y + c'" if "x < y" "c < k" for x y c c' :: nat
  proof -
    from that(1) have "k * (x + 1) \<le> k * y" by (intro mult_le_mono2) simp
    with that(2) show ?thesis by simp
  qed
  show "k * a1 + b1 < k * a2 + b2 \<longleftrightarrow> a1 < a2 \<or> a1 = a2 \<and> b1 < b2"
    using lt [of a1 a2 b1 b2] lt [of a2 a1 b2 b1] assms by (cases a1 a2 rule: linorder_cases) auto
  show "k * a1 + b1 = k * a2 + b2 \<longleftrightarrow> a1 = a2 \<and> b1 = b2"
    using lt [of a1 a2 b1 b2] lt [of a2 a1 b2 b1] assms by (cases a1 a2 rule: linorder_cases) auto
qed

lemma length10_cases:
  "length s = 10 \<Longrightarrow> \<exists>a b c d x e f y g h. s = [a, b, c, d, x, e, f, y, g, h]"
  by (cases s; cases "drop 1 s"; cases "drop 2 s"; cases "drop 3 s"; cases "drop 4 s"; cases "drop 5 s";
      cases "drop 6 s"; cases "drop 7 s"; cases "drop 8 s"; cases "drop 9 s") (auto simp: drop_Suc)


subsection \<open>Integer division\<close>

lemma int_div_bounds: "0 < (k::int) \<Longrightarrow> a - k < k * (a div k) \<and> k * (a div k) \<le> a"
proof -
  assume k: "0 < k"
  have "k * (a div k) + a mod k = a" by (simp add: mult.commute)
  moreover have "0 \<le> a mod k" "a mod k < k" using k by simp_all
  ultimately show ?thesis by linarith
qed

lemma mult_less_self_one: "0 \<le> (c::int) \<Longrightarrow> c * k < c \<Longrightarrow> k < 1"
proof (rule ccontr)
  assume c: "0 \<le> c" "c * k < c" and "\<not> k < 1"
  then have "c * 1 \<le> c * k" by (intro mult_left_mono) simp_all
  with c show False by simp
qed

end
