(* ===== verification/JsNumber.thy ===== *)
theory JsNumber
  imports Prelude
begin

text \<open>
  The conversions between strings and numbers that the sources perform:
  \<open>Number(s)\<close> on the pieces of an "HH:MM" string (email.ts, \<open>.map(Number)\<close>),
  whose only consumer is \<open>Date.prototype.setHours\<close>, and the printing of
  integer-valued numbers in template literals (CalendarView.tsx, the
  \<open>bookedCount/capacity\<close> title).

  \<open>number_toint s\<close> is \<open>Number(s)\<close> followed by what MakeTime does with each
  argument: \<open>None\<close> when the number is \<open>NaN\<close> or infinite, otherwise
  \<open>Some (ToIntegerOrInfinity n)\<close>, the value truncated towards zero.
  It follows the StringNumericLiteral grammar of ECMAScript (7.1.4.1.1): surrounding
  white space, the empty string as 0, an optional sign, decimal digits with an
  optional fraction and exponent, \<open>Infinity\<close>, and unsigned \<open>0x\<close>/\<open>0o\<close>/\<open>0b\<close>
  literals. The value is computed exactly, then truncated; a double rounds it first,
  which gives the same integer for every literal of at most 15 significant digits.
  A literal whose exact value reaches \<open>2^1024 - 2^970\<close> rounds to \<open>Infinity\<close>.
\<close>

subsection \<open>Digits\<close>

definition is_dec_digit :: "char \<Rightarrow> bool" where
  "is_dec_digit c \<longleftrightarrow> (let n = (of_char c :: nat) in 48 \<le> n \<and> n \<le> 57)"

definition digit_val :: "char \<Rightarrow> nat" where
  "digit_val c = of_char c - 48"

text \<open>The value of \<open>c\<close> as a digit of radix \<open>r\<close>, letters in either case.\<close>
definition radix_digit :: "nat \<Rightarrow> char \<Rightarrow> nat option" where
  "radix_digit r c =
     (let n = (of_char c :: nat);
          v = (if 48 \<le> n \<and> n \<le> 57 then Some (n - 48)
               else if 97 \<le> n \<and> n \<le> 102 then Some (n - 87)
               else if 65 \<le> n \<and> n \<le> 70 then Some (n - 55) else None)
      in case v of Some d \<Rightarrow> if d < r then Some d else None | None \<Rightarrow> None)"

definition digits_value :: "nat \<Rightarrow> nat list \<Rightarrow> nat" where
  "digits_value r ds = foldl (\<lambda>acc d. acc * r + d) 0 ds"

definition dec_value :: "string \<Rightarrow> nat" where
  "dec_value s = digits_value 10 (map digit_val s)"

subsection \<open>The StringNumericLiteral grammar\<close>

text \<open>An optional sign in front of a literal: the sign and the rest.\<close>
definition sign_split :: "string \<Rightarrow> int \<times> string" where
  "sign_split s =
     (case s of
        c # r \<Rightarrow> if c = CHR ''+'' then (1, r) else if c = CHR ''-'' then (-1, r) else (1, s)
      | [] \<Rightarrow> (1, []))"

text \<open>ExponentPart, or nothing: the exponent, \<open>None\<close> if the text is no such part.\<close>
definition parse_exponent :: "string \<Rightarrow> int option" where
  "parse_exponent s =
     (case s of
        [] \<Rightarrow> Some 0
      | c # r \<Rightarrow>
          if c = CHR ''e'' \<or> c = CHR ''E'' then
            (let (sg, ds) = sign_split r in
             if ds \<noteq> [] \<and> list_all is_dec_digit ds then Some (sg * int (dec_value ds)) else None)
          else None)"

text \<open>
  StrUnsignedDecimalLiteral without \<open>Infinity\<close>: the digits before and after the
  point as one mantissa \<open>N\<close>, and the power of ten \<open>e\<close>; the value is \<open>N * 10^e\<close>.
\<close>
definition parse_unsigned_decimal :: "string \<Rightarrow> (nat \<times> int) option" where
  "parse_unsigned_decimal s =
     (let ip = takeWhile is_dec_digit s; r1 = dropWhile is_dec_digit s in
      if r1 \<noteq> [] \<and> hd r1 = CHR ''.'' then
        (let fp = takeWhile is_dec_digit (tl r1); r2 = dropWhile is_dec_digit (tl r1) in
         if ip = [] \<and> fp = [] then None
         else map_option (\<lambda>e. (dec_value (ip @ fp), e - int (length fp))) (parse_exponent r2))
      else if ip = [] then None
      else map_option (\<lambda>e. (dec_value ip, e)) (parse_exponent r1))"

text \<open>The least magnitude that a double rounds to \<open>Infinity\<close>.\<close>
definition overflow_bound :: nat where
  "overflow_bound = 2 ^ 1024 - 2 ^ 970"

text \<open>\<open>N * 10^e\<close> truncated towards zero, or \<open>None\<close> when it overflows to \<open>Infinity\<close>.\<close>
definition finite_trunc :: "nat \<Rightarrow> int \<Rightarrow> int option" where
  "finite_trunc n e =
     (if 0 \<le> e then (if overflow_bound \<le> n * 10 ^ nat e then None else Some (int (n * 10 ^ nat e)))
      else (if overflow_bound * 10 ^ nat (- e) \<le> n then None else Some (int (n div 10 ^ nat (- e)))))"

text \<open>NonDecimalIntegerLiteral: \<open>0x\<close>, \<open>0o\<close>, \<open>0b\<close> and at least one digit of that radix.\<close>
definition parse_nondecimal :: "string \<Rightarrow> nat option" where
  "parse_nondecimal s =
     (case s of
        c0 # c1 # ds \<Rightarrow>
          (let r = (if c1 \<in> {CHR ''x'', CHR ''X''} then 16
                    else if c1 \<in> {CHR ''o'', CHR ''O''} then 8
                    else if c1 \<in> {CHR ''b'', CHR ''B''} then 2 else 0);
               vs = map (radix_digit r) ds
           in if c0 = CHR ''0'' \<and> r \<noteq> 0 \<and> ds \<noteq> [] \<and> list_all (\<lambda>v. v \<noteq> None) vs
              then Some (digits_value r (map the vs)) else None)
      | _ \<Rightarrow> None)"

text \<open>StrNumericLiteral, already trimmed and non-empty.\<close>
definition str_numeric :: "string \<Rightarrow> int option" where
  "str_numeric t =
     (case parse_nondecimal t of
        Some v \<Rightarrow> finite_trunc v 0
      | None \<Rightarrow>
          (let (sg, u) = sign_split t in
           if u = ''Infinity'' then None
           else (case parse_unsigned_decimal u of
                   None \<Rightarrow> None
                 | Some (n, e) \<Rightarrow> map_option (\<lambda>i. sg * i) (finite_trunc n e))))"

text \<open>\<open>ToIntegerOrInfinity(Number(s))\<close>, \<open>None\<close> for \<open>NaN\<close> and the infinities.\<close>
definition number_toint :: "string \<Rightarrow> int option" where
  "number_toint s = (let t = js_trim s in if t = [] then Some 0 else str_numeric t)"

subsection \<open>Printing integer-valued numbers\<close>

text \<open>
  \<open>Number.prototype.toString()\<close> of an integer-valued number below \<open>10^21\<close> in
  magnitude (larger ones print in exponent notation): its decimal digits, with a
  minus sign when negative.
\<close>
definition digit_char :: "nat \<Rightarrow> char" where
  "digit_char d = char_of (48 + d)"

fun nat_digits :: "nat \<Rightarrow> string" where
  "nat_digits n = (if n < 10 then [digit_char n] else nat_digits (n div 10) @ [digit_char (n mod 10)])"

definition int_to_js_string :: "int \<Rightarrow> string" where
  "int_to_js_string i = (if i < 0 then CHR ''-'' # nat_digits (nat (- i)) else nat_digits (nat i))"

declare nat_digits.simps [simp del]

subsection \<open>Digits, parsing and printing\<close>

lemma digit_char_digit: "d < 10 \<Longrightarrow> is_dec_digit (digit_char d)"
  and digit_val_digit_char: "d < 10 \<Longrightarrow> digit_val (digit_char d) = d"
  by (simp_all add: is_dec_digit_def digit_char_def digit_val_def)

lemma digit_not_ws: "is_dec_digit c \<Longrightarrow> \<not> is_js_ws c"
  by (auto simp: is_dec_digit_def is_js_ws_def)

lemma dec_value_snoc: "dec_value (xs @ [c]) = 10 * dec_value xs + digit_val c"
  by (simp add: dec_value_def digits_value_def)

lemma dec_value_Nil [simp]: "dec_value [] = 0"
  by (simp add: dec_value_def digits_value_def)


lemma nat_digits_lt: "n < 10 \<Longrightarrow> nat_digits n = [digit_char n]"
  and nat_digits_ge: "\<not> n < 10 \<Longrightarrow> nat_digits n = nat_digits (n div 10) @ [digit_char (n mod 10)]"
  by (simp_all add: nat_digits.simps [of n])

lemma nat_digits_props:
  "nat_digits n \<noteq> [] \<and> list_all is_dec_digit (nat_digits n) \<and> dec_value (nat_digits n) = n"
proof (induction n rule: nat_digits.induct)
  case (1 n)
  show ?case
  proof (cases "n < 10")
    case True
    have "dec_value [digit_char n] = n"
      using dec_value_snoc [of "[]" "digit_char n"] True by (simp add: digit_val_digit_char)
    with True show ?thesis by (simp add: nat_digits_lt digit_char_digit)
  next
    case False
    then have "n mod 10 < 10" by simp
    with False "1.IH" show ?thesis
      by (simp add: nat_digits_ge dec_value_snoc digit_char_digit digit_val_digit_char)
  qed
qed

lemma dec_value_bound: "list_all is_dec_digit ds \<Longrightarrow> dec_value ds < 10 ^ length ds"
proof (induction ds rule: rev_induct)
  case Nil
  then show ?case by simp
next
  case (snoc c ds)
  then have "digit_val c < 10" "dec_value ds < 10 ^ length ds"
    by (auto simp: is_dec_digit_def digit_val_def Let_def)
  then show ?case by (simp add: dec_value_snoc)
qed

lemma dropWhile_none: "list_all (\<lambda>c. \<not> P c) xs \<Longrightarrow> dropWhile P xs = xs"
  by (cases xs) auto

lemma js_trim_no_ws: "list_all (\<lambda>c. \<not> is_js_ws c) s \<Longrightarrow> js_trim s = s"
  by (simp add: js_trim_def dropWhile_none)

lemma digits_not_ws: "list_all is_dec_digit ds \<Longrightarrow> list_all (\<lambda>c. \<not> is_js_ws c) ds"
  by (auto simp: list_all_iff digit_not_ws)

lemma parse_unsigned_decimal_digits:
  "ds \<noteq> [] \<Longrightarrow> list_all is_dec_digit ds \<Longrightarrow> parse_unsigned_decimal ds = Some (dec_value ds, 0)"
proof -
  assume ne: "ds \<noteq> []" and d: "list_all is_dec_digit ds"
  then have t: "takeWhile is_dec_digit ds = ds" and r: "dropWhile is_dec_digit ds = []"
    by (simp_all add: list_all_iff)
  from ne show ?thesis by (simp add: parse_unsigned_decimal_def parse_exponent_def t r)
qed

lemma digit_not_radix_prefix:
  "is_dec_digit c \<Longrightarrow> c \<notin> {CHR ''x'', CHR ''X'', CHR ''o'', CHR ''O'', CHR ''b'', CHR ''B''}"
  by (auto simp: is_dec_digit_def)

lemma parse_nondecimal_digits:
  assumes "list_all is_dec_digit ds"
  shows "parse_nondecimal ds = None"
proof (cases ds)
  case (Cons c0 r)
  show ?thesis
  proof (cases r)
    case (Cons c1 rest)
    with assms \<open>ds = c0 # r\<close> have "c1 \<notin> {CHR ''x'', CHR ''X'', CHR ''o'', CHR ''O'', CHR ''b'', CHR ''B''}"
      by (intro digit_not_radix_prefix) simp
    with \<open>ds = c0 # r\<close> Cons show ?thesis by (simp add: parse_nondecimal_def Let_def)
  qed (simp add: \<open>ds = c0 # r\<close> parse_nondecimal_def)
qed (simp add: parse_nondecimal_def)

lemma sign_split_digits:
  "list_all is_dec_digit ds \<Longrightarrow> sign_split ds = (1, ds)"
  by (cases ds) (auto simp: sign_split_def is_dec_digit_def)

lemma parse_nondecimal_minus: "parse_nondecimal (CHR ''-'' # s) = None"
  by (cases s) (simp_all add: parse_nondecimal_def)

text \<open>\<open>10^300 < 2^1000 \<le> 2^1024 - 2^970\<close>, without computing the numerals.\<close>
lemma overflow_bound_big: "(10::nat) ^ 300 < overflow_bound"
proof -
  have "(10::nat) ^ 300 = (10 ^ 3) ^ 100" by (simp add: power_mult [symmetric])
  also have "\<dots> < (2 ^ 10) ^ 100" by (rule power_strict_mono) simp_all
  also have "\<dots> = 2 ^ 970 * 2 ^ 30" by (simp add: power_mult [symmetric] power_add [symmetric])
  also have "\<dots> \<le> 2 ^ 970 * (2 ^ 54 - 1)" by (rule mult_le_mono2) simp
  also have "\<dots> = overflow_bound"
    by (simp add: overflow_bound_def diff_mult_distrib2 power_add [symmetric])
  finally show ?thesis .
qed

lemma str_numeric_digits:
  assumes ne: "ds \<noteq> []" and d: "list_all is_dec_digit ds" and b: "dec_value ds < overflow_bound"
  shows "str_numeric ds = Some (int (dec_value ds))"
    and "str_numeric (CHR ''-'' # ds) = Some (- int (dec_value ds))"
proof -
  have inf: "ds \<noteq> ''Infinity''" using d by (auto simp: is_dec_digit_def)
  have ft: "finite_trunc (dec_value ds) 0 = Some (int (dec_value ds))"
    using b by (simp add: finite_trunc_def)
  show "str_numeric ds = Some (int (dec_value ds))"
    using ne d inf ft by (simp add: str_numeric_def parse_nondecimal_digits sign_split_digits
        parse_unsigned_decimal_digits)
  show "str_numeric (CHR ''-'' # ds) = Some (- int (dec_value ds))"
    using ne d inf ft by (simp add: str_numeric_def parse_nondecimal_minus sign_split_def
        parse_unsigned_decimal_digits)
qed

lemma number_toint_digits:
  assumes "ds \<noteq> []" and "list_all is_dec_digit ds" and "length ds \<le> 300"
  shows "number_toint ds = Some (int (dec_value ds))"
proof -
  have "dec_value ds < 10 ^ length ds" using assms(2) by (rule dec_value_bound)
  also have "(10::nat) ^ length ds \<le> 10 ^ 300" by (rule power_increasing) (simp_all add: assms(3))
  finally have "dec_value ds < overflow_bound" using overflow_bound_big by linarith
  with assms show ?thesis
    by (simp add: number_toint_def js_trim_no_ws digits_not_ws str_numeric_digits)
qed

lemma number_toint_int_to_js_string:
  assumes "\<bar>i\<bar> < 10 ^ 21"
  shows "number_toint (int_to_js_string i) = Some i"
proof -
  define n where "n = nat \<bar>i\<bar>"
  have p: "nat_digits n \<noteq> []" "list_all is_dec_digit (nat_digits n)" "dec_value (nat_digits n) = n"
    using nat_digits_props [of n] by simp_all
  have "n < 10 ^ 21" using assms by (simp add: n_def nat_less_iff)
  also have "(10::nat) ^ 21 < overflow_bound"
    using overflow_bound_big power_increasing [of 21 300 "10::nat"] by linarith
  finally have b: "dec_value (nat_digits n) < overflow_bound" using p(3) by simp
  have m: "\<not> is_js_ws CHR ''-''" by (simp add: is_js_ws_def)
  have nws: "list_all (\<lambda>c. \<not> is_js_ws c) (CHR ''-'' # nat_digits n)"
    using m digits_not_ws [OF p(2)] by simp
  show ?thesis
  proof (cases "i < 0")
    case True
    then have "int_to_js_string i = CHR ''-'' # nat_digits n"
      by (simp add: int_to_js_string_def n_def)
    with True show ?thesis
      using str_numeric_digits(2) [OF p(1,2) b] nws p(3) by (simp add: number_toint_def js_trim_no_ws n_def)
  next
    case False
    then have "int_to_js_string i = nat_digits n"
      by (simp add: int_to_js_string_def n_def)
    with False show ?thesis
      using str_numeric_digits(1) [OF p(1,2) b] p digits_not_ws [OF p(2)]
      by (simp add: number_toint_def js_trim_no_ws n_def)
  qed
qed

subsection \<open>Digit order\<close>

lemma digit_val_less_10: "is_dec_digit x \<Longrightarrow> digit_val x < 10"
  unfolding is_dec_digit_def digit_val_def Let_def by arith

lemma digit_compare:
  assumes "is_dec_digit x" "is_dec_digit y"
  shows "(of_char x :: nat) < of_char y \<longleftrightarrow> digit_val x < digit_val y"
    and "x = y \<longleftrightarrow> digit_val x = digit_val y"
proof -
  have "48 \<le> (of_char x :: nat)" "48 \<le> (of_char y :: nat)"
    using assms by (simp_all add: is_dec_digit_def Let_def)
  then show "(of_char x :: nat) < of_char y \<longleftrightarrow> digit_val x < digit_val y"
    unfolding digit_val_def by arith
  have "x = y \<longleftrightarrow> (of_char x :: nat) = of_char y"
    by (metis char_of_char)
  with \<open>48 \<le> (of_char x :: nat)\<close> \<open>48 \<le> (of_char y :: nat)\<close>
  show "x = y \<longleftrightarrow> digit_val x = digit_val y"
    unfolding digit_val_def by arith
qed

lemma dec_value_two: "dec_value [a, b] = 10 * digit_val a + digit_val b"
  using dec_value_snoc [of "[a]" b] dec_value_snoc [of "[]" a] by simp

end
