(* ===== verification/JsDate.thy ===== *)
theory JsDate
  imports Prelude
begin

text \<open>
  The ECMAScript \<open>Date\<close> semantics the sources rely on (ECMAScript 2024, 21.4.1):
  time values in milliseconds, \<open>Day\<close>, \<open>TimeWithinDay\<close>, \<open>MakeTime\<close>, \<open>MakeDay\<close>,
  \<open>MakeDate\<close>, \<open>TimeClip\<close>, the local-time conversion, the setter
  \<open>Date.prototype.setHours\<close> (email.ts lines 83 and 86, 192 and 195) and the
  getters \<open>getFullYear\<close>, \<open>getMonth\<close>, \<open>getDate\<close>, \<open>getHours\<close>,
  \<open>getMinutes\<close> (email.ts lines 32 to 45).

  Local time is UTC shifted by a fixed offset \<open>tz\<close> (milliseconds), a parameter of
  every operation that reads or writes local time: daylight-saving rules are not
  modelled (the deployment's zone, India, has none).
  Arithmetic is on unbounded integers. The engine computes with doubles, which agree
  with it while every intermediate value stays below \<open>2^53\<close> in magnitude; for
  \<open>setHours\<close> on a valid date that holds when the hour and minute arguments have at
  most eight digits.

  \<open>YearFromTime\<close> is specified as "the largest integer y such that
  TimeFromYear(y) \<le> t"; \<open>year_from_day\<close> computes it from an estimate and a
  correction loop, \<open>year_from_day_bracket\<close> proves it meets the specification,
  and the last section shows that each of its two loops runs at most once.
\<close>

subsection \<open>Time values\<close>

abbreviation ms_per_second :: int where "ms_per_second \<equiv> 1000"
abbreviation ms_per_minute :: int where "ms_per_minute \<equiv> 60000"
abbreviation ms_per_hour :: int where "ms_per_hour \<equiv> 3600000"
abbreviation ms_per_day :: int where "ms_per_day \<equiv> 86400000"

text \<open>The largest magnitude of a valid time value: 100,000,000 days.\<close>
abbreviation max_time_value :: int where "max_time_value \<equiv> 8640000000000000"

definition day :: "int \<Rightarrow> int" where
  "day t = t div ms_per_day"

definition time_within_day :: "int \<Rightarrow> int" where
  "time_within_day t = t mod ms_per_day"

definition hour_from_time :: "int \<Rightarrow> int" where
  "hour_from_time t = t div ms_per_hour mod 24"

definition min_from_time :: "int \<Rightarrow> int" where
  "min_from_time t = t div ms_per_minute mod 60"

definition sec_from_time :: "int \<Rightarrow> int" where
  "sec_from_time t = t div ms_per_second mod 60"

definition ms_from_time :: "int \<Rightarrow> int" where
  "ms_from_time t = t mod ms_per_second"

text \<open>
  MakeTime: an argument is \<open>None\<close> when it is not finite, otherwise its
  ToIntegerOrInfinity; a non-finite argument makes the time \<open>NaN\<close>.
\<close>
definition make_time :: "int option \<Rightarrow> int option \<Rightarrow> int option \<Rightarrow> int option \<Rightarrow> int option" where
  "make_time h m s ms =
     (case (h, m, s, ms) of
        (Some h, Some m, Some s, Some ms) \<Rightarrow>
          Some (h * ms_per_hour + m * ms_per_minute + s * ms_per_second + ms)
      | _ \<Rightarrow> None)"

definition make_date :: "int \<Rightarrow> int option \<Rightarrow> int option" where
  "make_date d tm = map_option (\<lambda>t. d * ms_per_day + t) tm"

definition time_clip :: "int option \<Rightarrow> time_value" where
  "time_clip tv = (case tv of None \<Rightarrow> None | Some t \<Rightarrow> if max_time_value < \<bar>t\<bar> then None else Some t)"

text \<open>
  \<open>date.setHours(h, m, s, ms)\<close> with all four arguments given (as the sources
  call it): the new time value, which is also stored in the object. An invalid
  date stays invalid.
\<close>
definition set_hours ::
  "int \<Rightarrow> time_value \<Rightarrow> int option \<Rightarrow> int option \<Rightarrow> int option \<Rightarrow> int option \<Rightarrow> time_value" where
  "set_hours tz tv h m s ms =
     (case tv of
        None \<Rightarrow> None
      | Some t \<Rightarrow>
          (let lt = t + tz in
           time_clip (map_option (\<lambda>u. u - tz) (make_date (day lt) (make_time h m s ms)))))"

definition get_hours :: "int \<Rightarrow> time_value \<Rightarrow> int option" where
  "get_hours tz tv = map_option (\<lambda>t. hour_from_time (t + tz)) tv"

definition get_minutes :: "int \<Rightarrow> time_value \<Rightarrow> int option" where
  "get_minutes tz tv = map_option (\<lambda>t. min_from_time (t + tz)) tv"

subsection \<open>Years, months and dates\<close>

definition day_from_year :: "int \<Rightarrow> int" where
  "day_from_year y =
     365 * (y - 1970) + (y - 1969) div 4 - (y - 1901) div 100 + (y - 1601) div 400"

definition in_leap_year :: "int \<Rightarrow> bool" where
  "in_leap_year y \<longleftrightarrow> 4 dvd y \<and> (\<not> 100 dvd y \<or> 400 dvd y)"

definition days_in_year :: "int \<Rightarrow> int" where
  "days_in_year y = (if in_leap_year y then 366 else 365)"

subsection \<open>The length of a year\<close>

lemma dvd_diff_shift: "(k::int) dvd c \<Longrightarrow> k dvd (y - c) \<longleftrightarrow> k dvd y"
  by (metis diff_add_cancel dvd_add dvd_diff)

lemma div_succ_step:
  assumes k: "0 < (k::int)"
  shows "(a + 1) div k = a div k + (if k dvd (a + 1) then 1 else 0)"
proof -
  have eq: "(a + 1) div k = a div k + (a mod k + 1) div k"
  proof (cases "k = 1")
    case True then show ?thesis by simp
  next
    case False
    with k have "1 div k = 0" "1 mod k = 1" by simp_all
    then show ?thesis by (simp add: div_add1_eq [of a 1 k])
  qed
  have m: "(a + 1) mod k = (a mod k + 1) mod k" by (simp add: mod_add_left_eq)
  have r: "0 \<le> a mod k" "a mod k < k" using k by simp_all
  show ?thesis
  proof (cases "a mod k + 1 = k")
    case True
    then have "k dvd (a + 1)" unfolding dvd_eq_mod_eq_0 m by simp
    then show ?thesis using eq True k by simp
  next
    case False
    with r have lt: "a mod k + 1 < k" by linarith
    have d0: "(a mod k + 1) div k = 0" using lt r by (intro div_pos_pos_trivial) simp_all
    have m1: "(a mod k + 1) mod k = a mod k + 1" using lt r by (intro mod_pos_pos_trivial) simp_all
    have "\<not> k dvd (a + 1)" unfolding dvd_eq_mod_eq_0 m m1 using r by linarith
    then show ?thesis using eq d0 by simp
  qed
qed

lemma day_from_year_succ: "day_from_year (y + 1) = day_from_year y + days_in_year y"
proof -
  have a: "(y + 1 - 1969) div 4 = (y - 1969) div 4 + (if 4 dvd y then 1 else 0)"
    using div_succ_step [of 4 "y - 1969"] dvd_diff_shift [of 4 1968 y] by simp
  have b: "(y + 1 - 1901) div 100 = (y - 1901) div 100 + (if 100 dvd y then 1 else 0)"
    using div_succ_step [of 100 "y - 1901"] dvd_diff_shift [of 100 1900 y] by simp
  have c: "(y + 1 - 1601) div 400 = (y - 1601) div 400 + (if 400 dvd y then 1 else 0)"
    using div_succ_step [of 400 "y - 1601"] dvd_diff_shift [of 400 1600 y] by simp
  have "(100::int) dvd 400" "(4::int) dvd 100" by simp_all
  then have d1: "400 dvd y \<Longrightarrow> 100 dvd y" and d2: "100 dvd y \<Longrightarrow> 4 dvd y"
    by (blast intro: dvd_trans)+
  have "day_from_year (y + 1) = day_from_year y + 365 + (if 4 dvd y then 1 else 0)
      - (if 100 dvd y then 1 else 0) + (if 400 dvd y then 1 else 0)"
    unfolding day_from_year_def a b c by simp
  also have "\<dots> = day_from_year y + days_in_year y"
  proof (cases "400 dvd y")
    case True
    with d1 d2 show ?thesis by (simp add: days_in_year_def in_leap_year_def)
  next
    case n400: False
    show ?thesis
    proof (cases "100 dvd y")
      case True
      with n400 d2 show ?thesis by (simp add: days_in_year_def in_leap_year_def)
    next
      case False
      with n400 show ?thesis by (simp add: days_in_year_def in_leap_year_def)
    qed
  qed
  finally show ?thesis .
qed
lemma days_in_year_bounds: "365 \<le> days_in_year y" "days_in_year y \<le> 366"
  by (simp_all add: days_in_year_def)

lemma day_from_year_less_succ: "day_from_year y < day_from_year (y + 1)"
  using day_from_year_succ [of y] days_in_year_bounds(1) [of y] by simp

text \<open>The correction loops of \<open>year_from_day\<close>: step down, then up.\<close>
function year_down :: "int \<Rightarrow> int \<Rightarrow> int" where
  "year_down d y = (if d < day_from_year y then year_down d (y - 1) else y)"
  by pat_completeness auto
termination
proof (relation "measure (\<lambda>(d, y). nat (day_from_year y - d))")
  fix d y :: int
  assume "d < day_from_year y"
  moreover have "day_from_year (y - 1) < day_from_year y"
    using day_from_year_less_succ [of "y - 1"] by simp
  ultimately show "((d, y - 1), d, y) \<in> measure (\<lambda>(d, y). nat (day_from_year y - d))"
    by simp
qed simp

function year_up :: "int \<Rightarrow> int \<Rightarrow> int" where
  "year_up d y = (if day_from_year (y + 1) \<le> d then year_up d (y + 1) else y)"
  by pat_completeness auto
termination
proof (relation "measure (\<lambda>(d, y). nat (d - day_from_year y))")
  fix d y :: int
  assume "day_from_year (y + 1) \<le> d"
  with day_from_year_less_succ [of y]
  show "((d, y + 1), d, y) \<in> measure (\<lambda>(d, y). nat (d - day_from_year y))"
    by simp
qed simp

declare year_down.simps [simp del] year_up.simps [simp del]

text \<open>
  YearFromTime, for a day number: start from the estimate of 365.2425 days a year
  and correct it.
\<close>
definition year_estimate :: "int \<Rightarrow> int" where
  "year_estimate d = 1970 + d * 400 div 146097"

definition year_from_day :: "int \<Rightarrow> int" where
  "year_from_day d = year_up d (year_down d (year_estimate d))"

text \<open>Days before month \<open>m\<close> (0-based, up to 12) of a year, leap or not.\<close>
definition month_start :: "bool \<Rightarrow> nat \<Rightarrow> int" where
  "month_start leap m =
     [0, 31, 59, 90, 120, 151, 181, 212, 243, 273, 304, 334, 365] ! m
     + (if leap \<and> 2 \<le> m then 1 else 0)"

definition days_in_month :: "bool \<Rightarrow> nat \<Rightarrow> int" where
  "days_in_month leap m = month_start leap (Suc m) - month_start leap m"

text \<open>MonthFromTime within a year: the last month that starts on or before \<open>w\<close>.\<close>
function month_search :: "bool \<Rightarrow> int \<Rightarrow> nat \<Rightarrow> nat" where
  "month_search leap w m = (if m < 11 \<and> month_start leap (Suc m) \<le> w then month_search leap w (Suc m) else m)"
  by pat_completeness auto
termination
  by (relation "measure (\<lambda>(leap, w, m). 11 - m)") auto

declare month_search.simps [simp del]

definition day_within_year :: "int \<Rightarrow> int" where
  "day_within_year d = d - day_from_year (year_from_day d)"

definition month_from_day :: "int \<Rightarrow> nat" where
  "month_from_day d = month_search (in_leap_year (year_from_day d)) (day_within_year d) 0"

definition date_from_day :: "int \<Rightarrow> int" where
  "date_from_day d =
     day_within_year d - month_start (in_leap_year (year_from_day d)) (month_from_day d) + 1"

text \<open>MakeDay(year, month, date), for finite integer arguments.\<close>
definition make_day :: "int \<Rightarrow> int \<Rightarrow> int \<Rightarrow> int" where
  "make_day y m dt =
     (let ym = y + m div 12; mn = nat (m mod 12) in
      day_from_year ym + month_start (in_leap_year ym) mn + dt - 1)"

definition get_full_year :: "int \<Rightarrow> time_value \<Rightarrow> int option" where
  "get_full_year tz tv = map_option (\<lambda>t. year_from_day (day (t + tz))) tv"

definition get_month :: "int \<Rightarrow> time_value \<Rightarrow> int option" where
  "get_month tz tv = map_option (\<lambda>t. int (month_from_day (day (t + tz)))) tv"

definition get_date :: "int \<Rightarrow> time_value \<Rightarrow> int option" where
  "get_date tz tv = map_option (\<lambda>t. date_from_day (day (t + tz))) tv"

subsection \<open>YearFromTime, MonthFromTime, DateFromTime and MakeDay\<close>

lemma day_from_year_add_nat: "day_from_year y + 365 * int k \<le> day_from_year (y + int k)"
proof (induction k)
  case 0
  then show ?case by simp
next
  case (Suc k)
  have e: "y + int k + 1 = y + int (Suc k)" by simp
  have "day_from_year (y + int k) + 365 \<le> day_from_year (y + int k + 1)"
    using day_from_year_succ [of "y + int k"] days_in_year_bounds(1) [of "y + int k"] by linarith
  then have step: "day_from_year (y + int k) + 365 \<le> day_from_year (y + int (Suc k))"
    unfolding e .
  have "365 * int (Suc k) = 365 * int k + 365" by simp
  with Suc.IH step show ?case by linarith
qed

lemma day_from_year_strict_mono: "y < y' \<Longrightarrow> day_from_year y < day_from_year y'"
proof -
  assume "y < y'"
  then obtain k where k: "y' = y + int (Suc k)" by (metis zless_iff_Suc_zadd)
  from day_from_year_add_nat [of y "Suc k"] k show ?thesis by simp
qed

lemma day_from_year_mono_iff: "day_from_year y < day_from_year y' \<longleftrightarrow> y < y'"
  by (metis day_from_year_strict_mono linorder_neqE_linordered_idom order_less_asym order_less_irrefl)

lemma year_down_le: "day_from_year (year_down d y) \<le> d"
proof (induction d y rule: year_down.induct)
  case (1 d y)
  then show ?case by (subst year_down.simps) (simp add: not_less)
qed

lemma year_up_bracket:
  "day_from_year y \<le> d \<Longrightarrow>
     day_from_year (year_up d y) \<le> d \<and> d < day_from_year (year_up d y + 1)"
proof (induction d y rule: year_up.induct)
  case (1 d y)
  show ?case
  proof (cases "day_from_year (y + 1) \<le> d")
    case True
    with "1.IH" show ?thesis by (simp add: year_up.simps [of d y])
  next
    case False
    with "1.prems" show ?thesis by (simp add: year_up.simps [of d y])
  qed
qed

theorem year_from_day_bracket:
  "day_from_year (year_from_day d) \<le> d \<and> d < day_from_year (year_from_day d + 1)"
  unfolding year_from_day_def by (rule year_up_bracket [OF year_down_le])

lemma year_from_day_unique:
  assumes "day_from_year y \<le> d" "d < day_from_year (y + 1)"
  shows "year_from_day d = y"
proof -
  have b: "day_from_year (year_from_day d) \<le> d" "d < day_from_year (year_from_day d + 1)"
    using year_from_day_bracket [of d] by simp_all
  have "\<not> y < year_from_day d"
  proof
    assume "y < year_from_day d"
    then have "y + 1 \<le> year_from_day d" by simp
    then have "day_from_year (y + 1) \<le> day_from_year (year_from_day d)"
      by (cases "y + 1 = year_from_day d") (simp_all add: less_imp_le day_from_year_strict_mono)
    with b assms show False by simp
  qed
  moreover have "\<not> year_from_day d < y"
  proof
    assume "year_from_day d < y"
    then have "year_from_day d + 1 \<le> y" by simp
    then have "day_from_year (year_from_day d + 1) \<le> day_from_year y"
      by (cases "year_from_day d + 1 = y") (simp_all add: less_imp_le day_from_year_strict_mono)
    with b assms show False by simp
  qed
  ultimately show ?thesis by simp
qed

text \<open>
  YearFromTime as ECMAScript defines it: the year computed from a day number is
  \<open>y\<close> exactly when the day lies in year \<open>y\<close>, between DayFromYear(y) and
  DayFromYear(y + 1).
\<close>
lemma year_from_day_iff:
  "year_from_day d = y \<longleftrightarrow> day_from_year y \<le> d \<and> d < day_from_year (y + 1)"
  using year_from_day_bracket [of d] year_from_day_unique [of y d] by auto

lemma month_start_0 [simp]: "month_start leap 0 = 0"
  by (simp add: month_start_def)

lemma month_start_12: "month_start (in_leap_year y) 12 = days_in_year y"
  by (simp add: month_start_def days_in_year_def)

lemma month_start_Suc_less: "m < 12 \<Longrightarrow> month_start leap m < month_start leap (Suc m)"
  by (auto simp: month_start_def less_Suc_eq numeral_eq_Suc)

lemma month_start_less: "m < m' \<Longrightarrow> m' \<le> 12 \<Longrightarrow> month_start leap m < month_start leap m'"
proof (induction m' rule: less_induct)
  case (less m')
  then obtain k where k: "m' = Suc k" by (cases m') auto
  show ?case
  proof (cases "m = k")
    case True
    with k less.prems show ?thesis by (simp add: month_start_Suc_less)
  next
    case False
    with k less.prems have "m < k" "k \<le> 12" "k < 12" by simp_all
    with less.IH [of k] k month_start_Suc_less [of k leap] show ?thesis by simp
  qed
qed

lemma month_start_nonneg: "m \<le> 12 \<Longrightarrow> 0 \<le> month_start leap m"
  using month_start_less [of 0 m leap] by (cases m) simp_all

lemma month_search_bracket:
  "m < 12 \<Longrightarrow> month_start leap m \<le> w \<Longrightarrow>
     month_search leap w m < 12 \<and> month_start leap (month_search leap w m) \<le> w \<and>
     (month_search leap w m = 11 \<or> w < month_start leap (Suc (month_search leap w m)))"
proof (induction leap w m rule: month_search.induct)
  case (1 leap w m)
  show ?case
  proof (cases "m < 11 \<and> month_start leap (Suc m) \<le> w")
    case True
    with "1.IH" show ?thesis by (simp add: month_search.simps [of leap w m])
  next
    case False
    with "1.prems" show ?thesis by (auto simp: month_search.simps [of leap w m])
  qed
qed

lemma month_search_unique:
  assumes "m < 12" "month_start leap m \<le> w" "w < month_start leap (Suc m)"
  shows "month_search leap w 0 = m"
proof -
  let ?r = "month_search leap w 0"
  have "0 \<le> w" using assms(1,2) month_start_nonneg [of m leap] by simp
  then have b: "?r < 12" "month_start leap ?r \<le> w" "?r = 11 \<or> w < month_start leap (Suc ?r)"
    using month_search_bracket [of 0 leap w] by simp_all
  have "\<not> ?r < m"
  proof
    assume lt: "?r < m"
    then have "Suc ?r \<le> m" by simp
    then have "month_start leap (Suc ?r) \<le> month_start leap m"
      using assms(1) by (cases "Suc ?r = m") (simp_all add: less_imp_le month_start_less)
    with lt b assms show False by auto
  qed
  moreover have "\<not> m < ?r"
  proof
    assume "m < ?r"
    then have "month_start leap (Suc m) \<le> month_start leap ?r"
      using b(1) by (cases "Suc m = ?r") (simp_all add: less_imp_le month_start_less)
    with b assms show False by simp
  qed
  ultimately show ?thesis by simp
qed

lemma day_within_year_bounds:
  "0 \<le> day_within_year d \<and> day_within_year d < days_in_year (year_from_day d)"
  using year_from_day_bracket [of d] day_from_year_succ [of "year_from_day d"]
  by (simp add: day_within_year_def)

lemma month_from_day_bracket:
  "month_from_day d < 12 \<and>
   month_start (in_leap_year (year_from_day d)) (month_from_day d) \<le> day_within_year d \<and>
   day_within_year d < month_start (in_leap_year (year_from_day d)) (Suc (month_from_day d))"
proof -
  let ?L = "in_leap_year (year_from_day d)" and ?w = "day_within_year d"
  have w: "0 \<le> ?w" "?w < month_start ?L 12"
    using day_within_year_bounds [of d] month_start_12 [of "year_from_day d"] by simp_all
  then have b: "month_search ?L ?w 0 < 12" "month_start ?L (month_search ?L ?w 0) \<le> ?w"
      "month_search ?L ?w 0 = 11 \<or> ?w < month_start ?L (Suc (month_search ?L ?w 0))"
    using month_search_bracket [of 0 ?L ?w] by simp_all
  with w show ?thesis unfolding month_from_day_def by (auto simp: numeral_eq_Suc)
qed

theorem date_from_day_bounds:
  "1 \<le> date_from_day d \<and>
   date_from_day d \<le> days_in_month (in_leap_year (year_from_day d)) (month_from_day d)"
  using month_from_day_bracket [of d] by (simp add: date_from_day_def days_in_month_def)

lemma make_day_decompose:
  "make_day (year_from_day d) (int (month_from_day d)) (date_from_day d) = d"
proof -
  have "month_from_day d < 12" using month_from_day_bracket [of d] by simp
  then have "int (month_from_day d) div 12 = 0" "nat (int (month_from_day d) mod 12) = month_from_day d"
    by simp_all
  then show ?thesis
    by (simp add: make_day_def date_from_day_def day_within_year_def)
qed

lemma decompose_make_day:
  assumes m: "m < 12" and dt: "1 \<le> dt" "dt \<le> days_in_month (in_leap_year y) m"
  shows "year_from_day (make_day y (int m) dt) = y \<and> month_from_day (make_day y (int m) dt) = m \<and>
    date_from_day (make_day y (int m) dt) = dt"
proof -
  let ?L = "in_leap_year y" and ?d = "make_day y (int m) dt"
  have d: "?d = day_from_year y + month_start ?L m + dt - 1"
    using m by (simp add: make_day_def)
  have ms: "0 \<le> month_start ?L m" "month_start ?L (Suc m) \<le> month_start ?L 12"
    using m month_start_nonneg [of m ?L] month_start_less [of "Suc m" 12 ?L]
    by (cases "Suc m = 12"; simp)+
  have y: "year_from_day ?d = y"
  proof (rule year_from_day_unique)
    show "day_from_year y \<le> ?d" using d ms dt by simp
    show "?d < day_from_year (y + 1)"
      using d ms dt day_from_year_succ [of y] month_start_12 [of y]
      by (simp add: days_in_month_def)
  qed
  then have w: "day_within_year ?d = month_start ?L m + dt - 1"
    using d by (simp add: day_within_year_def)
  have mo: "month_from_day ?d = m"
    unfolding month_from_day_def y w
    using m dt by (intro month_search_unique) (simp_all add: days_in_month_def)
  show ?thesis using y mo w by (simp add: date_from_day_def)
qed


subsection \<open>Local time fields and setHours\<close>

lemma local_fields:
  fixes D h m :: int
  assumes "0 \<le> h" "h < 24" "0 \<le> m" "m < 60"
  shows "day (D * ms_per_day + h * ms_per_hour + m * ms_per_minute) = D"
    and "hour_from_time (D * ms_per_day + h * ms_per_hour + m * ms_per_minute) = h"
    and "min_from_time (D * ms_per_day + h * ms_per_hour + m * ms_per_minute) = m"
proof -
  let ?u = "D * ms_per_day + h * ms_per_hour + m * ms_per_minute"
  have u1: "?u = (h * ms_per_hour + m * ms_per_minute) + D * ms_per_day" by simp
  have "(h * ms_per_hour + m * ms_per_minute) div ms_per_day = 0" using assms by simp
  then show "day ?u = D" unfolding day_def u1 by simp
  have u2: "?u = m * ms_per_minute + (D * 24 + h) * ms_per_hour" by (simp add: algebra_simps)
  have "(m * ms_per_minute) div ms_per_hour = 0" using assms(3,4) by simp
  then have "?u div ms_per_hour = D * 24 + h" unfolding u2 by simp
  then show "hour_from_time ?u = h" using assms(1,2) by (simp add: hour_from_time_def)
  have u3: "?u = m * ms_per_minute + (D * 1440 + h * 60) * ms_per_minute" by (simp add: algebra_simps)
  then have q: "?u div ms_per_minute = m + (D * 24 + h) * 60" using assms(3,4) by simp
  have r: "(m + (D * 24 + h) * 60) mod 60 = m"
    unfolding mod_mult_self1 using assms(3,4) by simp
  show "min_from_time ?u = m" unfolding min_from_time_def q r ..
qed



lemma set_hours_general:
  assumes "0 \<le> h" "h < 24" "0 \<le> m" "m < 60" "0 \<le> s" "s < 60" "0 \<le> ms" "ms < 1000"
    and "\<bar>t\<bar> + ms_per_day \<le> max_time_value"
  shows "set_hours tz (Some t) (Some h) (Some m) (Some s) (Some ms) =
           Some (day (t + tz) * ms_per_day + (h * ms_per_hour + m * ms_per_minute + s * ms_per_second + ms) - tz)"
proof -
  let ?x = "t + tz"
  have lo: "day ?x * ms_per_day \<le> ?x" and hi: "?x < day ?x * ms_per_day + ms_per_day"
    unfolding day_def using div_mult_mod_eq [of ?x ms_per_day] pos_mod_bound [of ms_per_day ?x]
      pos_mod_sign [of ms_per_day ?x] by linarith+
  have "0 \<le> h * ms_per_hour + m * ms_per_minute + s * ms_per_second + ms"
       "h * ms_per_hour + m * ms_per_minute + s * ms_per_second + ms < ms_per_day"
    using assms(1-8) by simp_all
  with lo hi assms(9) have "\<bar>day ?x * ms_per_day + (h * ms_per_hour + m * ms_per_minute + s * ms_per_second + ms) - tz\<bar>
      \<le> max_time_value" by linarith
  then show ?thesis by (simp add: set_hours_def make_time_def make_date_def time_clip_def Let_def)
qed

lemma set_hours_in_range:
  assumes "0 \<le> h" "h < 24" "0 \<le> m" "m < 60" "\<bar>t\<bar> + ms_per_day \<le> max_time_value"
  shows "set_hours tz (Some t) (Some h) (Some m) (Some 0) (Some 0) =
           Some (day (t + tz) * ms_per_day + h * ms_per_hour + m * ms_per_minute - tz)"
  using set_hours_general [of h m 0 0 t tz] assms by (simp add: add.assoc)

subsection \<open>Shifting by whole days\<close>

lemma make_day_shift: "make_day y m (dt + k) = make_day y m dt + k"
  by (simp add: make_day_def Let_def)

lemma time_within_day_split: "time_within_day t = t - day t * ms_per_day"
  by (simp add: time_within_day_def day_def minus_div_mult_eq_mod [symmetric])

lemma day_shift: "day (t + k * ms_per_day) = day t + k"
  by (simp add: day_def)

lemma days_in_month_bounds: "m < 12 \<Longrightarrow> 28 \<le> days_in_month leap m \<and> days_in_month leap m \<le> 31"
  by (auto simp: days_in_month_def month_start_def less_Suc_eq numeral_eq_Suc)

lemma day_from_year_le_mono: "y \<le> y' \<Longrightarrow> day_from_year y \<le> day_from_year y'"
  using day_from_year_mono_iff [of y y'] by (cases "y = y'") auto

text \<open>The days of the four-digit years 0000 to 9999 lie well inside the range of \<open>Date\<close>.\<close>
lemma make_day_range:
  assumes "0 \<le> y" "y \<le> 9999" "m < 12" "1 \<le> dt" "dt \<le> 31"
  shows "-719528 \<le> make_day y (int m) dt \<and> make_day y (int m) dt \<le> 2932896 + 396"
proof -
  have "day_from_year 0 \<le> day_from_year y" "day_from_year y \<le> day_from_year 9999"
    using assms(1,2) by (simp_all add: day_from_year_le_mono)
  moreover have "day_from_year 0 = -719528" "day_from_year 9999 = 2932532"
    by (simp_all add: day_from_year_def)
  moreover have "0 \<le> month_start (in_leap_year y) m" "month_start (in_leap_year y) m \<le> 335"
    using assms(3) by (auto simp: month_start_def less_Suc_eq numeral_eq_Suc)
  moreover have "make_day y (int m) dt = day_from_year y + month_start (in_leap_year y) m + dt - 1"
    using assms(3) by (simp add: make_day_def)
  ultimately show ?thesis using assms(4,5) by linarith
qed


subsection \<open>The correction loops are short\<close>

text \<open>DayFromYear lies within two days of 365.2425 days a year from 1970.\<close>
lemma day_from_year_linear:
  "146097 * (y - 1970) - 606 \<le> 400 * day_from_year y \<and> 400 * day_from_year y \<le> 146097 * (y - 1970) + 593"
proof -
  define a b c where "a = (y - 1969) div 4" and "b = (y - 1901) div 100" and "c = (y - 1601) div 400"
  have "day_from_year y = 365 * (y - 1970) + a - b + c" by (simp add: day_from_year_def a_def b_def c_def)
  moreover have "y - 1969 - 4 < 4 * a" "4 * a \<le> y - 1969"
    using int_div_bounds [of 4 "y - 1969"] by (simp_all add: a_def)
  moreover have "y - 1901 - 100 < 100 * b" "100 * b \<le> y - 1901"
    using int_div_bounds [of 100 "y - 1901"] by (simp_all add: b_def)
  moreover have "y - 1601 - 400 < 400 * c" "400 * c \<le> y - 1601"
    using int_div_bounds [of 400 "y - 1601"] by (simp_all add: c_def)
  ultimately show ?thesis unfolding right_diff_distrib distrib_left by linarith
qed

lemma year_estimate_close:
  "year_from_day d - 1 \<le> year_estimate d \<and> year_estimate d \<le> year_from_day d + 1"
proof -
  define Y q where "Y = year_from_day d" and "q = d * 400 div 146097"
  have b: "day_from_year Y \<le> d" "d < day_from_year (Y + 1)" using year_from_day_bracket [of d] by (simp_all add: Y_def)
  have q: "d * 400 - 146097 < 146097 * q" "146097 * q \<le> d * 400"
    using int_div_bounds [of 146097 "d * 400"] by (simp_all add: q_def)
  have l: "146097 * (Y - 1970) - 606 \<le> 400 * day_from_year Y" using day_from_year_linear [of Y] by simp
  have u: "400 * day_from_year (Y + 1) \<le> 146097 * (Y + 1 - 1970) + 593" using day_from_year_linear [of "Y + 1"] by simp
  have "146097 * (Y - 1971 - q) < 606" using b(1) q(1) l unfolding right_diff_distrib by linarith
  then have "Y - 1971 - q < 1" by (intro mult_less_self_one [of 146097]) simp_all
  moreover have "146097 * (q - Y + 1969) < 593" using b(2) q(2) u unfolding right_diff_distrib distrib_left by linarith
  then have "q - Y + 1969 < 1" by (intro mult_less_self_one [of 146097]) simp_all
  ultimately show ?thesis by (simp add: year_estimate_def Y_def q_def)
qed

lemma year_down_stop: "day_from_year y \<le> d \<Longrightarrow> year_down d y = y"
  by (simp add: year_down.simps [of d y])

text \<open>
  The correction loops of YearFromTime end after at most one iteration each:
  the estimate of 365.2425 days a year is never more than one year off, so
  \<open>year_down\<close> steps down at most once and \<open>year_up\<close> steps up at most once.
\<close>
lemma year_loops_bounded:
  "year_estimate d - 1 \<le> year_down d (year_estimate d) \<and> year_down d (year_estimate d) \<le> year_estimate d \<and>
   year_from_day d \<le> year_down d (year_estimate d) + 1"
proof -
  define Y e where "Y = year_from_day d" and "e = year_estimate d"
  have b: "day_from_year Y \<le> d" "d < day_from_year (Y + 1)" using year_from_day_bracket [of d] by (simp_all add: Y_def)
  have c: "Y - 1 \<le> e" "e \<le> Y + 1" using year_estimate_close [of d] by (simp_all add: Y_def e_def)
  have "year_down d e = min e Y"
  proof (cases "e = Y + 1")
    case True
    have "year_down d (Y + 1) = year_down d Y" using b(2) by (subst year_down.simps) simp
    then show ?thesis using year_down_stop [OF b(1)] True by simp
  next
    case False
    then have "e \<le> Y" using c by simp
    then have "day_from_year e \<le> d" using b(1) day_from_year_le_mono [of e Y] by simp
    then show ?thesis using year_down_stop \<open>e \<le> Y\<close> by simp
  qed
  then show ?thesis using c by (simp add: Y_def e_def)
qed

end
