(* ===== verification/JsDateParse.thy ===== *)
theory JsDateParse
  imports JsNumber JsDate
begin

text \<open>
  \<open>new Date(string)\<close> on the strings the web pages build,
  \<open>`${slot.date}T${slot.startTime}`\<close> (admin/slots/CalendarView.tsx lines 29-30,
  principal/calendar/page.tsx lines 86-87): ECMAScript's Date Time String Format
  \<open>YYYY-MM-DDTHH:mm\<close>, optionally with \<open>:ss\<close> and \<open>.sss\<close>. Without a UTC offset a
  date-time form is local time. Field values out of range give an invalid date
  (\<open>None\<close>); date-only forms and forms with \<open>Z\<close> or an offset are read as ECMAScript
  says; a string outside the format goes to the engine's legacy parser, which
  is implementation-defined and is a parameter \<open>fb\<close> here. The theory also holds the
  "YYYY-MM-DD" and "HH:MM" string formats of the data and their field readers.
\<close>

subsection \<open>The Date Time String Format\<close>

text \<open>The \<open>n\<close> characters from position \<open>i\<close> as a decimal number, if all are digits.\<close>
definition digits_field :: "string \<Rightarrow> nat \<Rightarrow> nat \<Rightarrow> nat option" where
  "digits_field s i n =
     (let f = take n (drop i s) in
      if length f = n \<and> list_all is_dec_digit f then Some (dec_value f) else None)"

definition iso_separators :: "string \<Rightarrow> bool" where
  "iso_separators s \<longleftrightarrow>
     (length s = 16 \<or> length s = 19 \<or> length s = 23) \<and>
     s ! 4 = CHR ''-'' \<and> s ! 7 = CHR ''-'' \<and> s ! 10 = CHR ''T'' \<and> s ! 13 = CHR '':'' \<and>
     (if 19 \<le> length s then s ! 16 = CHR '':'' else True) \<and>
     (if length s = 23 then s ! 19 = CHR ''.'' else True)"

text \<open>Year, month, day, hours, minutes, seconds and milliseconds of a local date-time string.\<close>
definition iso_fields :: "string \<Rightarrow> (nat \<times> nat \<times> nat \<times> nat \<times> nat \<times> nat \<times> nat) option" where
  "iso_fields s =
     (if iso_separators s then
        (case (digits_field s 0 4, digits_field s 5 2, digits_field s 8 2, digits_field s 11 2,
               digits_field s 14 2, if 19 \<le> length s then digits_field s 17 2 else Some 0,
               if length s = 23 then digits_field s 20 3 else Some 0) of
           (Some y, Some mo, Some d, Some h, Some mi, Some sec, Some ms) \<Rightarrow> Some (y, mo, d, h, mi, sec, ms)
         | _ \<Rightarrow> None)
      else None)"

text \<open>
  The ranges of the format: month 01-12, day 01-31, hours 00-24 (24 only as
  \<open>24:00:00.000\<close>, the end of the day), minutes and seconds 00-59. A day past the
  end of its month is in range and MakeDay carries it into the next month.
\<close>
definition iso_in_range :: "nat \<times> nat \<times> nat \<times> nat \<times> nat \<times> nat \<times> nat \<Rightarrow> bool" where
  "iso_in_range f =
     (case f of (y, mo, d, h, mi, sec, ms) \<Rightarrow>
        1 \<le> mo \<and> mo \<le> 12 \<and> 1 \<le> d \<and> d \<le> 31 \<and> mi \<le> 59 \<and> sec \<le> 59 \<and>
        (h \<le> 23 \<or> h = 24 \<and> mi = 0 \<and> sec = 0 \<and> ms = 0))"

text \<open>
  The time value of the fields of a date-time string whose offset from UTC is
  \<open>off\<close>: MakeDate(MakeDay(y, mo - 1, d), MakeTime(h, mi, sec, ms)) - off, then
  TimeClip; \<open>None\<close> when a field is out of range.
\<close>
definition iso_value :: "nat \<times> nat \<times> nat \<times> nat \<times> nat \<times> nat \<times> nat \<Rightarrow> int \<Rightarrow> time_value" where
  "iso_value f off =
     (case f of (y, mo, d, h, mi, sec, ms) \<Rightarrow>
        if iso_in_range f then
          time_clip (Some (make_day (int y) (int mo - 1) (int d) * ms_per_day
            + (int h * ms_per_hour + int mi * ms_per_minute + int sec * ms_per_second + int ms) - off))
        else None)"

text \<open>
  The date-only forms \<open>YYYY\<close>, \<open>YYYY-MM\<close> and \<open>YYYY-MM-DD\<close>, with the missing
  month and day 1 and the time 00:00:00.000.
\<close>
definition date_only_fields :: "string \<Rightarrow> (nat \<times> nat \<times> nat \<times> nat \<times> nat \<times> nat \<times> nat) option" where
  "date_only_fields s =
     (if length s = 4 then
        (case digits_field s 0 4 of Some y \<Rightarrow> Some (y, 1, 1, 0, 0, 0, 0) | None \<Rightarrow> None)
      else if length s = 7 \<and> s ! 4 = CHR ''-'' then
        (case (digits_field s 0 4, digits_field s 5 2) of
           (Some y, Some mo) \<Rightarrow> Some (y, mo, 1, 0, 0, 0, 0)
         | _ \<Rightarrow> None)
      else if length s = 10 \<and> s ! 4 = CHR ''-'' \<and> s ! 7 = CHR ''-'' then
        (case (digits_field s 0 4, digits_field s 5 2, digits_field s 8 2) of
           (Some y, Some mo, Some d) \<Rightarrow> Some (y, mo, d, 0, 0, 0, 0)
         | _ \<Rightarrow> None)
      else None)"

text \<open>
  A UTC offset \<open>+HH:mm\<close> or \<open>-HH:mm\<close> (hours 00-23, minutes 00-59), in
  milliseconds east of UTC.
\<close>
definition utc_offset :: "string \<Rightarrow> int option" where
  "utc_offset z =
     (if length z = 6 \<and> (z ! 0 = CHR ''+'' \<or> z ! 0 = CHR ''-'') \<and> z ! 3 = CHR '':'' then
        (case (digits_field z 1 2, digits_field z 4 2) of
           (Some h, Some m) \<Rightarrow>
             if h \<le> 23 \<and> m \<le> 59 then
               Some ((if z ! 0 = CHR ''-'' then -1 else 1) * (int h * ms_per_hour + int m * ms_per_minute))
             else None
         | _ \<Rightarrow> None)
      else None)"

text \<open>
  \<open>new Date(s)\<close> (ECMAScript 21.4.3.1 and 21.4.3.2): a date-time form without an
  offset is local time (offset \<open>tz\<close>); a date-only form is UTC; a date-time form
  with the suffix \<open>Z\<close> is UTC (as \<open>toISOString\<close> and JSON write dates), and with
  a suffix \<open>+HH:mm\<close> or \<open>-HH:mm\<close> it is at that offset. Anything else goes to
  the legacy parser \<open>fb\<close>. Expanded years (\<open>+YYYYYY\<close>) are left to \<open>fb\<close>.
\<close>
definition parse_date :: "(string \<Rightarrow> time_value) \<Rightarrow> int \<Rightarrow> string \<Rightarrow> time_value" where
  "parse_date fb tz s =
     (case iso_fields s of
        Some f \<Rightarrow> iso_value f tz
      | None \<Rightarrow>
          (case date_only_fields s of
             Some f \<Rightarrow> iso_value f 0
           | None \<Rightarrow>
               (if s \<noteq> [] \<and> last s = CHR ''Z'' \<and> iso_fields (butlast s) \<noteq> None then
                  (case iso_fields (butlast s) of Some f \<Rightarrow> iso_value f 0 | None \<Rightarrow> fb s)
                else
                  (case (iso_fields (take (length s - 6) s), utc_offset (drop (length s - 6) s)) of
                     (Some f, Some off) \<Rightarrow> iso_value f off
                   | _ \<Rightarrow> fb s))))"

subsection \<open>Well-formed dates and times\<close>

text \<open>
  The spec's format of \<open>slotStartTime\<close> and \<open>slotEndTime\<close>: "HH:MM", two
  digits each, a 24-hour time. \<open>hh\<close> and \<open>mm\<close> read its two fields.
\<close>
definition hh :: "string \<Rightarrow> nat" where
  "hh s = dec_value (take 2 s)"

definition mm :: "string \<Rightarrow> nat" where
  "mm s = dec_value (drop 3 s)"

definition hhmm_ok :: "string \<Rightarrow> bool" where
  "hhmm_ok s \<longleftrightarrow> length s = 5 \<and> s ! 2 = CHR '':'' \<and>
     list_all is_dec_digit [s ! 0, s ! 1, s ! 3, s ! 4] \<and> hh s < 24 \<and> mm s < 60"

text \<open>The "YYYY-MM-DD" format of a slot's \<open>date\<close> and its three fields.\<close>
definition ymd_ok :: "string \<Rightarrow> bool" where
  "ymd_ok s \<longleftrightarrow> length s = 10 \<and> s ! 4 = CHR ''-'' \<and> s ! 7 = CHR ''-'' \<and>
     list_all is_dec_digit [s ! 0, s ! 1, s ! 2, s ! 3, s ! 5, s ! 6, s ! 8, s ! 9]"

definition ymd_year :: "string \<Rightarrow> nat" where
  "ymd_year s = dec_value (take 4 s)"

definition ymd_month :: "string \<Rightarrow> nat" where
  "ymd_month s = dec_value (take 2 (drop 5 s))"

definition ymd_day :: "string \<Rightarrow> nat" where
  "ymd_day s = dec_value (drop 8 s)"

subsection \<open>Lemmas\<close>

lemma hhmm_shape:
  assumes "hhmm_ok s"
  obtains a b c e where "s = [a, b, CHR '':'', c, e]" "is_dec_digit a" "is_dec_digit b"
    "is_dec_digit c" "is_dec_digit e" "hh s = dec_value [a, b]" "mm s = dec_value [c, e]"
proof -
  from assms have "length s = 5" by (simp add: hhmm_ok_def)
  then obtain a b x c e where s: "s = [a, b, x, c, e]" using length5_cases by blast
  from assms have "x = CHR '':''" "is_dec_digit a" "is_dec_digit b" "is_dec_digit c" "is_dec_digit e"
    by (simp_all add: hhmm_ok_def s)
  moreover have "hh s = dec_value [a, b]" "mm s = dec_value [c, e]"
    by (simp_all add: hh_def mm_def s)
  ultimately show ?thesis using that s by blast
qed


lemma digit_not_colon: "is_dec_digit c \<Longrightarrow> c \<noteq> CHR '':''"
  by (auto simp: is_dec_digit_def)


lemma hhmm_ranges: "hhmm_ok s \<Longrightarrow> 0 \<le> int (hh s) \<and> int (hh s) < 24 \<and> 0 \<le> int (mm s) \<and> int (mm s) < 60"
  by (simp add: hhmm_ok_def)


lemma hhmm_less:
  assumes "hhmm_ok a" "hhmm_ok b"
  shows "js_str_less a b \<longleftrightarrow> 60 * hh a + mm a < 60 * hh b + mm b"
proof -
  obtain a0 a1 a3 a4 where a: "a = [a0, a1, CHR '':'', a3, a4]" and da: "is_dec_digit a0" "is_dec_digit a1"
    "is_dec_digit a3" "is_dec_digit a4" and va: "hh a = dec_value [a0, a1]" "mm a = dec_value [a3, a4]"
    using assms(1) by (rule hhmm_shape)
  obtain b0 b1 b3 b4 where b: "b = [b0, b1, CHR '':'', b3, b4]" and db: "is_dec_digit b0" "is_dec_digit b1"
    "is_dec_digit b3" "is_dec_digit b4" and vb: "hh b = dec_value [b0, b1]" "mm b = dec_value [b3, b4]"
    using assms(2) by (rule hhmm_shape)
  have m60: "mm a < 60" "mm b < 60" using assms by (simp_all add: hhmm_ok_def)
  note d10 = digit_val_less_10 [OF da(1)] digit_val_less_10 [OF da(2)] digit_val_less_10 [OF da(3)]
    digit_val_less_10 [OF da(4)] digit_val_less_10 [OF db(1)] digit_val_less_10 [OF db(2)]
    digit_val_less_10 [OF db(3)] digit_val_less_10 [OF db(4)]
  have "60 * hh a + mm a < 60 * hh b + mm b \<longleftrightarrow> hh a < hh b \<or> hh a = hh b \<and> mm a < mm b"
    by (rule lex_pair(1) [OF m60])
  also have "\<dots> \<longleftrightarrow> js_str_less a b"
    unfolding va vb dec_value_two lex_pair [OF d10(2) d10(6)] lex_pair [OF d10(4) d10(8)]
    by (auto simp: a b digit_compare [OF da(1) db(1)] digit_compare [OF da(2) db(2)]
        digit_compare [OF da(4) db(4)] digit_compare [OF da(3) db(3)])
  finally show ?thesis by simp
qed

lemma ymd_shape:
  assumes "ymd_ok s"
  obtains a b c d e f g h where "s = [a, b, c, d, CHR ''-'', e, f, CHR ''-'', g, h]"
    "list_all is_dec_digit [a, b, c, d, e, f, g, h]"
    "ymd_year s = dec_value [a, b, c, d]" "ymd_month s = dec_value [e, f]" "ymd_day s = dec_value [g, h]"
proof -
  from assms have l: "length s = 10" by (simp add: ymd_ok_def)
  obtain a b c d x e f y g h where s: "s = [a, b, c, d, x, e, f, y, g, h]"
    using length10_cases [OF l] by blast
  from assms have "x = CHR ''-''" "y = CHR ''-''" "list_all is_dec_digit [a, b, c, d, e, f, g, h]"
    by (simp_all add: ymd_ok_def s)
  moreover have "ymd_year s = dec_value [a, b, c, d]" "ymd_month s = dec_value [e, f]"
      "ymd_day s = dec_value [g, h]"
    by (simp_all add: ymd_year_def ymd_month_def ymd_day_def s)
  ultimately show ?thesis using that s by blast
qed

lemma ymd_year_bound: "ymd_ok s \<Longrightarrow> ymd_year s < 10000"
  by (erule ymd_shape) (use dec_value_bound [of "[_, _, _, _]"] in simp)

text \<open>The string \<open>`${date}T${time}`\<close> of a well-formed date and time is in the format.\<close>
lemma iso_fields_slot:
  assumes "ymd_ok ds" "hhmm_ok ts"
  shows "iso_fields (ds @ ''T'' @ ts) = Some (ymd_year ds, ymd_month ds, ymd_day ds, hh ts, mm ts, 0, 0)"
proof -
  obtain a b c d e f g h where ds: "ds = [a, b, c, d, CHR ''-'', e, f, CHR ''-'', g, h]"
    and dd: "list_all is_dec_digit [a, b, c, d, e, f, g, h]"
    and v: "ymd_year ds = dec_value [a, b, c, d]" "ymd_month ds = dec_value [e, f]"
      "ymd_day ds = dec_value [g, h]"
    using assms(1) by (rule ymd_shape)
  obtain p q r u where ts: "ts = [p, q, CHR '':'', r, u]" and dt: "is_dec_digit p" "is_dec_digit q"
    "is_dec_digit r" "is_dec_digit u" and w: "hh ts = dec_value [p, q]" "mm ts = dec_value [r, u]"
    using assms(2) by (rule hhmm_shape)
  show ?thesis
    using dd dt unfolding v w
    by (simp add: ds ts iso_fields_def iso_separators_def digits_field_def)
qed

subsection \<open>Parsing a slot's date and time\<close>

text \<open>
  \<open>new Date(`${date}T${time}`)\<close> on a valid "YYYY-MM-DD" date and an "HH:MM"
  time, in a zone less than a day from UTC, is a valid date whose local year, month
  (counted from 0), day, hours and minutes are the fields of the two strings.
\<close>
lemma parse_date_local:
  assumes "ymd_ok ds" "hhmm_ok ts" "1 \<le> ymd_month ds" "ymd_month ds \<le> 12" "1 \<le> ymd_day ds"
    and "int (ymd_day ds) \<le> days_in_month (in_leap_year (int (ymd_year ds))) (ymd_month ds - 1)"
    and "\<bar>tz\<bar> \<le> ms_per_day"
  shows "\<exists>t. parse_date fb tz (ds @ ''T'' @ ts) = Some t \<and>
    get_full_year tz (Some t) = Some (int (ymd_year ds)) \<and>
    get_month tz (Some t) = Some (int (ymd_month ds) - 1) \<and>
    get_date tz (Some t) = Some (int (ymd_day ds)) \<and>
    get_hours tz (Some t) = Some (int (hh ts)) \<and> get_minutes tz (Some t) = Some (int (mm ts))"
proof -
  let ?y = "ymd_year ds" and ?m = "ymd_month ds - 1" and ?d = "ymd_day ds"
  let ?D = "make_day (int ?y) (int ?m) (int ?d)"
  let ?t = "?D * ms_per_day + (int (hh ts) * ms_per_hour + int (mm ts) * ms_per_minute) - tz"
  have m: "?m < 12" and mi: "int (ymd_month ds) - 1 = int ?m" using assms(3,4) by simp_all
  have dm: "days_in_month (in_leap_year (int ?y)) ?m \<le> 31" using days_in_month_bounds [OF m] by simp
  have r: "0 \<le> int (hh ts)" "int (hh ts) < 24" "0 \<le> int (mm ts)" "int (mm ts) < 60"
    using hhmm_ranges [OF assms(2)] by simp_all
  have D: "-719528 \<le> ?D" "?D \<le> 2932896 + 396"
    using make_day_range [of "int ?y" ?m "int ?d"] ymd_year_bound [OF assms(1)] m assms(5,6) dm
    by simp_all
  have range: "iso_in_range (?y, ymd_month ds, ?d, hh ts, mm ts, 0, 0)"
    using assms(3-6) dm r by (simp add: iso_in_range_def)
  have clip: "\<bar>?t\<bar> \<le> max_time_value" using D r assms(7) by linarith
  have p: "parse_date fb tz (ds @ ''T'' @ ts) = Some ?t"
    using range clip unfolding parse_date_def iso_fields_slot [OF assms(1,2)]
    by (simp add: iso_value_def time_clip_def mi)
  have lt: "?t + tz = ?D * ms_per_day + int (hh ts) * ms_per_hour + int (mm ts) * ms_per_minute" by simp
  have loc: "day (?t + tz) = ?D" "hour_from_time (?t + tz) = int (hh ts)"
      "min_from_time (?t + tz) = int (mm ts)"
    unfolding lt by (rule local_fields [OF r])+
  have fields: "year_from_day ?D = int ?y" "int (month_from_day ?D) = int (ymd_month ds) - 1"
      "date_from_day ?D = int ?d"
    using decompose_make_day [OF m, of "int ?d" "int ?y"] assms(3,5,6) by simp_all
  show ?thesis
    unfolding get_full_year_def get_month_def get_date_def get_hours_def get_minutes_def
  proof (intro exI conjI)
    show "parse_date fb tz (ds @ ''T'' @ ts) = Some ?t" by (rule p)
  qed (simp_all only: option.map loc fields)
qed


end
