(* ===== verification/Base64.thy ===== *)
theory Base64
  imports Prelude "HOL-Library.Word"
begin

text \<open>
  The attachment encoding of email.ts (lines 145 and 245):
  \<open>Buffer.from(icsContent).toString('base64')\<close>. \<open>Buffer.from\<close> of a string
  encodes it in UTF-8; each modelled character is a code unit U+0000..U+00FF, which
  UTF-8 writes as one byte below U+0080 and as two bytes otherwise. The bytes are
  \<open>8 word\<close>s. \<open>toString('base64')\<close> is RFC 4648 base64 with the standard
  alphabet and \<open>=\<close> padding. A decoder is given for the round-trip theorem.
\<close>

type_synonym byte = "8 word"

definition utf8_encode_char :: "char \<Rightarrow> byte list" where
  "utf8_encode_char c =
     (let n = (of_char c :: nat) in
      if n < 128 then [of_nat n] else [of_nat (192 + n div 64), of_nat (128 + n mod 64)])"

definition utf8_encode :: "string \<Rightarrow> byte list" where
  "utf8_encode s = concat (map utf8_encode_char s)"

text \<open>
  The standard alphabet \<open>A-Z a-z 0-9 + /\<close>: digit \<open>i\<close> is the character with
  code 65 + i, 71 + i, i - 4, 43 or 47 in the five ranges.
\<close>
definition b64_char :: "nat \<Rightarrow> char" where
  "b64_char i = char_of (if i < 26 then 65 + i else if i < 52 then 71 + i else if i < 62 then i - 4
                         else if i = 62 then 43 else 47 :: nat)"

text \<open>Three bytes as one 24-bit number, and its four 6-bit digits.\<close>
definition group24 :: "byte \<Rightarrow> byte \<Rightarrow> byte \<Rightarrow> nat" where
  "group24 a b c = unat a * 65536 + unat b * 256 + unat c"

definition sextets :: "nat \<Rightarrow> nat list" where
  "sextets n = [n div 262144, n div 4096 mod 64, n div 64 mod 64, n mod 64]"

fun base64_encode :: "byte list \<Rightarrow> string" where
  "base64_encode (a # b # c # rest) = map b64_char (sextets (group24 a b c)) @ base64_encode rest"
| "base64_encode [a, b] = map b64_char (take 3 (sextets (group24 a b 0))) @ ''=''"
| "base64_encode [a] = map b64_char (take 2 (sextets (group24 a 0 0))) @ ''==''"
| "base64_encode [] = []"

text \<open>\<open>Buffer.from(s).toString('base64')\<close>.\<close>
definition buffer_base64 :: "string \<Rightarrow> string" where
  "buffer_base64 s = base64_encode (utf8_encode s)"

subsection \<open>Decoding\<close>

definition b64_value :: "char \<Rightarrow> nat option" where
  "b64_value c =
     (let n = (of_char c :: nat) in
      if 65 \<le> n \<and> n \<le> 90 then Some (n - 65)
      else if 97 \<le> n \<and> n \<le> 122 then Some (n - 71)
      else if 48 \<le> n \<and> n \<le> 57 then Some (n + 4)
      else if n = 43 then Some 62 else if n = 47 then Some 63 else None)"

definition ungroup24 :: "nat \<Rightarrow> byte list" where
  "ungroup24 n = [of_nat (n div 65536), of_nat (n div 256 mod 256), of_nat (n mod 256)]"

definition unsextets :: "nat list \<Rightarrow> nat" where
  "unsextets ds = foldl (\<lambda>acc d. acc * 64 + d) 0 ds"

fun base64_decode :: "string \<Rightarrow> byte list option" where
  "base64_decode [] = Some []"
| "base64_decode [c0, c1, c2, c3] =
     (if c2 = CHR ''='' \<and> c3 = CHR ''='' then
        (case (b64_value c0, b64_value c1) of
           (Some i0, Some i1) \<Rightarrow> Some (take 1 (ungroup24 (unsextets [i0, i1, 0, 0])))
         | _ \<Rightarrow> None)
      else if c3 = CHR ''='' then
        (case (b64_value c0, b64_value c1, b64_value c2) of
           (Some i0, Some i1, Some i2) \<Rightarrow> Some (take 2 (ungroup24 (unsextets [i0, i1, i2, 0])))
         | _ \<Rightarrow> None)
      else
        (case (b64_value c0, b64_value c1, b64_value c2, b64_value c3) of
           (Some i0, Some i1, Some i2, Some i3) \<Rightarrow> Some (ungroup24 (unsextets [i0, i1, i2, i3]))
         | _ \<Rightarrow> None))"
| "base64_decode (c0 # c1 # c2 # c3 # c4 # rest) =
     (case (b64_value c0, b64_value c1, b64_value c2, b64_value c3) of
        (Some i0, Some i1, Some i2, Some i3) \<Rightarrow>
          map_option (\<lambda>bs. ungroup24 (unsextets [i0, i1, i2, i3]) @ bs) (base64_decode (c4 # rest))
      | _ \<Rightarrow> None)"
| "base64_decode _ = None"

subsection \<open>Lemmas\<close>

lemma b64_value_char: "i < 64 \<Longrightarrow> b64_value (b64_char i) = Some i"
  by (auto simp: b64_char_def b64_value_def Let_def of_char_of)

lemma b64_char_not_pad: "i < 64 \<Longrightarrow> b64_char i \<noteq> CHR ''=''"
  using b64_value_char [of i] by (auto simp: b64_value_def)

lemma unat_byte_less: "unat (a :: byte) < 256"
  using unsigned_less [of a] by simp

lemma of_nat_unat_byte [simp]: "(of_nat (unat (a :: byte)) :: byte) = a"
  by simp

lemma ungroup24_group24: "ungroup24 (group24 a b c) = [a, b, c]"
proof -
  have la: "unat a < 256" and lb: "unat b < 256" and lc: "unat c < 256" by (simp_all add: unat_byte_less)
  have r: "unat b * 256 + unat c < 65536" using lb lc by linarith
  have d1: "group24 a b c div 65536 = unat a"
    using r by (simp add: group24_def)
  have d2: "group24 a b c div 256 mod 256 = unat b"
  proof -
    have "group24 a b c div 256 = unat a * 256 + unat b" using lc by (simp add: group24_def)
    then show ?thesis using lb by simp
  qed
  have "group24 a b c = unat c + (unat a * 256 + unat b) * 256" by (simp add: group24_def)
  then have d3: "group24 a b c mod 256 = unat c"
    using lc by (simp only: mod_mult_self1 mod_less)
  show ?thesis by (simp add: ungroup24_def d1 d2 d3)
qed

lemma unsextets_sextets: "n < 16777216 \<Longrightarrow> unsextets (sextets n) = n"
proof -
  assume n: "n < 16777216"
  have "n div 262144 * 64 + n div 4096 mod 64 = n div 4096"
    using div_mult_mod_eq [of "n div 4096" 64] by (simp add: div_mult2_eq [symmetric])
  moreover have "n div 4096 * 64 + n div 64 mod 64 = n div 64"
    using div_mult_mod_eq [of "n div 64" 64] by (simp add: div_mult2_eq [symmetric])
  moreover have "n div 64 * 64 + n mod 64 = n" by simp
  ultimately show ?thesis by (simp add: unsextets_def sextets_def)
qed


lemma group24_bound: "group24 a b c < 16777216"
  using unat_byte_less [of a] unat_byte_less [of b] unat_byte_less [of c] by (simp add: group24_def)

lemma sextets_less: "n < 16777216 \<Longrightarrow> list_all (\<lambda>i. i < 64) (sextets n)"
  by (simp add: sextets_def)

lemma base64_encode_length: "length (base64_encode bs) = 4 * ((length bs + 2) div 3)"
proof (induction bs rule: base64_encode.induct)
  case (1 a b c rest)
  have "(5 + length rest) div 3 = Suc ((length rest + 2) div 3)" by simp
  with 1 show ?case by (simp add: sextets_def del: div_add_self1 div_add_self2)
qed (simp_all add: sextets_def)

lemma sextets_two: "sextets (group24 a b 0) = [group24 a b 0 div 262144, group24 a b 0 div 4096 mod 64,
   group24 a b 0 div 64 mod 64, 0]"
proof -
  have g: "group24 a b 0 = (unat a * 1024 + unat b * 4) * 64" by (simp add: group24_def)
  have "group24 a b 0 mod 64 = 0" unfolding g by (rule mod_mult_self2_is_0)
  then show ?thesis by (simp add: sextets_def)
qed

lemma sextets_one: "sextets (group24 a 0 0) = [group24 a 0 0 div 262144, group24 a 0 0 div 4096 mod 64, 0, 0]"
proof -
  have g: "group24 a 0 0 = (unat a * 1024) * 64" by (simp add: group24_def)
  have d: "group24 a 0 0 div 64 = (unat a * 16) * 64" by (simp add: group24_def)
  have "group24 a 0 0 mod 64 = 0" unfolding g by (rule mod_mult_self2_is_0)
  moreover have "group24 a 0 0 div 64 mod 64 = 0" unfolding d by (rule mod_mult_self2_is_0)
  ultimately show ?thesis by (simp add: sextets_def)
qed

text \<open>
  Base64 decoding inverts the encoding: every byte string, whatever its length
  modulo 3, is recovered from its base64 text.
\<close>
lemma base64_roundtrip: "base64_decode (base64_encode bs) = Some bs"
proof (induction bs rule: base64_encode.induct)
  case (1 a b c rest)
  let ?n = "group24 a b c"
  have n: "?n < 16777216" by (rule group24_bound)
  have v: "b64_value (b64_char (?n div 262144)) = Some (?n div 262144)"
      "b64_value (b64_char (?n div 4096 mod 64)) = Some (?n div 4096 mod 64)"
      "b64_value (b64_char (?n div 64 mod 64)) = Some (?n div 64 mod 64)"
      "b64_value (b64_char (?n mod 64)) = Some (?n mod 64)"
    using n by (simp_all add: b64_value_char)
  have np: "b64_char (?n mod 64) \<noteq> CHR ''=''" by (simp add: b64_char_not_pad)
  have u: "ungroup24 (unsextets [?n div 262144, ?n div 4096 mod 64, ?n div 64 mod 64, ?n mod 64]) = [a, b, c]"
    using unsextets_sextets [OF n] ungroup24_group24 [of a b c] by (simp add: sextets_def)
  show ?case
  proof (cases "base64_encode rest")
    case Nil
    then have "rest = []" using base64_encode_length [of rest] by (cases rest) auto
    then show ?thesis using v np u by (simp add: sextets_def)
  next
    case (Cons x xs)
    then show ?thesis using v u "1.IH" by (simp add: sextets_def)
  qed
next
  case (2 a b)
  let ?n = "group24 a b 0"
  have n: "?n < 16777216" by (rule group24_bound)
  have u: "ungroup24 (unsextets [?n div 262144, ?n div 4096 mod 64, ?n div 64 mod 64, 0]) = [a, b, 0]"
    using unsextets_sextets [OF n] ungroup24_group24 [of a b 0] sextets_two [of a b] by simp
  show ?case using n u by (simp add: sextets_two b64_value_char b64_char_not_pad)
next
  case (3 a)
  let ?n = "group24 a 0 0"
  have n: "?n < 16777216" by (rule group24_bound)
  have u: "ungroup24 (unsextets [?n div 262144, ?n div 4096 mod 64, 0, 0]) = [a, 0, 0]"
    using unsextets_sextets [OF n] ungroup24_group24 [of a 0 0] sextets_one [of a] by simp
  show ?case using n u by (simp add: sextets_one b64_value_char b64_char_not_pad)
next
  case 4
  show ?case by simp
qed

lemma utf8_encode_char_length: "1 \<le> length (utf8_encode_char c) \<and> length (utf8_encode_char c) \<le> 2"
  by (simp add: utf8_encode_char_def Let_def)

text \<open>
  The attachment's size: UTF-8 takes one or two bytes per character, and the
  base64 text has four characters per started group of three bytes.
\<close>
lemma buffer_base64_length:
  "length s \<le> length (utf8_encode s) \<and> length (utf8_encode s) \<le> 2 * length s \<and>
   length (buffer_base64 s) = 4 * ((length (utf8_encode s) + 2) div 3)"
proof -
  have "length s \<le> length (utf8_encode s) \<and> length (utf8_encode s) \<le> 2 * length s"
  proof (induction s)
    case (Cons c s)
    then show ?case using utf8_encode_char_length [of c] by (simp add: utf8_encode_def)
  qed (simp add: utf8_encode_def)
  then show ?thesis by (simp add: buffer_base64_def base64_encode_length)
qed

end
