(* ===== verification/InviteCalendar.thy ===== *)
theory InviteCalendar
  imports JsDateParse Base64
begin

text \<open>
  The data of src/apps/api/src/services/email.ts and the part of its two handlers
  that turns a booking into a calendar file: the interfaces \<open>CalendarEventData\<close>,
  \<open>SendEmailResult\<close> and the handlers' arguments, the external capabilities (the
  record \<open>platform\<close>), the world the handlers change (console and outbox), the
  parsing of "HH:MM" times, the two instants of lines 79 to 86 and 188 to 195, and
  \<open>generateICSContent\<close> (lines 24 to 59). The lemmas show that a well-formed
  slot gives the instants and the calendar date arrays the spec asks for, and that
  the order of the instants is the string order of the two times.
\<close>

subsection \<open>Data\<close>

text \<open>\<open>CalendarEventData\<close> (email.ts lines 7 to 14); its \<open>location\<close> is \<open>ev_location\<close>.\<close>
record attendee =
  email :: string
  name :: "string option"

record calendar_event_data =
  title :: string
  description :: string
  ev_location :: string
  startDate :: time_value
  endDate :: time_value
  attendees :: "attendee list"

text \<open>\<open>SendEmailResult\<close> (lines 16 to 19).\<close>
record send_email_result =
  success :: bool
  message :: string

text \<open>
  The argument of \<open>sendPrincipalCalendarInvite\<close> (lines 175 to 183); the argument
  of \<open>sendParentCalendarInvite\<close> (lines 65 to 74) has the same fields and
  \<open>parentEmail\<close>.
\<close>
record invite_data =
  studentName :: string
  parentName :: string
  tokenId :: string
  slotDate :: time_value
  slotStartTime :: string
  slotEndTime :: string
  location :: string

record parent_invite_data = invite_data +
  parentEmail :: string

subsection \<open>The external capabilities\<close>

text \<open>The attributes handed to \<open>ics.createEvent\<close> (lines 28 to 51).\<close>
record ics_attendee =
  ics_email :: string
  ics_name :: "string option"
  partstat :: string

record ics_event =
  ics_title :: string
  ics_description :: string
  ics_location :: string
  ics_start :: "int option list"
  ics_end :: "int option list"
  ics_attendees :: "ics_attendee list"

text \<open>\<open>{ value, error }\<close> returned by \<open>createEvent\<close>; an error is truthy.\<close>
record ics_result =
  ics_value :: "string option"
  ics_error :: "string option"

text \<open>
  A value thrown by \<open>resend.emails.send\<close>: an object with a \<open>message\<close> property
  (absent is \<open>undefined\<close>), a primitive such as a string (its \<open>.message\<close> is
  \<open>undefined\<close>), or \<open>null\<close>/\<open>undefined\<close> (reading \<open>.message\<close> of it throws).
\<close>
datatype thrown_value = ThrownObject "string option" | ThrownPrimitive string | ThrownNullish

text \<open>
  The settled promise of \<open>resend.emails.send\<close>: resolved to \<open>{ data, error }\<close>
  (the id of \<open>data\<close>, \<open>None\<close> for \<open>null\<close>; the message of \<open>error\<close>, \<open>None\<close> for
  \<open>null\<close>), or rejected.
\<close>
datatype resend_response = Resolved "string option" "string option" | Rejected thrown_value

record attachment =
  filename :: string
  content :: string

record email_payload =
  email_from :: string
  email_to :: "string list"
  email_subject :: string
  email_text :: string
  email_attachments :: "attachment list"

record platform =
  tz_offset :: int
  create_event :: "ics_event \<Rightarrow> ics_result"
  resend_send :: "email_payload \<Rightarrow> resend_response"
  date_long :: "time_value \<Rightarrow> string"
  date_short :: "time_value \<Rightarrow> string"

text \<open>What the handlers pass to \<open>console.error\<close> as its second argument.\<close>
datatype svc_error = IcsError string | ResendError string | Thrown thrown_value

text \<open>An exception that escapes a handler: the rejection of its promise.\<close>
datatype js_exception = TypeError string

text \<open>The world: what was logged, and what was handed to Resend, in order.\<close>
record world =
  console :: "svc_error log_entry list"
  outbox :: "email_payload list"

type_synonym outcome = "(js_exception + send_email_result) \<times> world"

definition js_log :: "string list list \<Rightarrow> world \<Rightarrow> world" where
  "js_log lines w = w\<lparr>console := console w @ map Log lines\<rparr>"

definition js_error :: "string \<Rightarrow> svc_error \<Rightarrow> world \<Rightarrow> world" where
  "js_error label v w = w\<lparr>console := console w @ [LogError label v]\<rparr>"

subsection \<open>Times and the calendar file\<close>

text \<open>
  \<open>const [h, m] = s.split(':').map(Number)\<close> (lines 79 and 80): each piece through
  \<open>Number\<close>; a missing second piece is \<open>undefined\<close>, which \<open>setHours\<close> turns
  into \<open>NaN\<close>.
\<close>
definition parse_time :: "string \<Rightarrow> int option \<times> int option" where
  "parse_time s =
     (let ps = map number_toint (js_split CHR '':'' s) in
      (case js_at ps 0 of None \<Rightarrow> None | Some v \<Rightarrow> v,
       case js_at ps 1 of None \<Rightarrow> None | Some v \<Rightarrow> v))"

text \<open>
  Lines 79 to 86 (and 188 to 195): copy the slot date and set its local time of day
  to the start and to the end time.
\<close>
definition slot_instants :: "int \<Rightarrow> 'a invite_data_scheme \<Rightarrow> time_value \<times> time_value" where
  "slot_instants tz d =
     (let (startHour, startMin) = parse_time (slotStartTime d);
          (endHour, endMin) = parse_time (slotEndTime d)
      in (set_hours tz (slotDate d) startHour startMin (Some 0) (Some 0),
          set_hours tz (slotDate d) endHour endMin (Some 0) (Some 0)))"

text \<open>The date array \<open>[year, month + 1, date, hours, minutes]\<close> (lines 32 to 45).\<close>
definition ics_datetime :: "int \<Rightarrow> time_value \<Rightarrow> int option list" where
  "ics_datetime tz d =
     [get_full_year tz d, map_option (\<lambda>m. m + 1) (get_month tz d), get_date tz d,
      get_hours tz d, get_minutes tz d]"

definition ics_attributes :: "int \<Rightarrow> calendar_event_data \<Rightarrow> ics_event" where
  "ics_attributes tz ev =
     \<lparr>ics_title = title ev, ics_description = description ev, ics_location = ev_location ev,
      ics_start = ics_datetime tz (startDate ev), ics_end = ics_datetime tz (endDate ev),
      ics_attendees = map (\<lambda>a. \<lparr>ics_email = email a, ics_name = name a, partstat = ''NEEDS-ACTION''\<rparr>)
                        (attendees ev)\<rparr>"

text \<open>\<open>generateICSContent\<close> (lines 24 to 59): an error is logged and gives \<open>''''\<close>.\<close>
definition generateICSContent :: "platform \<Rightarrow> calendar_event_data \<Rightarrow> world \<Rightarrow> string \<times> world" where
  "generateICSContent P ev w =
     (let r = create_event P (ics_attributes (tz_offset P) ev) in
      case ics_error r of
        Some err \<Rightarrow> ([], js_error ''ICS generation error:'' (IcsError err) w)
      | None \<Rightarrow> (case ics_value r of None \<Rightarrow> [] | Some v \<Rightarrow> v, w))"

text \<open>
  The booking of the scenarios of spec section 8: Asha Rao's appointment for Kiran Rao
  on 2024-03-10 from 10:00 to 10:30, the date being local midnight in a zone
  5 hours 30 minutes east of UTC.
\<close>
definition asha_booking :: parent_invite_data where
  "asha_booking = \<lparr>studentName = ''Kiran Rao'', parentName = ''Asha Rao'', tokenId = ''TKN-1001'',
     slotDate = Some 1710009000000, slotStartTime = ''10:00'', slotEndTime = ''10:30'',
     location = ''Room A'', parentEmail = ''asha@example.com''\<rparr>"

subsection \<open>Lemmas on times and the calendar file\<close>

lemma parse_time_hhmm:
  assumes "hhmm_ok s"
  shows "parse_time s = (Some (int (hh s)), Some (int (mm s)))"
proof -
  obtain a b c e where s: "s = [a, b, CHR '':'', c, e]" and d: "is_dec_digit a" "is_dec_digit b"
    "is_dec_digit c" "is_dec_digit e" and v: "hh s = dec_value [a, b]" "mm s = dec_value [c, e]"
    using assms by (rule hhmm_shape)
  have nc: "a \<noteq> CHR '':''" "b \<noteq> CHR '':''" "c \<noteq> CHR '':''" "e \<noteq> CHR '':''"
    using d by (simp_all add: digit_not_colon)
  have sp: "js_split CHR '':'' s = [[a, b], [c, e]]"
    using nc by (simp add: s Let_def)
  have n1: "number_toint [a, b] = Some (int (dec_value [a, b]))"
    using d by (intro number_toint_digits) simp_all
  have n2: "number_toint [c, e] = Some (int (dec_value [c, e]))"
    using d by (intro number_toint_digits) simp_all
  show ?thesis by (simp add: parse_time_def sp n1 n2 v js_at_def)
qed

lemma slot_instants_hhmm:
  assumes "hhmm_ok (slotStartTime d)" "hhmm_ok (slotEndTime d)" "slotDate d = Some t"
    and "\<bar>t\<bar> + ms_per_day \<le> max_time_value"
  shows "slot_instants tz d =
    (Some (day (t + tz) * ms_per_day + int (hh (slotStartTime d)) * ms_per_hour
           + int (mm (slotStartTime d)) * ms_per_minute - tz),
     Some (day (t + tz) * ms_per_day + int (hh (slotEndTime d)) * ms_per_hour
           + int (mm (slotEndTime d)) * ms_per_minute - tz))"
proof -
  note rs = hhmm_ranges [OF assms(1)] and re = hhmm_ranges [OF assms(2)]
  show ?thesis
    unfolding slot_instants_def parse_time_hhmm [OF assms(1)] parse_time_hhmm [OF assms(2)] assms(3)
    using set_hours_in_range [of "int (hh (slotStartTime d))" "int (mm (slotStartTime d))" t tz]
      set_hours_in_range [of "int (hh (slotEndTime d))" "int (mm (slotEndTime d))" t tz] rs re assms(4)
    by simp
qed

lemma ics_datetime_at:
  assumes "0 \<le> h" "h < 24" "0 \<le> m" "m < 60"
  shows "ics_datetime tz (Some (day (t + tz) * ms_per_day + h * ms_per_hour + m * ms_per_minute - tz)) =
     [get_full_year tz (Some t), map_option (\<lambda>m. m + 1) (get_month tz (Some t)), get_date tz (Some t),
      Some h, Some m]"
  by (simp add: ics_datetime_def get_full_year_def get_month_def get_date_def get_hours_def
      get_minutes_def local_fields [OF assms])

lemma hhmm_ok_example: "hhmm_ok ''10:00'' \<and> hhmm_ok ''10:30''"
  by (simp add: hhmm_ok_def hh_def mm_def is_dec_digit_def dec_value_two digit_val_def)

lemma asha_date_fields:
  "get_full_year 19800000 (Some 1710009000000) = Some 2024 \<and>
   get_month 19800000 (Some 1710009000000) = Some 2 \<and>
   get_date 19800000 (Some 1710009000000) = Some 10"
  by code_simp

lemma generateICSContent_outbox [simp]: "outbox (snd (generateICSContent P ev w)) = outbox w"
  by (simp add: generateICSContent_def Let_def js_error_def split: option.splits)

lemma generateICSContent_error:
  "ics_error (create_event P (ics_attributes (tz_offset P) ev)) \<noteq> None \<Longrightarrow>
     fst (generateICSContent P ev w) = []"
  by (auto simp: generateICSContent_def Let_def)

lemma js_log_outbox [simp]: "outbox (js_log ls w) = outbox w"
  and js_error_outbox [simp]: "outbox (js_error l v w) = outbox w"
  by (simp_all add: js_log_def js_error_def)

subsection \<open>Properties of the slot instants\<close>

text \<open>
  C10. For a booking whose two times are well-formed "HH:MM" strings and whose date
  lies at least a day inside the range of \<open>Date\<close>, both instants are valid
  dates, and the start is before the end exactly when \<open>slotStartTime\<close> is less
  than \<open>slotEndTime\<close> in JavaScript's string order (spec section 8, ordering).
\<close>
theorem slot_order:
  assumes "hhmm_ok (slotStartTime d)" "hhmm_ok (slotEndTime d)" "slotDate d = Some t"
    and "\<bar>t\<bar> + ms_per_day \<le> max_time_value"
  shows "\<exists>s e. slot_instants tz d = (Some s, Some e) \<and>
           (s < e \<longleftrightarrow> js_str_less (slotStartTime d) (slotEndTime d))"
proof -
  let ?a = "slotStartTime d" and ?b = "slotEndTime d"
  have "int (hh ?a) * ms_per_hour + int (mm ?a) * ms_per_minute
          < int (hh ?b) * ms_per_hour + int (mm ?b) * ms_per_minute
        \<longleftrightarrow> 60 * hh ?a + mm ?a < 60 * hh ?b + mm ?b"
    by linarith
  then show ?thesis
    unfolding slot_instants_hhmm [OF assms] hhmm_less [OF assms(1,2)] by simp
qed

theorem slot_order_witness:
  "\<exists>s e. slot_instants 19800000 asha_booking = (Some s, Some e) \<and> s < e"
  using slot_order [of asha_booking 1710009000000 19800000] hhmm_ok_example
  by (simp add: asha_booking_def)

text \<open>
  C11. Under the same conditions the date arrays handed to \<open>createEvent\<close> are
  the slot date's local year, month (counted from 1) and day, with the hours and
  minutes of the start and of the end time.
\<close>
theorem slot_ics_arrays:
  assumes "hhmm_ok (slotStartTime d)" "hhmm_ok (slotEndTime d)" "slotDate d = Some t"
    and "\<bar>t\<bar> + ms_per_day \<le> max_time_value"
  shows "ics_datetime tz (fst (slot_instants tz d)) =
           [get_full_year tz (slotDate d), map_option (\<lambda>m. m + 1) (get_month tz (slotDate d)),
            get_date tz (slotDate d), Some (int (hh (slotStartTime d))), Some (int (mm (slotStartTime d)))]
       \<and> ics_datetime tz (snd (slot_instants tz d)) =
           [get_full_year tz (slotDate d), map_option (\<lambda>m. m + 1) (get_month tz (slotDate d)),
            get_date tz (slotDate d), Some (int (hh (slotEndTime d))), Some (int (mm (slotEndTime d)))]"
  using hhmm_ranges [OF assms(1)] hhmm_ranges [OF assms(2)]
  by (simp add: slot_instants_hhmm [OF assms] ics_datetime_at assms(3))


theorem slot_ics_arrays_witness:
  "ics_datetime 19800000 (fst (slot_instants 19800000 asha_booking)) =
     [Some 2024, Some 3, Some 10, Some 10, Some 0] \<and>
   ics_datetime 19800000 (snd (slot_instants 19800000 asha_booking)) =
     [Some 2024, Some 3, Some 10, Some 10, Some 30]"
  using slot_ics_arrays [of asha_booking 1710009000000 19800000] hhmm_ok_example asha_date_fields
  by (simp add: asha_booking_def hh_def mm_def dec_value_two digit_val_def)

end
