(* ===== verification/EmailService.thy ===== *)
theory EmailService
  imports InviteCalendar "HOL-Library.Sublist"
begin

text \<open>
  The invite composer and dispatcher of src/apps/api/src/services/email.ts:
  \<open>generateICSContent\<close>, \<open>sendParentCalendarInvite\<close> and
  \<open>sendPrincipalCalendarInvite\<close>.

  Each handler is a function from the platform (the external capabilities), the
  process environment, the call's data and the current world (the console log and
  the outbox of emails handed to Resend) to its outcome and the new world. The
  outcome is \<open>Inr\<close> of the \<open>SendEmailResult\<close> the returned promise resolves to,
  or \<open>Inl\<close> of the exception it rejects with. The external capabilities are
  parameters gathered in the record \<open>platform\<close>: the \<open>ics\<close> library's
  \<open>createEvent\<close>, Resend's \<open>emails.send\<close>, the two \<open>toLocaleDateString\<close>
  formats (ICU data) and the local time zone offset. Everything between them is
  modelled from the source: the environment fallbacks, the time parsing, the
  \<open>Date\<close> arithmetic, the event, the templates, the development branch, the
  payload (base64 attachment included) and the three outcomes of the delivery call.
\<close>

subsection \<open>Delivery\<close>

text \<open>\<open>error.message\<close> of a caught value; \<open>None\<close> when reading it throws.\<close>
definition thrown_message :: "thrown_value \<Rightarrow> string option" where
  "thrown_message v =
     (case v of
        ThrownObject (Some m) \<Rightarrow> Some m
      | ThrownObject None \<Rightarrow> Some ''undefined''
      | ThrownPrimitive _ \<Rightarrow> Some ''undefined''
      | ThrownNullish \<Rightarrow> None)"

definition calendar_attachment :: "string \<Rightarrow> attachment" where
  "calendar_attachment ics = \<lparr>filename = ''counselling-session.ics'', content = buffer_base64 ics\<rparr>"

text \<open>
  The production branch (lines 136 to 169, and 236 to 269 with the principal's
  message): one call of \<open>resend.emails.send\<close>, then its three outcomes.
\<close>
definition send_via_resend :: "platform \<Rightarrow> email_payload \<Rightarrow> string \<Rightarrow> world \<Rightarrow> outcome" where
  "send_via_resend P payload ok_msg w =
     (let w1 = w\<lparr>outbox := outbox w @ [payload]\<rparr> in
      case resend_send P payload of
        Resolved _ (Some err) \<Rightarrow>
          (Inr \<lparr>success = False, message = ''Failed to send email: '' @ err\<rparr>,
           js_error ''Resend error:'' (ResendError err) w1)
      | Resolved data None \<Rightarrow>
          (Inr \<lparr>success = True, message = ok_msg\<rparr>,
           js_log [[''Email sent successfully via Resend:'', case data of None \<Rightarrow> ''undefined'' | Some i \<Rightarrow> i]] w1)
      | Rejected v \<Rightarrow>
          (let w2 = js_error ''Email sending error:'' (Thrown v) w1 in
           case thrown_message v of
             None \<Rightarrow> (Inl (TypeError ''Cannot read properties of null (reading message)''), w2)
           | Some m \<Rightarrow> (Inr \<lparr>success = False, message = ''Failed to send email: '' @ m\<rparr>, w2)))"

definition separator_eq :: string where
  "separator_eq = replicate 40 (CHR ''='')"

definition separator_dash :: string where
  "separator_dash = replicate 40 (CHR ''-'')"

text \<open>The two characters \<open>\n\<close> that the template literal \<open>`\\n`\<close> produces.\<close>
definition backslash_n :: string where
  "backslash_n = [CHR 0x5C, CHR ''n'']"


subsection \<open>Configuration\<close>

text \<open>The environment lookups with their defaults (lines 75, 76, 184 to 186).\<close>
definition school_name :: "env \<Rightarrow> string" where
  "school_name env = env_or env ''SCHOOL_NAME'' ''ABC International School''"

definition school_email :: "env \<Rightarrow> string" where
  "school_email env = env_or env ''SCHOOL_EMAIL'' ''info@school.com''"

definition principal_email :: "env \<Rightarrow> string" where
  "principal_email env = env_or env ''PRINCIPAL_EMAIL'' ''principal@school.com''"

text \<open>\<open>process.env.NODE_ENV === 'development'\<close> (lines 116 and 219).\<close>
definition dev_mode :: "env \<Rightarrow> bool" where
  "dev_mode env \<longleftrightarrow> env ''NODE_ENV'' = Some ''development''"

subsection \<open>The parent's invite\<close>

text \<open>The event of lines 88 to 95.\<close>
definition parent_event ::
  "string \<Rightarrow> parent_invite_data \<Rightarrow> time_value \<Rightarrow> time_value \<Rightarrow> calendar_event_data" where
  "parent_event schoolName d s e =
     \<lparr>title = ''Counselling Session - '' @ schoolName,
      description = ''Student: '' @ studentName d @ backslash_n @ ''Token ID: '' @ tokenId d
        @ backslash_n @ backslash_n @ ''Please bring all required documents.'',
      ev_location = location d, startDate = s, endDate = e,
      attendees = [\<lparr>email = parentEmail d, name = Some (parentName d)\<rparr>]\<rparr>"

text \<open>The letter of lines 99 to 114: the template literal, then \<open>trim()\<close>.\<close>
definition parent_email_body :: "platform \<Rightarrow> string \<Rightarrow> parent_invite_data \<Rightarrow> string" where
  "parent_email_body P schoolName d =
     js_trim (''\<newline>Dear '' @ parentName d @ '',\<newline>\<newline>Your counselling session for ''
       @ studentName d @ CHR 0x27 # ''s admission has been scheduled.\<newline>\<newline>Details:\<newline>- Token ID: ''
       @ tokenId d @ ''\<newline>- Date: '' @ date_long P (slotDate d) @ ''\<newline>- Time: ''
       @ slotStartTime d @ '' - '' @ slotEndTime d @ ''\<newline>- Location: '' @ location d
       @ ''\<newline>\<newline>Please bring all required documents for verification.\<newline>\<newline>Best regards,\<newline>''
       @ schoolName @ '' Admissions Team\<newline>  '')"

definition parent_subject :: "parent_invite_data \<Rightarrow> string" where
  "parent_subject d = ''Counselling Slot Confirmation - '' @ tokenId d"

text \<open>The development branch's console output (lines 117 to 127).\<close>
definition parent_dev_log :: "parent_invite_data \<Rightarrow> string \<Rightarrow> string \<Rightarrow> string list list" where
  "parent_dev_log d body ics =
     [[separator_eq], [''EMAIL SERVICE - PARENT INVITE (MOCK)''], [separator_dash],
      [''To: '' @ parentEmail d], [''Subject: '' @ parent_subject d], [''Body:''], [body],
      [separator_dash], [''ICS Content:''], [ics], [separator_eq]]"

text \<open>The argument of \<open>resend.emails.send\<close> (lines 138 to 147).\<close>
definition parent_payload ::
  "string \<Rightarrow> string \<Rightarrow> parent_invite_data \<Rightarrow> string \<Rightarrow> string \<Rightarrow> email_payload" where
  "parent_payload schoolName schoolEmail d body ics =
     \<lparr>email_from = schoolName @ '' <'' @ schoolEmail @ ''>'', email_to = [parentEmail d],
      email_subject = parent_subject d, email_text = body,
      email_attachments = [calendar_attachment ics]\<rparr>"

text \<open>\<open>sendParentCalendarInvite\<close> (lines 65 to 170).\<close>
definition sendParentCalendarInvite :: "platform \<Rightarrow> env \<Rightarrow> parent_invite_data \<Rightarrow> world \<Rightarrow> outcome" where
  "sendParentCalendarInvite P env d w =
     (let schoolName = school_name env;
          schoolEmail = school_email env;
          (s, e) = slot_instants (tz_offset P) d;
          (icsContent, w1) = generateICSContent P (parent_event schoolName d s e) w;
          emailBody = parent_email_body P schoolName d
      in if dev_mode env then
           (Inr \<lparr>success = True, message = ''Calendar invite email sent to parent (dev mode)''\<rparr>,
            js_log (parent_dev_log d emailBody icsContent) w1)
         else
           send_via_resend P (parent_payload schoolName schoolEmail d emailBody icsContent)
             ''Calendar invite email sent to parent'' w1)"

subsection \<open>The principal's invite\<close>

text \<open>The event of lines 197 to 204; the principal is the one attendee.\<close>
definition principal_invite_event ::
  "string \<Rightarrow> invite_data \<Rightarrow> time_value \<Rightarrow> time_value \<Rightarrow> calendar_event_data" where
  "principal_invite_event principalEmail d s e =
     \<lparr>title = ''Counselling: '' @ studentName d @ '' - '' @ tokenId d,
      description = ''Student: '' @ studentName d @ backslash_n @ ''Parent: '' @ parentName d
        @ backslash_n @ ''Token ID: '' @ tokenId d,
      ev_location = location d, startDate = s, endDate = e,
      attendees = [\<lparr>email = principalEmail, name = Some ''Principal''\<rparr>]\<rparr>"

text \<open>The summary of lines 208 to 217.\<close>
definition principal_email_body :: "platform \<Rightarrow> invite_data \<Rightarrow> string" where
  "principal_email_body P d =
     js_trim (''\<newline>Counselling Session Scheduled\<newline>\<newline>Student: '' @ studentName d
       @ ''\<newline>Parent: '' @ parentName d @ ''\<newline>Token ID: '' @ tokenId d
       @ ''\<newline>Date: '' @ date_short P (slotDate d) @ ''\<newline>Time: '' @ slotStartTime d
       @ '' - '' @ slotEndTime d @ ''\<newline>Location: '' @ location d @ ''\<newline>  '')"

definition principal_subject :: "invite_data \<Rightarrow> string" where
  "principal_subject d = ''Counselling Session - '' @ slotStartTime d @ '' - '' @ studentName d"

text \<open>The development branch's console output (lines 220 to 227): no calendar file.\<close>
definition principal_dev_log :: "string \<Rightarrow> invite_data \<Rightarrow> string \<Rightarrow> string list list" where
  "principal_dev_log principalEmail d body =
     [[separator_eq], [''EMAIL SERVICE - PRINCIPAL INVITE (MOCK)''], [separator_dash],
      [''To: '' @ principalEmail], [''Subject: '' @ principal_subject d], [''Body:''], [body],
      [separator_eq]]"

text \<open>The argument of \<open>resend.emails.send\<close> (lines 238 to 247).\<close>
definition principal_payload ::
  "string \<Rightarrow> string \<Rightarrow> string \<Rightarrow> invite_data \<Rightarrow> string \<Rightarrow> string \<Rightarrow> email_payload" where
  "principal_payload schoolName schoolEmail principalEmail d body ics =
     \<lparr>email_from = schoolName @ '' <'' @ schoolEmail @ ''>'', email_to = [principalEmail],
      email_subject = principal_subject d, email_text = body,
      email_attachments = [calendar_attachment ics]\<rparr>"

text \<open>\<open>sendPrincipalCalendarInvite\<close> (lines 175 to 270).\<close>
definition sendPrincipalCalendarInvite :: "platform \<Rightarrow> env \<Rightarrow> invite_data \<Rightarrow> world \<Rightarrow> outcome" where
  "sendPrincipalCalendarInvite P env d w =
     (let principalEmail = principal_email env;
          schoolName = school_name env;
          schoolEmail = school_email env;
          (s, e) = slot_instants (tz_offset P) d;
          (icsContent, w1) = generateICSContent P (principal_invite_event principalEmail d s e) w;
          emailBody = principal_email_body P d
      in if dev_mode env then
           (Inr \<lparr>success = True, message = ''Calendar invite email sent to principal (dev mode)''\<rparr>,
            js_log (principal_dev_log principalEmail d emailBody) w1)
         else
           send_via_resend P (principal_payload schoolName schoolEmail principalEmail d emailBody icsContent)
             ''Calendar invite email sent to principal'' w1)"


subsection \<open>Test platforms\<close>

text \<open>
  Concrete environments, platforms and an initial world for the scenarios of spec
  section 8: a calendar library that succeeds (or fails) and a delivery service that
  settles with the given response, in a zone 5 hours 30 minutes east of UTC.
\<close>
definition dev_env :: env where
  "dev_env = [''NODE_ENV'' \<mapsto> ''development'']"

definition prod_env :: env where
  "prod_env = [''NODE_ENV'' \<mapsto> ''production'']"

definition test_platform :: "ics_result \<Rightarrow> resend_response \<Rightarrow> platform" where
  "test_platform ics r =
     \<lparr>tz_offset = 19800000, create_event = (\<lambda>_. ics), resend_send = (\<lambda>_. r),
      date_long = (\<lambda>_. ''Sunday, March 10, 2024''), date_short = (\<lambda>_. ''3/10/2024'')\<rparr>"

definition ics_ok :: ics_result where
  "ics_ok = \<lparr>ics_value = Some ''BEGIN:VCALENDAR'', ics_error = None\<rparr>"

definition ics_fail :: ics_result where
  "ics_fail = \<lparr>ics_value = None, ics_error = Some ''invalid date''\<rparr>"

definition empty_world :: world where
  "empty_world = \<lparr>console = [], outbox = []\<rparr>"

text \<open>
  The calendar file each handler generates: \<open>generateICSContent\<close> of its event at
  the two slot instants.
\<close>
abbreviation parent_ics :: "platform \<Rightarrow> env \<Rightarrow> parent_invite_data \<Rightarrow> world \<Rightarrow> string \<times> world" where
  "parent_ics P env d w \<equiv> generateICSContent P (parent_event (school_name env) d
     (fst (slot_instants (tz_offset P) d)) (snd (slot_instants (tz_offset P) d))) w"

abbreviation principal_ics :: "platform \<Rightarrow> env \<Rightarrow> invite_data \<Rightarrow> world \<Rightarrow> string \<times> world" where
  "principal_ics P env d w \<equiv> generateICSContent P (principal_invite_event (principal_email env) d
     (fst (slot_instants (tz_offset P) d)) (snd (slot_instants (tz_offset P) d))) w"

subsection \<open>Lemmas on delivery and the handlers\<close>

lemma send_via_resend_outbox [simp]: "outbox (snd (send_via_resend P p m w)) = outbox w @ [p]"
  by (simp add: send_via_resend_def Let_def split: resend_response.splits option.splits)

lemma send_via_resend_result:
  "fst (send_via_resend P p m w) =
     (case resend_send P p of
        Resolved _ (Some err) \<Rightarrow> Inr \<lparr>success = False, message = ''Failed to send email: '' @ err\<rparr>
      | Resolved _ None \<Rightarrow> Inr \<lparr>success = True, message = m\<rparr>
      | Rejected v \<Rightarrow>
          (case thrown_message v of
             None \<Rightarrow> Inl (TypeError ''Cannot read properties of null (reading message)'')
           | Some msg \<Rightarrow> Inr \<lparr>success = False, message = ''Failed to send email: '' @ msg\<rparr>))"
  by (simp add: send_via_resend_def Let_def split: resend_response.splits option.splits)

lemma sendParentCalendarInvite_unfold:
  "sendParentCalendarInvite P env d w =
     (if dev_mode env then
        (Inr \<lparr>success = True, message = ''Calendar invite email sent to parent (dev mode)''\<rparr>,
         js_log (parent_dev_log d (parent_email_body P (school_name env) d) (fst (parent_ics P env d w)))
           (snd (parent_ics P env d w)))
      else send_via_resend P (parent_payload (school_name env) (school_email env) d
             (parent_email_body P (school_name env) d) (fst (parent_ics P env d w)))
             ''Calendar invite email sent to parent'' (snd (parent_ics P env d w)))"
  by (simp add: sendParentCalendarInvite_def Let_def split_def)

lemma sendPrincipalCalendarInvite_unfold:
  "sendPrincipalCalendarInvite P env d w =
     (if dev_mode env then
        (Inr \<lparr>success = True, message = ''Calendar invite email sent to principal (dev mode)''\<rparr>,
         js_log (principal_dev_log (principal_email env) d (principal_email_body P d))
           (snd (principal_ics P env d w)))
      else send_via_resend P (principal_payload (school_name env) (school_email env) (principal_email env) d
             (principal_email_body P d) (fst (principal_ics P env d w)))
             ''Calendar invite email sent to principal'' (snd (principal_ics P env d w)))"
  by (simp add: sendPrincipalCalendarInvite_def Let_def split_def)

lemmas handler_unfold = sendParentCalendarInvite_unfold sendPrincipalCalendarInvite_unfold

lemma parent_email_body_eq:
  "parent_email_body P sn d = ''Dear '' @ parentName d @ '',\<newline>\<newline>Your counselling session for ''
       @ studentName d @ CHR 0x27 # ''s admission has been scheduled.\<newline>\<newline>Details:\<newline>- Token ID: ''
       @ tokenId d @ ''\<newline>- Date: '' @ date_long P (slotDate d) @ ''\<newline>- Time: ''
       @ slotStartTime d @ '' - '' @ slotEndTime d @ ''\<newline>- Location: '' @ location d
       @ ''\<newline>\<newline>Please bring all required documents for verification.\<newline>\<newline>Best regards,\<newline>''
       @ sn @ '' Admissions Team''"
proof -
  let ?m = "''ear '' @ parentName d @ '',\<newline>\<newline>Your counselling session for ''
       @ studentName d @ CHR 0x27 # ''s admission has been scheduled.\<newline>\<newline>Details:\<newline>- Token ID: ''
       @ tokenId d @ ''\<newline>- Date: '' @ date_long P (slotDate d) @ ''\<newline>- Time: ''
       @ slotStartTime d @ '' - '' @ slotEndTime d @ ''\<newline>- Location: '' @ location d
       @ ''\<newline>\<newline>Please bring all required documents for verification.\<newline>\<newline>Best regards,\<newline>''
       @ sn @ '' Admissions Tea''"
  have "js_trim (''\<newline>'' @ CHR ''D'' # ?m @ [CHR ''m''] @ ''\<newline>  '') = CHR ''D'' # ?m @ [CHR ''m'']"
    by (rule js_trim_frame) (simp_all add: is_js_ws_def)
  then show ?thesis by (simp add: parent_email_body_def)
qed

lemma parent_email_body_times:
  "sublist (slotStartTime d @ '' - '' @ slotEndTime d) (parent_email_body P sn d)"
proof -
  have "parent_email_body P sn d =
     (''Dear '' @ parentName d @ '',\<newline>\<newline>Your counselling session for ''
       @ studentName d @ CHR 0x27 # ''s admission has been scheduled.\<newline>\<newline>Details:\<newline>- Token ID: ''
       @ tokenId d @ ''\<newline>- Date: '' @ date_long P (slotDate d) @ ''\<newline>- Time: '')
     @ (slotStartTime d @ '' - '' @ slotEndTime d)
     @ (''\<newline>- Location: '' @ location d
       @ ''\<newline>\<newline>Please bring all required documents for verification.\<newline>\<newline>Best regards,\<newline>''
       @ sn @ '' Admissions Team'')"
    by (simp add: parent_email_body_eq)
  then show ?thesis by (simp only: sublist_appendI)
qed

lemma empty_attachment: "calendar_attachment [] = \<lparr>filename = ''counselling-session.ics'', content = []\<rparr>"
  by (simp add: calendar_attachment_def buffer_base64_def utf8_encode_def)

subsection \<open>Properties of the parent's invite\<close>

text \<open>
  C1. In development mode (\<open>NODE_ENV\<close> is \<open>development\<close>) the parent's invite
  reports success and hands nothing to the delivery service.
\<close>
theorem parent_dev_mode:
  assumes "dev_mode env"
  shows "fst (sendParentCalendarInvite P env d w) =
           Inr \<lparr>success = True, message = ''Calendar invite email sent to parent (dev mode)''\<rparr> \<and>
         outbox (snd (sendParentCalendarInvite P env d w)) = outbox w"
  using assms by (simp add: sendParentCalendarInvite_unfold)


theorem parent_dev_mode_witness:
  "fst (sendParentCalendarInvite (test_platform ics_ok (Resolved None None)) dev_env asha_booking empty_world) =
     Inr \<lparr>success = True, message = ''Calendar invite email sent to parent (dev mode)''\<rparr> \<and>
   outbox (snd (sendParentCalendarInvite (test_platform ics_ok (Resolved None None)) dev_env asha_booking
     empty_world)) = []"
  using parent_dev_mode [of dev_env "test_platform ics_ok (Resolved None None)" asha_booking empty_world]
  by (simp add: dev_mode_def dev_env_def empty_world_def)
text \<open>
  C3. Outside development mode, when the delivery service answers with an error,
  the parent's invite fails with \<open>"Failed to send email: "\<close> and the error's text.
\<close>
theorem parent_provider_error:
  assumes "\<not> dev_mode env" and "\<forall>p. resend_send P p = Resolved x (Some err)"
  shows "fst (sendParentCalendarInvite P env d w) =
           Inr \<lparr>success = False, message = ''Failed to send email: '' @ err\<rparr>"
  using assms by (simp add: sendParentCalendarInvite_unfold send_via_resend_result)


theorem parent_provider_error_witness:
  "fst (sendParentCalendarInvite (test_platform ics_ok (Resolved None (Some ''invalid recipient'')))
     prod_env asha_booking empty_world) =
     Inr \<lparr>success = False, message = ''Failed to send email: invalid recipient''\<rparr>"
  using parent_provider_error [of prod_env "test_platform ics_ok (Resolved None (Some ''invalid recipient''))"
      None "''invalid recipient''" asha_booking empty_world]
  by (simp add: dev_mode_def prod_env_def test_platform_def)
text \<open>
  C5. When the delivery call throws an error object with a message, the parent's
  invite fails with that message and no exception escapes.
\<close>
theorem parent_thrown_error:
  assumes "\<not> dev_mode env" and "\<forall>p. resend_send P p = Rejected (ThrownObject (Some m))"
  shows "fst (sendParentCalendarInvite P env d w) =
           Inr \<lparr>success = False, message = ''Failed to send email: '' @ m\<rparr>"
  using assms by (simp add: sendParentCalendarInvite_unfold send_via_resend_result thrown_message_def)


theorem parent_thrown_error_witness:
  "fst (sendParentCalendarInvite (test_platform ics_ok (Rejected (ThrownObject (Some ''socket hang up''))))
     prod_env asha_booking empty_world) =
     Inr \<lparr>success = False, message = ''Failed to send email: socket hang up''\<rparr>"
  using parent_thrown_error [of prod_env "test_platform ics_ok (Rejected (ThrownObject (Some ''socket hang up'')))"
      "''socket hang up''" asha_booking empty_world]
  by (simp add: dev_mode_def prod_env_def test_platform_def)
text \<open>
  C6. When the delivery call rejects with \<open>null\<close> or \<open>undefined\<close>, reading
  \<open>error.message\<close> in the catch block throws a \<open>TypeError\<close>, which escapes the
  handler: the promise rejects, against the spec's "never raises to its caller".
\<close>
theorem parent_nullish_rejection:
  assumes "\<not> dev_mode env" and "\<forall>p. resend_send P p = Rejected ThrownNullish"
  shows "fst (sendParentCalendarInvite P env d w) =
           Inl (TypeError ''Cannot read properties of null (reading message)'')"
  using assms by (simp add: sendParentCalendarInvite_unfold send_via_resend_result thrown_message_def)


theorem parent_nullish_rejection_witness:
  "fst (sendParentCalendarInvite (test_platform ics_ok (Rejected ThrownNullish)) prod_env asha_booking
     empty_world) = Inl (TypeError ''Cannot read properties of null (reading message)'')"
  using parent_nullish_rejection [of prod_env "test_platform ics_ok (Rejected ThrownNullish)" asha_booking
      empty_world]
  by (simp add: dev_mode_def prod_env_def test_platform_def)
text \<open>
  C7. That is the only way an exception escapes: unless the delivery call rejects
  with a nullish value, the parent's invite resolves to a result.
\<close>
theorem parent_no_exception:
  assumes "\<forall>p. resend_send P p \<noteq> Rejected ThrownNullish"
  shows "\<exists>r. fst (sendParentCalendarInvite P env d w) = Inr r"
  using assms by (auto simp: sendParentCalendarInvite_unfold send_via_resend_result thrown_message_def
      split: resend_response.splits option.splits thrown_value.splits)


theorem parent_no_exception_witness:
  "\<exists>r. fst (sendParentCalendarInvite (test_platform ics_ok (Rejected (ThrownPrimitive ''timeout'')))
     prod_env asha_booking empty_world) = Inr r"
  using parent_no_exception [of "test_platform ics_ok (Rejected (ThrownPrimitive ''timeout''))" prod_env
      asha_booking empty_world]
  by (simp add: test_platform_def)
text \<open>
  C8. When the calendar library fails, the parent's email is still handed to the
  delivery service, with an attachment \<open>counselling-session.ics\<close> whose content is
  the empty string.
\<close>
theorem parent_ics_failure:
  assumes "\<not> dev_mode env" and "\<forall>x. ics_error (create_event P x) \<noteq> None"
  shows "email_attachments (last (outbox (snd (sendParentCalendarInvite P env d w)))) =
           [\<lparr>filename = ''counselling-session.ics'', content = []\<rparr>]"
proof -
  have "fst (parent_ics P env d w) = []"
    using assms(2) by (simp add: generateICSContent_error)
  then show ?thesis
    using assms(1) by (simp add: sendParentCalendarInvite_unfold parent_payload_def empty_attachment)
qed


theorem parent_ics_failure_witness:
  "email_attachments (last (outbox (snd (sendParentCalendarInvite
     (test_platform ics_fail (Resolved (Some ''em_123'') None)) prod_env asha_booking empty_world)))) =
     [\<lparr>filename = ''counselling-session.ics'', content = []\<rparr>]"
  using parent_ics_failure [of prod_env "test_platform ics_fail (Resolved (Some ''em_123'') None)" asha_booking
      empty_world]
  by (simp add: dev_mode_def prod_env_def test_platform_def ics_fail_def)
text \<open>
  C9. Outside development mode the parent's invite hands exactly one email to the
  delivery service: from the school's name and address (their defaults when unset),
  to the parent, with the confirmation subject and the letter, and one attachment
  \<open>counselling-session.ics\<close> whose base64 content decodes to the UTF-8 bytes of
  the calendar file the ics library produced.
\<close>
theorem parent_outbox:
  assumes "\<not> dev_mode env"
  shows "butlast (outbox (snd (sendParentCalendarInvite P env d w))) = outbox w \<and>
    email_from (last (outbox (snd (sendParentCalendarInvite P env d w)))) =
      env_or env ''SCHOOL_NAME'' ''ABC International School'' @ '' <'' @
      env_or env ''SCHOOL_EMAIL'' ''info@school.com'' @ ''>'' \<and>
    email_to (last (outbox (snd (sendParentCalendarInvite P env d w)))) = [parentEmail d] \<and>
    email_subject (last (outbox (snd (sendParentCalendarInvite P env d w)))) =
      ''Counselling Slot Confirmation - '' @ tokenId d \<and>
    email_text (last (outbox (snd (sendParentCalendarInvite P env d w)))) =
      parent_email_body P (school_name env) d \<and>
    map filename (email_attachments (last (outbox (snd (sendParentCalendarInvite P env d w))))) =
      [''counselling-session.ics''] \<and>
    map (base64_decode \<circ> content) (email_attachments (last (outbox (snd (sendParentCalendarInvite P env d w))))) =
      [Some (utf8_encode (fst (parent_ics P env d w)))]"
  using assms
  by (simp add: sendParentCalendarInvite_unfold parent_payload_def calendar_attachment_def school_name_def
      school_email_def parent_subject_def buffer_base64_def base64_roundtrip)

theorem parent_outbox_witness:
  "email_to (last (outbox (snd (sendParentCalendarInvite (test_platform ics_ok (Resolved None None)) prod_env
     asha_booking empty_world)))) = [''asha@example.com'']"
  using parent_outbox [of prod_env "test_platform ics_ok (Resolved None None)" asha_booking empty_world]
  by (simp add: dev_mode_def prod_env_def asha_booking_def)

text \<open>
  C12. When the delivery service accepts the email, the parent's invite reports
  success.
\<close>
theorem parent_success:
  assumes "\<not> dev_mode env" and "\<forall>p. resend_send P p = Resolved x None"
  shows "fst (sendParentCalendarInvite P env d w) =
           Inr \<lparr>success = True, message = ''Calendar invite email sent to parent''\<rparr>"
  using assms by (simp add: sendParentCalendarInvite_unfold send_via_resend_result)


theorem parent_success_witness:
  "fst (sendParentCalendarInvite (test_platform ics_ok (Resolved (Some ''em_123'') None)) prod_env
     asha_booking empty_world) =
     Inr \<lparr>success = True, message = ''Calendar invite email sent to parent''\<rparr>"
  using parent_success [of prod_env "test_platform ics_ok (Resolved (Some ''em_123'') None)" "Some ''em_123''"
      asha_booking empty_world]
  by (simp add: dev_mode_def prod_env_def test_platform_def)
subsection \<open>Properties of the principal's invite\<close>

text \<open>
  C2. In development mode the principal's invite reports success and hands nothing
  to the delivery service.
\<close>
theorem principal_dev_mode:
  assumes "dev_mode env"
  shows "fst (sendPrincipalCalendarInvite P env d w) =
           Inr \<lparr>success = True, message = ''Calendar invite email sent to principal (dev mode)''\<rparr> \<and>
         outbox (snd (sendPrincipalCalendarInvite P env d w)) = outbox w"
  using assms by (simp add: sendPrincipalCalendarInvite_unfold)


theorem principal_dev_mode_witness:
  "fst (sendPrincipalCalendarInvite (test_platform ics_ok (Resolved None None)) dev_env
     (invite_data.truncate asha_booking) empty_world) =
     Inr \<lparr>success = True, message = ''Calendar invite email sent to principal (dev mode)''\<rparr> \<and>
   outbox (snd (sendPrincipalCalendarInvite (test_platform ics_ok (Resolved None None)) dev_env
     (invite_data.truncate asha_booking) empty_world)) = []"
  using principal_dev_mode [of dev_env "test_platform ics_ok (Resolved None None)"
      "invite_data.truncate asha_booking" empty_world]
  by (simp add: dev_mode_def dev_env_def empty_world_def)
text \<open>
  C4. Outside development mode, a delivery error makes the principal's invite fail
  with \<open>"Failed to send email: "\<close> and the error's text.
\<close>
theorem principal_provider_error:
  assumes "\<not> dev_mode env" and "\<forall>p. resend_send P p = Resolved x (Some err)"
  shows "fst (sendPrincipalCalendarInvite P env d w) =
           Inr \<lparr>success = False, message = ''Failed to send email: '' @ err\<rparr>"
  using assms by (simp add: sendPrincipalCalendarInvite_unfold send_via_resend_result)


theorem principal_provider_error_witness:
  "fst (sendPrincipalCalendarInvite (test_platform ics_ok (Resolved None (Some ''invalid recipient'')))
     prod_env (invite_data.truncate asha_booking) empty_world) =
     Inr \<lparr>success = False, message = ''Failed to send email: invalid recipient''\<rparr>"
  using principal_provider_error [of prod_env
      "test_platform ics_ok (Resolved None (Some ''invalid recipient''))" None "''invalid recipient''"
      "invite_data.truncate asha_booking" empty_world]
  by (simp add: dev_mode_def prod_env_def test_platform_def)
text \<open>
  C13. Outside development mode the principal's invite hands exactly one email to
  the delivery service: from the school, to \<open>PRINCIPAL_EMAIL\<close> (by default
  \<open>principal@school.com\<close>), with the session subject and the summary, and the
  one attachment \<open>counselling-session.ics\<close> whose base64 content decodes to the
  calendar file.
\<close>
theorem principal_outbox:
  assumes "\<not> dev_mode env"
  shows "butlast (outbox (snd (sendPrincipalCalendarInvite P env d w))) = outbox w \<and>
    email_from (last (outbox (snd (sendPrincipalCalendarInvite P env d w)))) =
      env_or env ''SCHOOL_NAME'' ''ABC International School'' @ '' <'' @
      env_or env ''SCHOOL_EMAIL'' ''info@school.com'' @ ''>'' \<and>
    email_to (last (outbox (snd (sendPrincipalCalendarInvite P env d w)))) =
      [env_or env ''PRINCIPAL_EMAIL'' ''principal@school.com''] \<and>
    email_subject (last (outbox (snd (sendPrincipalCalendarInvite P env d w)))) =
      ''Counselling Session - '' @ slotStartTime d @ '' - '' @ studentName d \<and>
    email_text (last (outbox (snd (sendPrincipalCalendarInvite P env d w)))) = principal_email_body P d \<and>
    map filename (email_attachments (last (outbox (snd (sendPrincipalCalendarInvite P env d w))))) =
      [''counselling-session.ics''] \<and>
    map (base64_decode \<circ> content) (email_attachments (last (outbox (snd (sendPrincipalCalendarInvite P env d w))))) =
      [Some (utf8_encode (fst (principal_ics P env d w)))]"
  using assms
  by (simp add: sendPrincipalCalendarInvite_unfold principal_payload_def calendar_attachment_def school_name_def
      school_email_def principal_email_def principal_subject_def buffer_base64_def base64_roundtrip)

theorem principal_outbox_witness:
  "email_to (last (outbox (snd (sendPrincipalCalendarInvite (test_platform ics_ok (Resolved None None)) prod_env
     (invite_data.truncate asha_booking) empty_world)))) = [''principal@school.com'']"
  using principal_outbox [of prod_env "test_platform ics_ok (Resolved None None)"
      "invite_data.truncate asha_booking" empty_world]
  by (simp add: dev_mode_def prod_env_def)

text \<open>
  C16. In development mode the principal's console output is the eight lines of the
  mock notice, and it holds no calendar file, whatever the calendar library
  returns; the spec asks the development branch to log the calendar content.
\<close>
theorem principal_dev_log_no_ics:
  assumes "dev_mode env" and "\<forall>x. ics_error (create_event P x) = None"
  shows "console (snd (sendPrincipalCalendarInvite P env d w)) =
           console w @ map Log (principal_dev_log (principal_email env) d (principal_email_body P d))"
  using assms by (simp add: sendPrincipalCalendarInvite_unfold generateICSContent_def js_log_def Let_def)


theorem principal_dev_log_no_ics_witness:
  "console (snd (sendPrincipalCalendarInvite (test_platform ics_ok (Resolved None None)) dev_env
     (invite_data.truncate asha_booking) empty_world)) =
     map Log (principal_dev_log ''principal@school.com'' (invite_data.truncate asha_booking)
       (principal_email_body (test_platform ics_ok (Resolved None None)) (invite_data.truncate asha_booking)))"
  using principal_dev_log_no_ics [of dev_env "test_platform ics_ok (Resolved None None)"
      "invite_data.truncate asha_booking" empty_world]
  by (simp add: dev_mode_def dev_env_def empty_world_def test_platform_def ics_ok_def principal_email_def)
subsection \<open>The scenarios of the spec\<close>

text \<open>
  C17. Spec section 8, first scenario: in development mode the parent's invite for
  Asha Rao's booking reports success, and the console shows the subject line with
  \<open>TKN-1001\<close> and a line (the letter) that contains \<open>10:00 - 10:30\<close>.
\<close>
theorem scenario_dev_parent:
  "fst (sendParentCalendarInvite P dev_env asha_booking w) =
     Inr \<lparr>success = True, message = ''Calendar invite email sent to parent (dev mode)''\<rparr> \<and>
   Log [''Subject: Counselling Slot Confirmation - TKN-1001''] \<in> set (console (snd (sendParentCalendarInvite P dev_env asha_booking w))) \<and>
   (\<exists>b. Log [b] \<in> set (console (snd (sendParentCalendarInvite P dev_env asha_booking w))) \<and> sublist ''10:00 - 10:30'' b)"
proof -
  have "sublist ''10:00 - 10:30'' (parent_email_body P (school_name dev_env) asha_booking)"
    using parent_email_body_times [of asha_booking P] by (simp add: asha_booking_def)
  then show ?thesis
    by (auto simp: sendParentCalendarInvite_unfold dev_mode_def dev_env_def js_log_def parent_dev_log_def
        parent_subject_def asha_booking_def)
qed

text \<open>
  Spec section 8, second scenario: in production mode, with a delivery service
  that accepts the email with id \<open>em_123\<close>, the parent's invite reports success,
  exactly one email is handed over, addressed to \<open>asha@example.com\<close> with the one
  attachment \<open>counselling-session.ics\<close>, and the id is logged.
\<close>
theorem scenario_prod_parent:
  "fst (sendParentCalendarInvite (test_platform ics (Resolved (Some ''em_123'') None)) prod_env asha_booking w) =
     Inr \<lparr>success = True, message = ''Calendar invite email sent to parent''\<rparr> \<and>
   length (outbox (snd (sendParentCalendarInvite (test_platform ics (Resolved (Some ''em_123'') None))
     prod_env asha_booking w))) = Suc (length (outbox w)) \<and>
   email_to (last (outbox (snd (sendParentCalendarInvite (test_platform ics (Resolved (Some ''em_123'') None))
     prod_env asha_booking w)))) = [''asha@example.com''] \<and>
   map filename (email_attachments (last (outbox (snd (sendParentCalendarInvite
     (test_platform ics (Resolved (Some ''em_123'') None)) prod_env asha_booking w))))) =
     [''counselling-session.ics''] \<and>
   last (console (snd (sendParentCalendarInvite (test_platform ics (Resolved (Some ''em_123'') None))
     prod_env asha_booking w))) = Log [''Email sent successfully via Resend:'', ''em_123'']"
  by (simp add: sendParentCalendarInvite_unfold send_via_resend_def dev_mode_def prod_env_def
      test_platform_def parent_payload_def calendar_attachment_def asha_booking_def js_log_def)

end
