(* ===== verification/SlotCalendar.thy ===== *)
theory SlotCalendar
  imports JsDateParse
begin

text \<open>
  The slot data the web pages receive from \<open>/api/slots\<close> and the admin's slot
  calendar, src/apps/web/app/admin/slots/CalendarView.tsx: each slot becomes a
  calendar event titled \<open>bookedCount/capacity\<close> at the parsed start and end, and
  \<open>eventPropGetter\<close> colours it by its state. The \<open>Slot\<close> type the view imports
  from \<open>./page\<close> is not in the repository; its fields are those of the \<open>Slot\<close>
  interface of principal/calendar/page.tsx (lines 22-40), which the model uses for
  both pages. Counts are integers (JavaScript numbers holding whole values).
\<close>

subsection \<open>Slots and bookings\<close>

record admission =
  adm_studentName :: "string option"
  adm_parentName :: string

record booking =
  booking_id :: string
  booking_tokenId :: string
  admissionId :: "admission option"

record slot =
  slot_id :: string
  date :: string
  startTime :: string
  endTime :: string
  capacity :: int
  bookedCount :: int
  status :: string
  bookings :: "booking list option"

subsection \<open>The admin calendar\<close>

record slot_event =
  se_title :: string
  se_start :: time_value
  se_end :: time_value
  se_resource :: slot

text \<open>The title \<open>`${slot.bookedCount}/${slot.capacity}`\<close> (line 33).\<close>
definition slot_title :: "slot \<Rightarrow> string" where
  "slot_title s = int_to_js_string (bookedCount s) @ ''/'' @ int_to_js_string (capacity s)"

text \<open>One slot as an event (lines 28 to 41); \<open>fb\<close> is the legacy date parser.\<close>
definition slot_to_event :: "(string \<Rightarrow> time_value) \<Rightarrow> int \<Rightarrow> slot \<Rightarrow> slot_event" where
  "slot_to_event fb tz s =
     \<lparr>se_title = slot_title s,
      se_start = parse_date fb tz (date s @ ''T'' @ startTime s),
      se_end = parse_date fb tz (date s @ ''T'' @ endTime s),
      se_resource = s\<rparr>"

definition admin_events :: "(string \<Rightarrow> time_value) \<Rightarrow> int \<Rightarrow> slot list \<Rightarrow> slot_event list" where
  "admin_events fb tz slots = map (slot_to_event fb tz) slots"

definition red_class :: string where
  "red_class = ''bg-red-100 text-red-800 border-red-200''"

definition blue_class :: string where
  "blue_class = ''bg-blue-100 text-blue-800 border-blue-200''"

definition green_class :: string where
  "green_class = ''bg-green-100 text-green-800 border-green-200''"

definition gray_class :: string where
  "gray_class = ''bg-gray-100 text-gray-800 border-gray-200 opacity-70''"

text \<open>The colour chosen by \<open>eventPropGetter\<close> (lines 45 to 57), in the code's order.\<close>
definition event_class :: "slot \<Rightarrow> string" where
  "event_class s =
     (let c = (if status s = ''full'' \<or> capacity s \<le> bookedCount s then red_class
               else if 0 < bookedCount s then blue_class
               else green_class)
      in if status s = ''disabled'' then gray_class else c)"

definition eventPropGetter :: "slot_event \<Rightarrow> string" where
  "eventPropGetter ev = ''border rounded-md text-xs font-medium '' @ event_class (se_resource ev)"

text \<open>\<open>onSelectEvent\<close> (line 86): the slot behind the clicked event.\<close>
definition on_select_event :: "slot_event \<Rightarrow> slot" where
  "on_select_event ev = se_resource ev"

subsection \<open>The legend\<close>

text \<open>
  The four states of the legend (lines 94 to 110) with their colours, and the state
  a slot is in: disabled slots are grey whatever their bookings; otherwise a slot
  whose status is \<open>full\<close> or whose bookings reach the capacity is full, one with
  some bookings is partially booked, and the rest are available.
\<close>
datatype legend = Available | PartiallyBooked | Full | Disabled

definition legend_colour :: "legend \<Rightarrow> string" where
  "legend_colour l = (case l of Available \<Rightarrow> ''green'' | PartiallyBooked \<Rightarrow> ''blue''
     | Full \<Rightarrow> ''red'' | Disabled \<Rightarrow> ''gray'')"

definition legend_of :: "slot \<Rightarrow> legend" where
  "legend_of s =
     (if status s = ''disabled'' then Disabled
      else if status s = ''full'' \<or> capacity s \<le> bookedCount s then Full
      else if 0 < bookedCount s then PartiallyBooked
      else Available)"

definition colour_class :: "string \<Rightarrow> string" where
  "colour_class c = ''bg-'' @ c @ ''-100 text-'' @ c @ ''-800 border-'' @ c @ ''-200''
     @ (if c = ''gray'' then '' opacity-70'' else [])"

subsection \<open>The rendered calendar\<close>

text \<open>\<open>EventComponent\<close> (lines 68 to 74): the event's title.\<close>
definition admin_event_component :: "slot_event \<Rightarrow> string" where
  "admin_event_component ev = se_title ev"

text \<open>The legend as rendered (lines 94 to 110): the swatch's class and the label, in order.\<close>
definition legend_entries :: "(string \<times> string) list" where
  "legend_entries =
     [(''w-3 h-3 bg-green-100 border border-green-200 rounded mr-2'', ''Available''),
      (''w-3 h-3 bg-blue-100 border border-blue-200 rounded mr-2'', ''Partially Booked''),
      (''w-3 h-3 bg-red-100 border border-red-200 rounded mr-2'', ''Full''),
      (''w-3 h-3 bg-gray-100 border border-gray-200 rounded mr-2'', ''Disabled'')]"

text \<open>The label of each legend state.\<close>
definition legend_label :: "legend \<Rightarrow> string" where
  "legend_label l = (case l of Available \<Rightarrow> ''Available'' | PartiallyBooked \<Rightarrow> ''Partially Booked''
     | Full \<Rightarrow> ''Full'' | Disabled \<Rightarrow> ''Disabled'')"

record admin_cell =
  cell_class :: string
  cell_text :: string
  cell_slot :: slot

text \<open>
  What \<open>CalendarView\<close> renders (lines 26 to 114): one calendar cell per event,
  with the class of \<open>eventPropGetter\<close>, the text of \<open>EventComponent\<close> and the slot
  a click hands to \<open>onSlotClick\<close>, then the legend.
\<close>
definition calendar_view :: "(string \<Rightarrow> time_value) \<Rightarrow> int \<Rightarrow> slot list \<Rightarrow> admin_cell list \<times> (string \<times> string) list" where
  "calendar_view fb tz slots =
     (map (\<lambda>ev. \<lparr>cell_class = eventPropGetter ev, cell_text = admin_event_component ev,
                  cell_slot = on_select_event ev\<rparr>) (admin_events fb tz slots),
      legend_entries)"

subsection \<open>Lemmas\<close>

lemma int_to_js_string_no_slash: "CHR ''/'' \<notin> set (int_to_js_string i)"
proof -
  have nd: "\<not> is_dec_digit (CHR ''/'')" by (simp add: is_dec_digit_def)
  have "list_all is_dec_digit (nat_digits n)" for n using nat_digits_props [of n] by simp
  then have "CHR ''/'' \<notin> set (nat_digits n)" for n
    using nd by (auto simp: list_all_iff)
  then show ?thesis by (simp add: int_to_js_string_def)
qed

text \<open>
  C26. The event class of every slot is the colour of its legend state: the
  if-chain of \<open>eventPropGetter\<close>, with its later override for disabled slots,
  implements the legend.
\<close>
theorem event_class_legend: "event_class s = colour_class (legend_colour (legend_of s))"
  by (simp add: event_class_def legend_of_def legend_colour_def colour_class_def red_class_def
      blue_class_def green_class_def gray_class_def Let_def)

text \<open>
  C27. The title \<open>bookedCount/capacity\<close> reads back: split at \<open>/\<close> and each piece
  through \<open>Number\<close>, it gives the two counts, for counts below \<open>10^21\<close>.
\<close>
theorem slot_title_roundtrip:
  assumes "\<bar>bookedCount s\<bar> < 10 ^ 21" "\<bar>capacity s\<bar> < 10 ^ 21"
  shows "map number_toint (js_split CHR ''/'' (slot_title s)) = [Some (bookedCount s), Some (capacity s)]"
  using assms int_to_js_string_no_slash [of "bookedCount s"] int_to_js_string_no_slash [of "capacity s"]
  by (simp add: slot_title_def js_split_append_sep js_split_no_sep number_toint_int_to_js_string)

theorem slot_title_roundtrip_witness:
  "map number_toint (js_split CHR ''/'' (slot_title \<lparr>slot_id = ''s1'', date = ''2024-03-10'',
     startTime = ''10:00'', endTime = ''10:30'', capacity = 4, bookedCount = 3, status = ''available'',
     bookings = None\<rparr>)) = [Some 3, Some 4]"
  using slot_title_roundtrip [of "\<lparr>slot_id = ''s1'', date = ''2024-03-10'', startTime = ''10:00'',
      endTime = ''10:30'', capacity = 4, bookedCount = 3, status = ''available'', bookings = None\<rparr>"]
  by simp


text \<open>
  The rendered view: one cell per slot, in order, each titled with its counts and
  coloured with the colour of its legend state, and the legend shows for each
  state a swatch of that colour next to its label.
\<close>
lemma calendar_view_cells:
  "map cell_slot (fst (calendar_view fb tz slots)) = slots \<and>
   (\<forall>c \<in> set (fst (calendar_view fb tz slots)).
      cell_text c = slot_title (cell_slot c) \<and>
      cell_class c = ''border rounded-md text-xs font-medium '' @ colour_class (legend_colour (legend_of (cell_slot c)))) \<and>
   snd (calendar_view fb tz slots) =
     map (\<lambda>l. (''w-3 h-3 bg-'' @ legend_colour l @ ''-100 border border-'' @ legend_colour l @ ''-200 rounded mr-2'',
               legend_label l)) [Available, PartiallyBooked, Full, Disabled]"
proof (intro conjI)
  show "map cell_slot (fst (calendar_view fb tz slots)) = slots"
    by (simp add: calendar_view_def admin_events_def slot_to_event_def on_select_event_def comp_def)
  have "event_class s = colour_class (legend_colour (legend_of s))" for s
    by (simp add: event_class_def legend_of_def legend_colour_def colour_class_def red_class_def
        blue_class_def green_class_def gray_class_def Let_def)
  then show "\<forall>c \<in> set (fst (calendar_view fb tz slots)).
      cell_text c = slot_title (cell_slot c) \<and>
      cell_class c = ''border rounded-md text-xs font-medium '' @ colour_class (legend_colour (legend_of (cell_slot c)))"
    by (auto simp: calendar_view_def admin_events_def slot_to_event_def eventPropGetter_def
        admin_event_component_def on_select_event_def)
  show "snd (calendar_view fb tz slots) =
     map (\<lambda>l. (''w-3 h-3 bg-'' @ legend_colour l @ ''-100 border border-'' @ legend_colour l @ ''-200 rounded mr-2'',
               legend_label l)) [Available, PartiallyBooked, Full, Disabled]"
    by (simp add: calendar_view_def legend_entries_def legend_label_def legend_colour_def)
qed

end
