(* ===== verification/DateFns.thy ===== *)
theory DateFns
  imports JsDate
begin

text \<open>
  The date-fns functions the web pages call (\<open>startOfDay\<close>, \<open>endOfDay\<close>,
  \<open>startOfWeek\<close>, \<open>endOfWeek\<close>, \<open>startOfISOWeek\<close>, \<open>endOfISOWeek\<close>,
  \<open>startOfMonth\<close>), written as their code is written: on a copy of the date,
  \<open>setDate\<close> to move by whole days, then \<open>setHours\<close>. The library is not part of
  the repository; it is modelled from its source on top of the \<open>Date\<close> model of
  JsDate, with the two \<open>Date\<close> methods it needs (\<open>getDay\<close>, \<open>setDate\<close>) and the
  comparison of two \<open>Date\<close>s. The lemmas compute each function on a valid date
  and bound the week around its day.
\<close>

subsection \<open>Date built-ins\<close>

text \<open>\<open>getDay\<close>: WeekDay(t) = (Day(t) + 4) modulo 7, Sunday being 0.\<close>
definition get_day :: "int \<Rightarrow> time_value \<Rightarrow> int option" where
  "get_day tz tv = map_option (\<lambda>t. (day (t + tz) + 4) mod 7) tv"

text \<open>\<open>setDate(dt)\<close>: the same year, month and time of day with the date \<open>dt\<close>.\<close>
definition set_date :: "int \<Rightarrow> time_value \<Rightarrow> int \<Rightarrow> time_value" where
  "set_date tz tv dt =
     (case tv of
        None \<Rightarrow> None
      | Some u \<Rightarrow>
          (let t = u + tz; d = day t in
           time_clip (Some (make_day (year_from_day d) (int (month_from_day d)) dt * ms_per_day
             + time_within_day t - tz))))"

text \<open>\<open>a <= b\<close> on two \<open>Date\<close>s: their time values compared; \<open>NaN\<close> compares false.\<close>
definition js_le :: "time_value \<Rightarrow> time_value \<Rightarrow> bool" where
  "js_le a b = (case (a, b) of (Some x, Some y) \<Rightarrow> x \<le> y | _ \<Rightarrow> False)"

subsection \<open>date-fns\<close>

definition start_of_day :: "int \<Rightarrow> time_value \<Rightarrow> time_value" where
  "start_of_day tz tv = set_hours tz tv (Some 0) (Some 0) (Some 0) (Some 0)"

definition end_of_day :: "int \<Rightarrow> time_value \<Rightarrow> time_value" where
  "end_of_day tz tv = set_hours tz tv (Some 23) (Some 59) (Some 59) (Some 999)"

text \<open>\<open>startOfWeek(d, {weekStartsOn: wso})\<close>; the default \<open>weekStartsOn\<close> is 0 (Sunday).\<close>
definition start_of_week :: "int \<Rightarrow> int \<Rightarrow> time_value \<Rightarrow> time_value" where
  "start_of_week tz wso tv =
     (case (get_day tz tv, get_date tz tv) of
        (Some wd, Some dt) \<Rightarrow>
          (let diff = (if wd < wso then 7 else 0) + wd - wso in start_of_day tz (set_date tz tv (dt - diff)))
      | _ \<Rightarrow> None)"

text \<open>\<open>endOfWeek(d, {weekStartsOn: wso})\<close>.\<close>
definition end_of_week :: "int \<Rightarrow> int \<Rightarrow> time_value \<Rightarrow> time_value" where
  "end_of_week tz wso tv =
     (case (get_day tz tv, get_date tz tv) of
        (Some wd, Some dt) \<Rightarrow>
          (let diff = (if wd < wso then -7 else 0) + 6 - (wd - wso) in end_of_day tz (set_date tz tv (dt + diff)))
      | _ \<Rightarrow> None)"

text \<open>\<open>startOfISOWeek\<close> and \<open>endOfISOWeek\<close>: the week from Monday.\<close>
definition start_of_iso_week :: "int \<Rightarrow> time_value \<Rightarrow> time_value" where
  "start_of_iso_week tz tv = start_of_week tz 1 tv"

definition end_of_iso_week :: "int \<Rightarrow> time_value \<Rightarrow> time_value" where
  "end_of_iso_week tz tv = end_of_week tz 1 tv"

text \<open>\<open>startOfMonth\<close>: \<open>setDate(1)\<close>, then the start of that day.\<close>
definition start_of_month :: "int \<Rightarrow> time_value \<Rightarrow> time_value" where
  "start_of_month tz tv = start_of_day tz (set_date tz tv 1)"

subsection \<open>Lemmas\<close>

lemma set_date_shift:
  assumes "\<bar>u + k * ms_per_day\<bar> \<le> max_time_value"
  shows "set_date tz (Some u) (date_from_day (day (u + tz)) + k) = Some (u + k * ms_per_day)"
proof -
  let ?D = "day (u + tz)"
  have "make_day (year_from_day ?D) (int (month_from_day ?D)) (date_from_day ?D + k) = ?D + k"
    by (simp add: make_day_shift make_day_decompose)
  then show ?thesis
    using assms by (simp add: set_date_def Let_def time_clip_def time_within_day_split algebra_simps)
qed

lemma start_of_day_valid:
  "\<bar>t\<bar> + ms_per_day \<le> max_time_value \<Longrightarrow>
     start_of_day tz (Some t) = Some (day (t + tz) * ms_per_day - tz)"
  using set_hours_general [of 0 0 0 0 t tz] by (simp add: start_of_day_def)

lemma end_of_day_valid:
  "\<bar>t\<bar> + ms_per_day \<le> max_time_value \<Longrightarrow>
     end_of_day tz (Some t) = Some (day (t + tz) * ms_per_day + 86399999 - tz)"
  using set_hours_general [of 23 59 59 999 t tz] by (simp add: end_of_day_def)

lemma week_diff:
  fixes wd wso :: int
  assumes "0 \<le> wd" "wd < 7" "0 \<le> wso" "wso < 7"
  shows "0 \<le> (if wd < wso then 7 else 0) + wd - wso \<and> (if wd < wso then 7 else 0) + wd - wso \<le> 6 \<and>
    (if wd < wso then -7 else 0) + 6 - (wd - wso) = 6 - ((if wd < wso then 7 else 0) + wd - wso)"
  using assms by auto

text \<open>The week of a valid instant starts on or before its day and ends on or after it.\<close>
lemma week_bounds:
  assumes "\<bar>u\<bar> + 8 * ms_per_day \<le> max_time_value" and "0 \<le> wso" "wso < 7"
  shows "\<exists>a b. start_of_week tz wso (Some u) = Some ((day (u + tz) - a) * ms_per_day - tz) \<and>
    end_of_week tz wso (Some u) = Some ((day (u + tz) + b) * ms_per_day + 86399999 - tz) \<and>
    0 \<le> a \<and> a = (if (day (u + tz) + 4) mod 7 < wso then 7 else 0) + (day (u + tz) + 4) mod 7 - wso \<and>
    0 \<le> b"
proof -
  let ?D = "day (u + tz)" and ?wd = "(day (u + tz) + 4) mod 7"
  define a where "a = (if ?wd < wso then 7 else 0) + ?wd - wso"
  define b where "b = (if ?wd < wso then -7 else 0) + 6 - (?wd - wso)"
  have ab: "0 \<le> a" "a \<le> 6" "b = 6 - a"
    using week_diff [of ?wd wso] assms(2,3) by (simp_all add: a_def b_def)
  have s1: "set_date tz (Some u) (date_from_day ?D - a) = Some (u - a * ms_per_day)"
    using set_date_shift [of u "- a" tz] ab assms(1) by simp
  have s2: "set_date tz (Some u) (date_from_day ?D + b) = Some (u + b * ms_per_day)"
    using set_date_shift [of u b tz] ab assms(1) by simp
  have d1: "day (u - a * ms_per_day + tz) = ?D - a"
    using day_shift [of "u + tz" "- a"] by (simp add: algebra_simps)
  have d2: "day (u + b * ms_per_day + tz) = ?D + b"
    using day_shift [of "u + tz" b] by (simp add: algebra_simps)
  have r1: "\<bar>u - a * ms_per_day\<bar> + ms_per_day \<le> max_time_value" using ab assms(1) by simp
  have r2: "\<bar>u + b * ms_per_day\<bar> + ms_per_day \<le> max_time_value" using ab assms(1) by simp
  have sw: "start_of_week tz wso (Some u) = start_of_day tz (set_date tz (Some u) (date_from_day ?D - a))"
    by (simp add: start_of_week_def get_day_def get_date_def a_def Let_def)
  have ew: "end_of_week tz wso (Some u) = end_of_day tz (set_date tz (Some u) (date_from_day ?D + b))"
    by (simp add: end_of_week_def get_day_def get_date_def b_def Let_def)
  have "start_of_week tz wso (Some u) = Some ((?D - a) * ms_per_day - tz)"
    unfolding sw s1 start_of_day_valid [OF r1] d1 ..
  moreover have "end_of_week tz wso (Some u) = Some ((?D + b) * ms_per_day + 86399999 - tz)"
    unfolding ew s2 end_of_day_valid [OF r2] d2 ..
  moreover have "0 \<le> b" using ab by simp
  ultimately show ?thesis using ab(1) a_def by blast
qed

end
