(* ===== verification/DateFormat.thy ===== *)
theory DateFormat
  imports JsNumber JsDate
begin

text \<open>
  date-fns \<open>format\<close> for the two patterns the web pages use: \<open>'dd MMM yyyy'\<close>
  (the creation date of an enquiry, enquiries/page.tsx line 265) and
  \<open>'MMMM d, yyyy'\<close> (the session date in the principal's modal,
  principal/calendar/page.tsx line 283), in the en-US locale. The library is not
  part of the repository and is modelled from its source: \<open>format\<close> throws
  \<open>RangeError("Invalid time value")\<close> when the date is invalid, then replaces every
  token of the pattern by its field, read in local time; the date token \<open>d\<close>/\<open>dd\<close>
  and the year token \<open>yyyy\<close> pad with \<open>addLeadingZeros\<close>, the month tokens
  \<open>MMM\<close>/\<open>MMMM\<close> read the locale's abbreviated and wide month names. A pattern is
  given as its list of tokens.
\<close>

datatype range_error = RangeError string

datatype format_token = FmtDate nat | FmtMonthShort | FmtMonthLong | FmtYear nat | FmtLiteral string

text \<open>\<open>addLeadingZeros(number, targetLength)\<close>: the sign, then the digits of the
  magnitude padded with zeros at the start.\<close>
definition add_leading_zeros :: "int \<Rightarrow> nat \<Rightarrow> string" where
  "add_leading_zeros n len =
     (let s = int_to_js_string \<bar>n\<bar> in (if n < 0 then ''-'' else []) @ replicate (len - length s) CHR ''0'' @ s)"

text \<open>The en-US month names, \<open>width: 'abbreviated'\<close> and \<open>width: 'wide'\<close>.\<close>
definition month_abbreviated :: "string list" where
  "month_abbreviated = [''Jan'', ''Feb'', ''Mar'', ''Apr'', ''May'', ''Jun'', ''Jul'', ''Aug'', ''Sep'', ''Oct'',
     ''Nov'', ''Dec'']"

definition month_wide :: "string list" where
  "month_wide = [''January'', ''February'', ''March'', ''April'', ''May'', ''June'', ''July'', ''August'',
     ''September'', ''October'', ''November'', ''December'']"

text \<open>
  One token on a valid time value \<open>t\<close>: \<open>getDate\<close>, \<open>getMonth\<close> and
  \<open>getFullYear\<close> of the local day; the year is printed as the era year,
  \<open>1 - y\<close> for years before 1.
\<close>
fun format_field :: "int \<Rightarrow> int \<Rightarrow> format_token \<Rightarrow> string" where
  "format_field tz t (FmtDate n) = add_leading_zeros (date_from_day (day (t + tz))) n"
| "format_field tz t FmtMonthShort = month_abbreviated ! month_from_day (day (t + tz))"
| "format_field tz t FmtMonthLong = month_wide ! month_from_day (day (t + tz))"
| "format_field tz t (FmtYear n) =
     (let y = year_from_day (day (t + tz)) in add_leading_zeros (if 0 < y then y else 1 - y) n)"
| "format_field tz t (FmtLiteral s) = s"

definition format_date :: "int \<Rightarrow> time_value \<Rightarrow> format_token list \<Rightarrow> range_error + string" where
  "format_date tz tv pat =
     (case tv of
        None \<Rightarrow> Inl (RangeError ''Invalid time value'')
      | Some t \<Rightarrow> Inr (concat (map (format_field tz t) pat)))"

text \<open>The two patterns, as \<open>format\<close> splits them into tokens.\<close>
definition pattern_dd_MMM_yyyy :: "format_token list" where
  "pattern_dd_MMM_yyyy = [FmtDate 2, FmtLiteral '' '', FmtMonthShort, FmtLiteral '' '', FmtYear 4]"

definition pattern_MMMM_d_yyyy :: "format_token list" where
  "pattern_MMMM_d_yyyy = [FmtMonthLong, FmtLiteral '' '', FmtDate 1, FmtLiteral '','', FmtLiteral '' '', FmtYear 4]"

subsection \<open>Lemmas\<close>

lemma format_date_error_iff: "isl (format_date tz tv pat) \<longleftrightarrow> tv = None"
  by (simp add: format_date_def split: option.splits)

lemma length_int_to_js_string_pos: "0 < length (int_to_js_string i)"
  by (simp add: int_to_js_string_def nat_digits_props)

lemma add_leading_zeros_length:
  "0 \<le> n \<Longrightarrow> len \<le> length (add_leading_zeros n len)"
  by (simp add: add_leading_zeros_def Let_def)

end
