(* ===== verification/PrincipalCalendar.thy ===== *)
theory PrincipalCalendar
  imports SlotCalendar DateFns DateFormat
begin

text \<open>
  The principal's calendar, src/apps/web/app/principal/calendar/page.tsx: the page
  keeps the slots that have bookings (\<open>fetchSlots\<close>), turns every booking into an
  event (\<open>flatMap\<close>), and shows the events of today, of this ISO week (Monday to
  Sunday) or all of them; a click opens a modal with the event. The date-fns
  functions the page calls (\<open>startOfDay\<close>, \<open>endOfDay\<close>, \<open>startOfISOWeek\<close>,
  \<open>endOfISOWeek\<close>) are modelled from their code on top of the \<open>Date\<close> model, and
  \<open>now\<close> (\<open>new Date()\<close>) is a parameter. The render computes what the page
  shows from its state, or the \<open>RangeError\<close> that \<open>format\<close> throws in the modal.
\<close>

subsection \<open>Events\<close>

datatype filter_type = FilterToday | FilterWeek | FilterAll

record event_resource =
  er_slot :: slot
  er_booking :: booking
  er_studentName :: string
  er_tokenId :: string
  er_time :: string
  er_location :: string

record principal_event =
  pe_title :: string
  pe_start :: time_value
  pe_end :: time_value
  pe_resource :: event_resource

text \<open>\<open>booking.admissionId?.studentName\<close>: undefined when either is missing.\<close>
definition student_name :: "booking \<Rightarrow> string option" where
  "student_name b = (case admissionId b of None \<Rightarrow> None | Some a \<Rightarrow> adm_studentName a)"

text \<open>\<open>x || d\<close> for a string that may be undefined: the empty string is falsy too.\<close>
definition or_default :: "string option \<Rightarrow> string \<Rightarrow> string" where
  "or_default v d = (case v of None \<Rightarrow> d | Some s \<Rightarrow> if s = [] then d else s)"

text \<open>The event of one booking (lines 85 to 102).\<close>
definition booking_event :: "(string \<Rightarrow> time_value) \<Rightarrow> int \<Rightarrow> slot \<Rightarrow> booking \<Rightarrow> principal_event" where
  "booking_event fb tz s b =
     \<lparr>pe_title = or_default (student_name b) ''Unknown Student'',
      pe_start = parse_date fb tz (date s @ ''T'' @ startTime s),
      pe_end = parse_date fb tz (date s @ ''T'' @ endTime s),
      pe_resource = \<lparr>er_slot = s, er_booking = b, er_studentName = or_default (student_name b) ''Unknown'',
        er_tokenId = booking_tokenId b, er_time = startTime s @ '' - '' @ endTime s,
        er_location = ''Counselling Room''\<rparr>\<rparr>"

text \<open>The events of one slot (lines 83 to 102): none without bookings.\<close>
definition slot_events :: "(string \<Rightarrow> time_value) \<Rightarrow> int \<Rightarrow> slot \<Rightarrow> principal_event list" where
  "slot_events fb tz s =
     (case bookings s of None \<Rightarrow> [] | Some bs \<Rightarrow> if bs = [] then [] else map (booking_event fb tz s) bs)"

text \<open>\<open>slots.flatMap(...)\<close> (line 82).\<close>
definition calendar_events :: "(string \<Rightarrow> time_value) \<Rightarrow> int \<Rightarrow> slot list \<Rightarrow> principal_event list" where
  "calendar_events fb tz slots = concat (map (slot_events fb tz) slots)"

text \<open>The test of the \<open>today\<close> filter, also used by the "Today" count (lines 112, 222).\<close>
definition is_today :: "int \<Rightarrow> time_value \<Rightarrow> principal_event \<Rightarrow> bool" where
  "is_today tz now e \<longleftrightarrow> js_le (start_of_day tz now) (pe_start e) \<and> js_le (pe_start e) (end_of_day tz now)"

text \<open>The filter of lines 106 to 119.\<close>
definition in_filter :: "int \<Rightarrow> time_value \<Rightarrow> filter_type \<Rightarrow> principal_event \<Rightarrow> bool" where
  "in_filter tz now f e =
     (case f of
        FilterToday \<Rightarrow> is_today tz now e
      | FilterWeek \<Rightarrow> js_le (start_of_iso_week tz now) (pe_start e) \<and> js_le (pe_start e) (end_of_iso_week tz now)
      | FilterAll \<Rightarrow> True)"

definition filtered_events ::
  "(string \<Rightarrow> time_value) \<Rightarrow> int \<Rightarrow> time_value \<Rightarrow> filter_type \<Rightarrow> slot list \<Rightarrow> principal_event list" where
  "filtered_events fb tz now f slots = filter (in_filter tz now f) (calendar_events fb tz slots)"

text \<open>The "Today" figure of the statistics (lines 220 to 223).\<close>
definition today_count :: "(string \<Rightarrow> time_value) \<Rightarrow> int \<Rightarrow> time_value \<Rightarrow> slot list \<Rightarrow> nat" where
  "today_count fb tz now slots = length (filter (is_today tz now) (calendar_events fb tz slots))"

subsection \<open>The page's state\<close>

text \<open>
  The page's React state (lines 45 to 48): the booked slots, the loading flag, the
  filter, and the event shown in the modal.
\<close>
record page_state =
  ps_slots :: "slot list"
  ps_loading :: bool
  ps_filter :: filter_type
  ps_selected :: "principal_event option"

definition initial_page :: page_state where
  "initial_page = \<lparr>ps_slots = [], ps_loading = True, ps_filter = FilterAll, ps_selected = None\<rparr>"

text \<open>
  What \<open>fetch\<close> of \<open>/api/slots\<close> yields: the parsed JSON's \<open>success\<close> and
  \<open>data\<close> (\<open>None\<close> when absent), or an exception from \<open>fetch\<close> or \<open>json()\<close>.
\<close>
datatype slots_response = SlotsJson bool "slot list option" | FetchFailed

text \<open>The slots \<open>fetchSlots\<close> keeps (lines 69 to 71).\<close>
definition is_booked_slot :: "slot \<Rightarrow> bool" where
  "is_booked_slot s \<longleftrightarrow> 0 < bookedCount s \<and> (case bookings s of None \<Rightarrow> False | Some bs \<Rightarrow> 0 < length bs)"

text \<open>The user's and the network's actions on the page.\<close>
datatype page_action =
    FetchStart
  | FetchDone slots_response
  | SetFilter filter_type
  | SelectEvent principal_event
  | CloseModal

text \<open>
  \<open>fetchSlots\<close> (lines 54 to 79: \<open>setLoading(true)\<close>, then the response; the
  \<open>finally\<close> clears the flag), the filter buttons (lines 159, 168, 177),
  \<open>onSelectEvent\<close> (line 246) and the two close buttons of the modal (lines 262, 307).
\<close>
fun page_step :: "page_state \<Rightarrow> page_action \<Rightarrow> page_state" where
  "page_step st FetchStart = st\<lparr>ps_loading := True\<rparr>"
| "page_step st (FetchDone (SlotsJson ok (Some d))) =
     (if ok then st\<lparr>ps_slots := filter is_booked_slot d, ps_loading := False\<rparr> else st\<lparr>ps_loading := False\<rparr>)"
| "page_step st (FetchDone (SlotsJson ok None)) = st\<lparr>ps_loading := False\<rparr>"
| "page_step st (FetchDone FetchFailed) = st\<lparr>ps_loading := False\<rparr>"
| "page_step st (SetFilter f) = st\<lparr>ps_filter := f\<rparr>"
| "page_step st (SelectEvent e) = st\<lparr>ps_selected := Some e\<rparr>"
| "page_step st CloseModal = st\<lparr>ps_selected := None\<rparr>"

text \<open>
  The states the page can reach, one rule per action. The calendar only offers the
  events it displays, so an event can be selected only when it is one of the
  filtered events of the current state.
\<close>
inductive page_reach :: "(string \<Rightarrow> time_value) \<Rightarrow> int \<Rightarrow> time_value \<Rightarrow> page_state \<Rightarrow> bool"
  for fb tz now where
  init: "page_reach fb tz now initial_page"
| fetch_start: "page_reach fb tz now st \<Longrightarrow> page_reach fb tz now (page_step st FetchStart)"
| fetch_done: "page_reach fb tz now st \<Longrightarrow> page_reach fb tz now (page_step st (FetchDone r))"
| set_filter: "page_reach fb tz now st \<Longrightarrow> page_reach fb tz now (page_step st (SetFilter f))"
| select: "page_reach fb tz now st \<Longrightarrow> e \<in> set (filtered_events fb tz now (ps_filter st) (ps_slots st)) \<Longrightarrow>
    page_reach fb tz now (page_step st (SelectEvent e))"
| close: "page_reach fb tz now st \<Longrightarrow> page_reach fb tz now (page_step st CloseModal)"

text \<open>
  What the page keeps true: every slot it holds has bookings, and the event in the
  modal is one of the bookings of its slot.
\<close>
definition page_inv :: "page_state \<Rightarrow> bool" where
  "page_inv st \<longleftrightarrow> list_all is_booked_slot (ps_slots st) \<and>
     (case ps_selected st of
        None \<Rightarrow> True
      | Some e \<Rightarrow> (case bookings (er_slot (pe_resource e)) of
                   None \<Rightarrow> False
                 | Some bs \<Rightarrow> er_booking (pe_resource e) \<in> set bs))"

text \<open>Two slots for the examples: one booked by Kiran Rao's family, one with no booking.\<close>
definition demo_booking :: booking where
  "demo_booking = \<lparr>booking_id = ''b1'', booking_tokenId = ''TKN-1001'',
     admissionId = Some \<lparr>adm_studentName = Some ''Kiran Rao'', adm_parentName = ''Asha Rao''\<rparr>\<rparr>"

definition demo_booked_slot :: slot where
  "demo_booked_slot = \<lparr>slot_id = ''s1'', date = ''2024-03-10'', startTime = ''10:00'', endTime = ''10:30'',
     capacity = 2, bookedCount = 1, status = ''available'', bookings = Some [demo_booking]\<rparr>"

definition demo_free_slot :: slot where
  "demo_free_slot = \<lparr>slot_id = ''s2'', date = ''2024-03-10'', startTime = ''11:00'', endTime = ''11:30'',
     capacity = 2, bookedCount = 0, status = ''available'', bookings = Some []\<rparr>"

subsection \<open>Rendering\<close>

text \<open>The class of a filter button (lines 160 to 163, 169 to 172, 178 to 181).\<close>
definition filter_button_class :: "filter_type \<Rightarrow> filter_type \<Rightarrow> string" where
  "filter_button_class cur f = ''px-4 py-2 rounded-md text-sm font-medium transition-colors '' @
     (if cur = f then ''bg-white text-gray-900 shadow-sm'' else ''text-gray-500 hover:text-gray-900'')"

text \<open>The page's \<open>eventPropGetter\<close> (lines 121 to 128): one class for every event.\<close>
definition principal_event_class :: string where
  "principal_event_class = ''bg-blue-100 text-blue-800 border-blue-200 border rounded-md text-xs font-medium''"

text \<open>\<open>EventComponent\<close> (lines 130 to 137): the event's title above its token.\<close>
definition event_component :: "principal_event \<Rightarrow> string \<times> string" where
  "event_component e = (pe_title e, er_tokenId (pe_resource e))"

record principal_stats =
  st_sessions :: nat
  st_slots :: nat
  st_today :: nat

record session_details =
  sd_student :: string
  sd_time :: string
  sd_token :: string
  sd_location :: string

datatype calendar_body = NoSessions | CalendarCells "(string \<times> string \<times> string) list"

record principal_view =
  pv_buttons :: "(string \<times> string) list"
  pv_stats :: principal_stats
  pv_body :: calendar_body
  pv_modal :: "session_details option"

datatype principal_screen = PrincipalSpinner | PrincipalPage principal_view

text \<open>The modal's fields (lines 269 to 303); \<open>format\<close> throws on an invalid start.\<close>
definition modal_details :: "int \<Rightarrow> principal_event \<Rightarrow> range_error + session_details" where
  "modal_details tz e =
     (case format_date tz (pe_start e) pattern_MMMM_d_yyyy of
        Inl err \<Rightarrow> Inl err
      | Inr d \<Rightarrow> Inr \<lparr>sd_student = er_studentName (pe_resource e), sd_time = d @ '' at '' @ er_time (pe_resource e),
                     sd_token = er_tokenId (pe_resource e), sd_location = er_location (pe_resource e)\<rparr>)"

text \<open>
  The render (lines 139 to 317): the spinner while loading; otherwise the filter
  buttons, the three figures, the calendar or the empty message, and the modal of
  the selected event.
\<close>
definition principal_render ::
  "(string \<Rightarrow> time_value) \<Rightarrow> int \<Rightarrow> time_value \<Rightarrow> page_state \<Rightarrow> range_error + principal_screen" where
  "principal_render fb tz now st =
     (if ps_loading st then Inr PrincipalSpinner
      else
        (let evs = filtered_events fb tz now (ps_filter st) (ps_slots st);
             modal = (case ps_selected st of None \<Rightarrow> Inr None | Some e \<Rightarrow> map_sum id Some (modal_details tz e))
         in case modal of
              Inl err \<Rightarrow> Inl err
            | Inr m \<Rightarrow> Inr (PrincipalPage
                \<lparr>pv_buttons = [(''Today'', filter_button_class (ps_filter st) FilterToday),
                               (''This Week'', filter_button_class (ps_filter st) FilterWeek),
                               (''All'', filter_button_class (ps_filter st) FilterAll)],
                 pv_stats = \<lparr>st_sessions = length evs, st_slots = length (ps_slots st),
                             st_today = today_count fb tz now (ps_slots st)\<rparr>,
                 pv_body = (if evs = [] then NoSessions
                            else CalendarCells (map (\<lambda>e. (principal_event_class, event_component e)) evs)),
                 pv_modal = m\<rparr>)))"

text \<open>
  src/apps/web/app/principal/layout.tsx: the portal's metadata (lines 3 to 6) and
  its layout (lines 8 to 20), two containers around the page.
\<close>
record page_metadata =
  meta_title :: string
  meta_description :: string

definition principal_metadata :: page_metadata where
  "principal_metadata = \<lparr>meta_title = ''Principal Portal - School Admission System'',
     meta_description = ''Principal calendar view for counselling sessions''\<rparr>"

record 'a layout_box =
  outer_class :: string
  inner_class :: string
  layout_children :: 'a

definition principal_layout :: "'a \<Rightarrow> 'a layout_box" where
  "principal_layout children = \<lparr>outer_class = ''min-h-screen bg-gray-50'',
     inner_class = ''max-w-7xl mx-auto px-4 sm:px-6 lg:px-8 py-8'', layout_children = children\<rparr>"

text \<open>The calendar page inside the portal's layout; an error of the page aborts the whole render.\<close>
definition principal_portal ::
  "(string \<Rightarrow> time_value) \<Rightarrow> int \<Rightarrow> time_value \<Rightarrow> page_state \<Rightarrow> range_error + principal_screen layout_box" where
  "principal_portal fb tz now st = map_sum id principal_layout (principal_render fb tz now st)"

text \<open>A slot whose date carries a time and a zone, so that its events have an invalid start.\<close>
definition bad_slot :: slot where
  "bad_slot = demo_booked_slot\<lparr>date := ''2024-03-10T00:00:00.000Z''\<rparr>"

subsection \<open>Lemmas on the events and the page\<close>

lemma calendar_events_Cons:
  "calendar_events fb tz (s # ss) = slot_events fb tz s @ calendar_events fb tz ss"
  by (simp add: calendar_events_def)

lemma calendar_events_origin:
  "e \<in> set (calendar_events fb tz slots) \<Longrightarrow>
     er_slot (pe_resource e) \<in> set slots \<and>
     (\<exists>bs. bookings (er_slot (pe_resource e)) = Some bs \<and> er_booking (pe_resource e) \<in> set bs)"
  by (auto simp: calendar_events_def slot_events_def booking_event_def split: option.splits if_splits)
     (metis option.inject)

lemma filtered_events_origin:
  "e \<in> set (filtered_events fb tz now f slots) \<Longrightarrow> e \<in> set (calendar_events fb tz slots)"
  by (simp add: filtered_events_def)

lemma page_inv_init: "page_inv initial_page"
  by (simp add: page_inv_def initial_page_def)

lemma page_inv_step:
  assumes "page_inv st" and "\<forall>e. a = SelectEvent e \<longrightarrow> e \<in> set (calendar_events fb tz (ps_slots st))"
  shows "page_inv (page_step st a)"
proof (cases a)
  case (FetchDone r)
  with assms(1) show ?thesis
    by (cases r rule: slots_response.exhaust; cases "case r of SlotsJson _ d \<Rightarrow> d | FetchFailed \<Rightarrow> None")
       (auto simp: page_inv_def list_all_iff)
next
  case (SelectEvent e)
  with assms show ?thesis
    using calendar_events_origin [of e fb tz "ps_slots st"] by (auto simp: page_inv_def)
qed (use assms(1) in \<open>auto simp: page_inv_def\<close>)

lemma bad_event_start: "pe_start (booking_event (\<lambda>_. None) 19800000 bad_slot demo_booking) = None"
  by (simp add: booking_event_def parse_date_def iso_fields_def iso_separators_def date_only_fields_def utc_offset_def bad_slot_def demo_booked_slot_def)

subsection \<open>Properties of the principal's calendar\<close>

text \<open>
  In every state the page can reach, the slots it holds all have bookings and
  the event shown in the modal is a booking of its slot.
\<close>
lemma page_invariant:
  assumes "page_reach fb tz now st"
  shows "page_inv st"
  using assms
proof (induction rule: page_reach.induct)
  case init
  show ?case by (rule page_inv_init)
next
  case (select st e)
  then show ?case using filtered_events_origin [of e] by (intro page_inv_step) auto
qed (intro page_inv_step; simp)+


text \<open>
  C19. Every event shown under "Today" is also shown under "This Week": the ISO
  week of \<open>now\<close> contains its day, for every \<open>now\<close> at least eight days inside the
  range of \<open>Date\<close>.
\<close>
theorem today_within_week:
  assumes "\<bar>u\<bar> + 8 * ms_per_day \<le> max_time_value" and "in_filter tz (Some u) FilterToday e"
  shows "in_filter tz (Some u) FilterWeek e"
proof -
  obtain a b where w: "start_of_iso_week tz (Some u) = Some ((day (u + tz) - a) * ms_per_day - tz)"
    "end_of_iso_week tz (Some u) = Some ((day (u + tz) + b) * ms_per_day + 86399999 - tz)" "0 \<le> a" "0 \<le> b"
    using week_bounds [OF assms(1), of 1 tz] unfolding start_of_iso_week_def end_of_iso_week_def by auto
  have r: "\<bar>u\<bar> + ms_per_day \<le> max_time_value" using assms(1) by simp
  show ?thesis
    using assms(2) w
    by (auto simp: in_filter_def is_today_def js_le_def start_of_day_valid [OF r] end_of_day_valid [OF r]
        algebra_simps split: option.splits)
qed

lemma demo_event_today:
  "in_filter 19800000 (Some 1710061200000) FilterToday (booking_event (\<lambda>_. None) 19800000 demo_booked_slot demo_booking)"
  by code_simp

theorem today_within_week_witness:
  "in_filter 19800000 (Some 1710061200000) FilterWeek (booking_event (\<lambda>_. None) 19800000 demo_booked_slot demo_booking)"
  using today_within_week [OF _ demo_event_today] by simp

text \<open>
  C28. The calendar shows one event per booking: the number of events is the sum of
  the numbers of bookings of the slots.
\<close>
theorem calendar_events_length:
  "length (calendar_events fb tz slots) =
     sum_list (map (\<lambda>s. case bookings s of None \<Rightarrow> 0 | Some bs \<Rightarrow> length bs) slots)"
  by (induction slots) (auto simp: calendar_events_def slot_events_def split: option.splits)

text \<open>
  C29. An event whose date string does not parse (an invalid \<open>Date\<close>) is never shown
  under "Today" or "This Week", only under "All": comparisons with \<open>NaN\<close> are false.
\<close>
theorem invalid_start_only_in_all:
  assumes "pe_start e = None"
  shows "\<not> in_filter tz now FilterToday e \<and> \<not> in_filter tz now FilterWeek e \<and> in_filter tz now FilterAll e"
  using assms by (simp add: in_filter_def is_today_def js_le_def)

theorem invalid_start_only_in_all_witness:
  "\<not> in_filter 19800000 (Some 1710061200000) FilterToday
       (booking_event (\<lambda>_. None) 19800000 (demo_booked_slot\<lparr>date := ''2024-03-10T00:00:00.000Z''\<rparr>) demo_booking) \<and>
   in_filter 19800000 (Some 1710061200000) FilterAll
       (booking_event (\<lambda>_. None) 19800000 (demo_booked_slot\<lparr>date := ''2024-03-10T00:00:00.000Z''\<rparr>) demo_booking)"
proof -
  have "pe_start (booking_event (\<lambda>_. None) 19800000 (demo_booked_slot\<lparr>date := ''2024-03-10T00:00:00.000Z''\<rparr>)
      demo_booking) = None"
    by (simp add: booking_event_def parse_date_def iso_fields_def iso_separators_def date_only_fields_def utc_offset_def demo_booked_slot_def)
  then show ?thesis using invalid_start_only_in_all by blast
qed

text \<open>
  C30. A booking without a student name (no admission, no name, or an empty one)
  is titled "Unknown Student" in the calendar but shown as "Unknown" in the modal.
\<close>
theorem unknown_student_names:
  assumes "student_name b = None \<or> student_name b = Some []"
  shows "pe_title (booking_event fb tz s b) = ''Unknown Student'' \<and>
    er_studentName (pe_resource (booking_event fb tz s b)) = ''Unknown''"
  using assms by (auto simp: booking_event_def or_default_def)

theorem unknown_student_names_witness:
  "pe_title (booking_event (\<lambda>_. None) 0 demo_booked_slot (demo_booking\<lparr>admissionId := None\<rparr>)) = ''Unknown Student'' \<and>
   er_studentName (pe_resource (booking_event (\<lambda>_. None) 0 demo_booked_slot (demo_booking\<lparr>admissionId := None\<rparr>)))
     = ''Unknown''"
  using unknown_student_names [of "demo_booking\<lparr>admissionId := None\<rparr>"] by (simp add: student_name_def)


text \<open>
  C34. Rendering the page throws (the \<open>RangeError\<close> of \<open>format\<close> in the modal)
  exactly when it is not loading and the modal is open on an event whose start is
  an invalid \<open>Date\<close>; under "All" such an event is on the calendar and can be
  selected.
\<close>
theorem principal_render_error:
  "isl (principal_render fb tz now st) \<longleftrightarrow>
     \<not> ps_loading st \<and> (\<exists>e. ps_selected st = Some e \<and> pe_start e = None)"
  by (cases "ps_selected st")
     (auto simp: principal_render_def Let_def modal_details_def format_date_def split: option.splits)

theorem principal_render_error_witness:
  "page_reach (\<lambda>_. None) 19800000 (Some 1710061200000)
     (page_step (page_step initial_page (FetchDone (SlotsJson True (Some [bad_slot]))))
       (SelectEvent (booking_event (\<lambda>_. None) 19800000 bad_slot demo_booking))) \<and>
   isl (principal_render (\<lambda>_. None) 19800000 (Some 1710061200000)
     (page_step (page_step initial_page (FetchDone (SlotsJson True (Some [bad_slot]))))
       (SelectEvent (booking_event (\<lambda>_. None) 19800000 bad_slot demo_booking))))"
proof
  let ?st = "page_step initial_page (FetchDone (SlotsJson True (Some [bad_slot])))"
  have b: "is_booked_slot bad_slot" by (simp add: is_booked_slot_def bad_slot_def demo_booked_slot_def)
  have f: "ps_filter ?st = FilterAll" "ps_slots ?st = [bad_slot]" using b by (simp_all add: initial_page_def)
  have "booking_event (\<lambda>_. None) 19800000 bad_slot demo_booking \<in>
      set (filtered_events (\<lambda>_. None) 19800000 (Some 1710061200000) (ps_filter ?st) (ps_slots ?st))"
    unfolding f by (simp add: filtered_events_def in_filter_def calendar_events_def slot_events_def bad_slot_def
      demo_booked_slot_def)
  then show "page_reach (\<lambda>_. None) 19800000 (Some 1710061200000)
     (page_step ?st (SelectEvent (booking_event (\<lambda>_. None) 19800000 bad_slot demo_booking)))"
    by (intro page_reach.select page_reach.fetch_done page_reach.init)
  show "isl (principal_render (\<lambda>_. None) 19800000 (Some 1710061200000)
     (page_step ?st (SelectEvent (booking_event (\<lambda>_. None) 19800000 bad_slot demo_booking))))"
    using principal_render_error bad_event_start b by (simp add: initial_page_def)
qed

text \<open>
  C18. On both calendars an event starts at its slot's date and start time, read
  as local time: for a well-formed "YYYY-MM-DD" date and "HH:MM" time, the admin
  calendar's event and the event of every booking on the principal's calendar
  start at the same valid instant, whose local year, month (from 0), day, hours
  and minutes are the slot's.
\<close>
theorem slot_start_fields:
  assumes "ymd_ok (date s)" "hhmm_ok (startTime s)" "1 \<le> ymd_month (date s)" "ymd_month (date s) \<le> 12"
    and "1 \<le> ymd_day (date s)"
    and "int (ymd_day (date s)) \<le> days_in_month (in_leap_year (int (ymd_year (date s)))) (ymd_month (date s) - 1)"
    and "\<bar>tz\<bar> \<le> ms_per_day"
  shows "pe_start (booking_event fb tz s b) = se_start (slot_to_event fb tz s) \<and>
    (\<exists>t. se_start (slot_to_event fb tz s) = Some t \<and>
      get_full_year tz (Some t) = Some (int (ymd_year (date s))) \<and>
      get_month tz (Some t) = Some (int (ymd_month (date s)) - 1) \<and>
      get_date tz (Some t) = Some (int (ymd_day (date s))) \<and>
      get_hours tz (Some t) = Some (int (hh (startTime s))) \<and>
      get_minutes tz (Some t) = Some (int (mm (startTime s))))"
  using parse_date_local [OF assms, of fb] by (simp add: booking_event_def slot_to_event_def)

theorem slot_start_fields_witness:
  "\<exists>t. se_start (slot_to_event (\<lambda>_. None) 19800000 demo_booked_slot) = Some t \<and>
     get_full_year 19800000 (Some t) = Some 2024 \<and> get_month 19800000 (Some t) = Some 2 \<and>
     get_date 19800000 (Some t) = Some 10 \<and> get_hours 19800000 (Some t) = Some 10 \<and>
     get_minutes 19800000 (Some t) = Some 0"
proof -
  have "ymd_ok ''2024-03-10'' \<and> hhmm_ok ''10:00''"
    by (simp add: ymd_ok_def hhmm_ok_def hh_def mm_def is_dec_digit_def dec_value_two digit_val_def)
  moreover have "ymd_year ''2024-03-10'' = 2024 \<and> ymd_month ''2024-03-10'' = 3 \<and>
      ymd_day ''2024-03-10'' = 10 \<and> hh ''10:00'' = 10 \<and> mm ''10:00'' = 0"
    by (simp add: ymd_year_def ymd_month_def ymd_day_def hh_def mm_def dec_value_def digits_value_def
        digit_val_def)
  moreover have "days_in_month (in_leap_year 2024) 2 = 31"
    by (simp add: days_in_month_def month_start_def in_leap_year_def)
  ultimately show ?thesis
    using slot_start_fields [of demo_booked_slot 19800000 "\<lambda>_. None" demo_booking]
    by (simp add: demo_booked_slot_def)
qed

end
