(* ===== verification/EnquiriesPage.thy ===== *)
theory EnquiriesPage
  imports JsDateParse DateFns DateFormat
begin

text \<open>
  The admin's enquiry list, src/apps/web/app/admin/enquiries/page.tsx. The page
  holds React state (lines 36 to 45); a debounce timer copies the search box into
  \<open>debouncedSearch\<close> 300 ms after the last keystroke (lines 48 to 54); a change of
  any filter sets the page back to 1 and fetches (lines 57 to 60); a change of page
  fetches (lines 63 to 65). \<open>fetchEnquiries\<close> (lines 67 to 109) asks the API for one
  page of ten, then filters that page by creation date and by class on the client.

  The model is a step function over the page's state and the events that can
  happen: a keystroke, the timer firing, a choice in one of the three selects, a
  click on a pagination button, and the answer to one of the requests still in
  flight. Every \<open>getEnquiries\<close> call is recorded with the query and the filters its
  closure captured; answers may arrive in any order, which is where the page's
  race lies. The API (\<open>@/lib/api\<close>, not in the repository) is a parameter
  \<open>api\<close> from the query to its result; \<open>now\<close> is a parameter of each answer.
  The render (lines 114 to 310) is a function of the state that gives the page's
  texts, rows and buttons, or the \<open>RangeError\<close> a row's \<open>format\<close> throws.
\<close>

subsection \<open>Data\<close>

datatype enquiry_status = StNew | StInProgress | StConverted

text \<open>\<open>Enquiry\<close> (lines 9 to 21).\<close>
record enquiry =
  enq_id :: string
  enq_tokenId :: string
  enq_parentName :: string
  childName :: string
  mobile :: string
  enq_email :: string
  grade :: string
  enq_status :: enquiry_status
  createdAt :: string
  slotBooked :: "bool option"

text \<open>\<open>statusColors\<close> and \<open>statusLabels\<close> (lines 23 to 33).\<close>
definition status_color :: "enquiry_status \<Rightarrow> string" where
  "status_color s = (case s of StNew \<Rightarrow> ''bg-blue-100 text-blue-800''
     | StInProgress \<Rightarrow> ''bg-yellow-100 text-yellow-800'' | StConverted \<Rightarrow> ''bg-green-100 text-green-800'')"

definition status_label :: "enquiry_status \<Rightarrow> string" where
  "status_label s = (case s of StNew \<Rightarrow> ''New'' | StInProgress \<Rightarrow> ''In Progress'' | StConverted \<Rightarrow> ''Converted'')"

text \<open>The argument of \<open>getEnquiries\<close> (lines 69 to 74).\<close>
record enquiry_query =
  q_page :: int
  q_limit :: int
  q_status :: "string option"
  q_search :: "string option"

record enquiry_page_data =
  pd_enquiries :: "enquiry list"
  pd_totalPages :: int
  pd_total :: int

text \<open>\<open>{ success, data }\<close> returned by \<open>getEnquiries\<close>.\<close>
record api_result =
  ar_success :: bool
  ar_data :: "enquiry_page_data option"

text \<open>
  What the promise returned by \<open>getEnquiries\<close> settles to: resolved with
  \<open>{ success, data }\<close>, or rejected (a failed request; \<open>@/lib/api\<close> is not in the
  repository, so both are possible).
\<close>
datatype api_answer = ApiResolved api_result | ApiRejected

text \<open>A call of \<open>getEnquiries\<close> in flight, with the filters its closure captured.\<close>
record pending_fetch =
  pf_query :: enquiry_query
  pf_date :: string
  pf_class :: string

text \<open>The page's state (lines 36 to 45), the pending debounce timer and the calls in flight.\<close>
record enq_state =
  es_enquiries :: "enquiry list"
  es_loading :: bool
  es_page :: int
  es_totalPages :: int
  es_total :: int
  es_search :: string
  es_debounced :: string
  es_status :: string
  es_date :: string
  es_class :: string
  es_timer :: bool
  es_pending :: "pending_fetch list"

definition initial_enq :: enq_state where
  "initial_enq = \<lparr>es_enquiries = [], es_loading = True, es_page = 1, es_totalPages = 1, es_total = 0,
     es_search = [], es_debounced = [], es_status = [], es_date = [], es_class = [], es_timer = False,
     es_pending = []\<rparr>"

subsection \<open>Fetching\<close>

text \<open>\<open>x || undefined\<close> for a string.\<close>
definition or_undefined :: "string \<Rightarrow> string option" where
  "or_undefined s = (if s = [] then None else Some s)"

text \<open>The start of \<open>fetchEnquiries\<close> (lines 68 to 74): the call, with this render's values.\<close>
definition fetch_enquiries :: "enq_state \<Rightarrow> enq_state" where
  "fetch_enquiries st =
     st\<lparr>es_loading := True,
        es_pending := es_pending st @
          [\<lparr>pf_query = \<lparr>q_page = es_page st, q_limit = 10, q_status = or_undefined (es_status st),
                        q_search = or_undefined (es_debounced st)\<rparr>,
            pf_date = es_date st, pf_class = es_class st\<rparr>]\<rparr>"

text \<open>The date filter of lines 82 to 94; \<open>startOfWeek\<close> with its default Sunday start.\<close>
definition date_keep ::
  "(string \<Rightarrow> time_value) \<Rightarrow> int \<Rightarrow> time_value \<Rightarrow> string \<Rightarrow> enquiry \<Rightarrow> bool" where
  "date_keep fb tz now df e =
     (let d = parse_date fb tz (createdAt e) in
      if df = ''today'' then js_le (start_of_day tz now) d
      else if df = ''week'' then js_le (start_of_week tz 0 now) d
      else if df = ''month'' then js_le (start_of_month tz now) d
      else True)"

text \<open>The two client-side filters (lines 77 to 102), on the page the API returned.\<close>
definition client_filter ::
  "(string \<Rightarrow> time_value) \<Rightarrow> int \<Rightarrow> time_value \<Rightarrow> string \<Rightarrow> string \<Rightarrow> enquiry list \<Rightarrow> enquiry list" where
  "client_filter fb tz now df cls es =
     (let es1 = (if df = [] then es else filter (date_keep fb tz now df) es) in
      if cls = [] then es1 else filter (\<lambda>e. grade e = cls) es1)"

text \<open>The rest of \<open>fetchEnquiries\<close> once its call has settled (lines 76 to 108).\<close>
definition settle ::
  "(string \<Rightarrow> time_value) \<Rightarrow> int \<Rightarrow> time_value \<Rightarrow> pending_fetch \<Rightarrow> api_result \<Rightarrow> enq_state \<Rightarrow> enq_state" where
  "settle fb tz now pf r st =
     (let st1 = (case ar_data r of
                   Some d \<Rightarrow>
                     if ar_success r then
                       st\<lparr>es_enquiries := client_filter fb tz now (pf_date pf) (pf_class pf) (pd_enquiries d),
                          es_totalPages := pd_totalPages d, es_total := pd_total d\<rparr>
                     else st
                 | None \<Rightarrow> st)
      in st1\<lparr>es_loading := False\<rparr>)"

subsection \<open>Effects and events\<close>

text \<open>
  The filter effect (lines 57 to 60): \<open>setPage(1)\<close>, then \<open>fetchEnquiries()\<close> with
  this render's \<open>page\<close>; when the page was not 1 the page effect (lines 63 to 65)
  then fetches again with page 1.
\<close>
definition filter_effect :: "enq_state \<Rightarrow> enq_state" where
  "filter_effect st =
     (let st1 = fetch_enquiries st in
      if es_page st = 1 then st1 else fetch_enquiries (st1\<lparr>es_page := 1\<rparr>))"

text \<open>On mount both effects run, each fetching page 1.\<close>
definition mounted_enq :: enq_state where
  "mounted_enq = fetch_enquiries (fetch_enquiries initial_enq)"

datatype enq_action =
    TypeSearch string
  | DebounceFire
  | ChooseStatus string
  | ChooseDate string
  | ChooseClass string
  | PrevPage
  | NextPage
  | Answer nat time_value

text \<open>
  One event on the page. A keystroke restarts the timer (lines 48 to 54, 135); the
  timer copies the search and, if it changed, runs the filter effect; a select
  that changes its value runs the filter effect (lines 145, 157, 179); the
  pagination buttons exist only when there is more than one page and are disabled
  at the ends (lines 284 to 303); \<open>Answer i now\<close> settles the \<open>i\<close>-th call in flight.
  A resolved call runs the rest of \<open>fetchEnquiries\<close>; a rejected one makes
  \<open>fetchEnquiries\<close> reject at its \<open>await\<close> (line 69), before \<open>setLoading(false)\<close>
  (line 108), and the effects that called it do not handle the rejection, so the
  state is left as it was.
\<close>
fun enq_step ::
  "(enquiry_query \<Rightarrow> api_answer) \<Rightarrow> (string \<Rightarrow> time_value) \<Rightarrow> int \<Rightarrow> enq_state \<Rightarrow> enq_action \<Rightarrow> enq_state" where
  "enq_step api fb tz st (TypeSearch s) = (if s = es_search st then st else st\<lparr>es_search := s, es_timer := True\<rparr>)"
| "enq_step api fb tz st DebounceFire =
     (if \<not> es_timer st then st
      else if es_search st = es_debounced st then st\<lparr>es_timer := False\<rparr>
      else filter_effect (st\<lparr>es_timer := False, es_debounced := es_search st\<rparr>))"
| "enq_step api fb tz st (ChooseStatus v) = (if v = es_status st then st else filter_effect (st\<lparr>es_status := v\<rparr>))"
| "enq_step api fb tz st (ChooseDate v) = (if v = es_date st then st else filter_effect (st\<lparr>es_date := v\<rparr>))"
| "enq_step api fb tz st (ChooseClass v) = (if v = es_class st then st else filter_effect (st\<lparr>es_class := v\<rparr>))"
| "enq_step api fb tz st PrevPage =
     (if es_totalPages st \<le> 1 \<or> es_page st = 1 then st
      else (let p = max 1 (es_page st - 1) in
            if p = es_page st then st else fetch_enquiries (st\<lparr>es_page := p\<rparr>)))"
| "enq_step api fb tz st NextPage =
     (if es_totalPages st \<le> 1 \<or> es_page st = es_totalPages st then st
      else (let p = min (es_totalPages st) (es_page st + 1) in
            if p = es_page st then st else fetch_enquiries (st\<lparr>es_page := p\<rparr>)))"
| "enq_step api fb tz st (Answer i now) =
     (if i < length (es_pending st) then
        (let pf = es_pending st ! i;
             st1 = st\<lparr>es_pending := take i (es_pending st) @ drop (Suc i) (es_pending st)\<rparr>
         in case api (pf_query pf) of
              ApiResolved r \<Rightarrow> settle fb tz now pf r st1
            | ApiRejected \<Rightarrow> st1)
      else st)"

text \<open>A run of events, and the states the page can reach from its mount.\<close>
definition enq_run ::
  "(enquiry_query \<Rightarrow> api_answer) \<Rightarrow> (string \<Rightarrow> time_value) \<Rightarrow> int \<Rightarrow> enq_state \<Rightarrow> enq_action list \<Rightarrow> enq_state" where
  "enq_run api fb tz st as = foldl (enq_step api fb tz) st as"

inductive enq_reach ::
  "(enquiry_query \<Rightarrow> api_answer) \<Rightarrow> (string \<Rightarrow> time_value) \<Rightarrow> int \<Rightarrow> enq_state \<Rightarrow> bool"
  for api fb tz where
  mount: "enq_reach api fb tz mounted_enq"
| step: "enq_reach api fb tz st \<Longrightarrow> enq_reach api fb tz (enq_step api fb tz st a)"


text \<open>
  Three pages of one enquiry each, whatever the filters.
\<close>
definition demo_enquiry :: "int \<Rightarrow> enquiry" where
  "demo_enquiry p = \<lparr>enq_id = ''e'', enq_tokenId = ''TKN-100'' @ int_to_js_string p, enq_parentName = ''Asha Rao'',
     childName = ''Kiran Rao'', mobile = ''9800000000'', enq_email = ''asha@example.com'', grade = ''LKG'',
     enq_status = StNew, createdAt = ''2024-03-10T04:30:00.000Z'', slotBooked = None\<rparr>"

definition demo_page :: "enquiry_query \<Rightarrow> api_result" where
  "demo_page q = \<lparr>ar_success = True,
     ar_data = Some \<lparr>pd_enquiries = [demo_enquiry (q_page q)], pd_totalPages = 3, pd_total = 25\<rparr>\<rparr>"

definition demo_api :: "enquiry_query \<Rightarrow> api_answer" where
  "demo_api q = ApiResolved (demo_page q)"

text \<open>An API whose pages are empty although it reports three of them.\<close>
definition empty_pages_api :: "enquiry_query \<Rightarrow> api_answer" where
  "empty_pages_api q = ApiResolved \<lparr>ar_success = True,
     ar_data = Some \<lparr>pd_enquiries = [], pd_totalPages = 3, pd_total = 0\<rparr>\<rparr>"

definition demo_fetch :: pending_fetch where
  "demo_fetch = \<lparr>pf_query = \<lparr>q_page = 1, q_limit = 10, q_status = None, q_search = None\<rparr>,
     pf_date = [], pf_class = ''UKG''\<rparr>"

text \<open>
  What the page keeps true: the page number is at least 1, and without a pending
  timer the debounced search equals the search box.
\<close>
definition enq_inv :: "enq_state \<Rightarrow> bool" where
  "enq_inv st \<longleftrightarrow> 1 \<le> es_page st \<and> (es_timer st \<or> es_debounced st = es_search st)"

subsection \<open>Rendering\<close>

text \<open>One row of the table (lines 233 to 276).\<close>
record enq_row =
  row_key :: string
  row_tokenId :: string
  row_childName :: string
  row_parentName :: string
  row_mobile :: string
  row_grade :: string
  row_status_class :: string
  row_status_label :: string
  row_slot :: string
  row_date :: string
  row_href :: string

definition enquiry_row :: "(string \<Rightarrow> time_value) \<Rightarrow> int \<Rightarrow> enquiry \<Rightarrow> range_error + enq_row" where
  "enquiry_row fb tz e =
     (case format_date tz (parse_date fb tz (createdAt e)) pattern_dd_MMM_yyyy of
        Inl err \<Rightarrow> Inl err
      | Inr dt \<Rightarrow> Inr \<lparr>row_key = enq_id e, row_tokenId = enq_tokenId e, row_childName = childName e,
          row_parentName = enq_parentName e, row_mobile = mobile e, row_grade = grade e,
          row_status_class = ''px-2 py-1 text-xs font-medium rounded-full '' @ status_color (enq_status e),
          row_status_label = status_label (enq_status e),
          row_slot = (if slotBooked e = Some True then ''Booked'' else ''Not Booked''),
          row_date = dt, row_href = ''/admin/enquiries/'' @ enq_id e\<rparr>)"

text \<open>\<open>enquiries.map(...)\<close> (lines 232 to 277): the first row that throws aborts the render.\<close>
primrec enquiry_rows :: "(string \<Rightarrow> time_value) \<Rightarrow> int \<Rightarrow> enquiry list \<Rightarrow> range_error + enq_row list" where
  "enquiry_rows fb tz [] = Inr []"
| "enquiry_rows fb tz (e # es) =
     (case enquiry_row fb tz e of
        Inl err \<Rightarrow> Inl err
      | Inr r \<Rightarrow> (case enquiry_rows fb tz es of Inl err \<Rightarrow> Inl err | Inr rs \<Rightarrow> Inr (r # rs)))"

datatype enq_body = EnqSpinner | NoEnquiries | EnqTable "enq_row list"

record enq_pagination =
  pg_text :: string
  pg_prev_disabled :: bool
  pg_next_disabled :: bool

text \<open>What the page shows: the header, the values of the search box and the selects, the body and the pagination.\<close>
record enq_view =
  ev_total_text :: string
  ev_search :: string
  ev_date :: string
  ev_class :: string
  ev_status :: string
  ev_body :: enq_body
  ev_pagination :: "enq_pagination option"

text \<open>The render of the page (lines 114 to 310); a \<open>RangeError\<close> thrown by a row aborts it.\<close>
definition enq_render :: "(string \<Rightarrow> time_value) \<Rightarrow> int \<Rightarrow> enq_state \<Rightarrow> range_error + enq_view" where
  "enq_render fb tz st =
     (let body = (if es_loading st then Inr EnqSpinner
                  else if es_enquiries st = [] then Inr NoEnquiries
                  else map_sum id EnqTable (enquiry_rows fb tz (es_enquiries st)))
      in case body of
           Inl err \<Rightarrow> Inl err
         | Inr b \<Rightarrow> Inr \<lparr>ev_total_text = int_to_js_string (es_total st) @ '' total enquiries'',
             ev_search = es_search st, ev_date = es_date st, ev_class = es_class st, ev_status = es_status st,
             ev_body = b,
             ev_pagination = (if 1 < es_totalPages st then
               Some \<lparr>pg_text = ''Page '' @ int_to_js_string (es_page st) @ '' of '' @ int_to_js_string (es_totalPages st),
                     pg_prev_disabled = (es_page st = 1), pg_next_disabled = (es_page st = es_totalPages st)\<rparr>
               else None)\<rparr>)"

text \<open>
  What the API expects of a query: a page from 1, ten enquiries a page, and the
  optional filters either absent or non-empty.
\<close>
definition query_ok :: "enquiry_query \<Rightarrow> bool" where
  "query_ok q \<longleftrightarrow> 1 \<le> q_page q \<and> q_limit q = 10 \<and> q_status q \<noteq> Some [] \<and> q_search q \<noteq> Some []"

abbreviation queries_ok :: "enq_state \<Rightarrow> bool" where
  "queries_ok st \<equiv> list_all (\<lambda>pf. query_ok (pf_query pf)) (es_pending st)"

subsection \<open>Lemmas\<close>

lemma fetch_enquiries_fields [simp]:
  "es_page (fetch_enquiries st) = es_page st" "es_search (fetch_enquiries st) = es_search st"
  "es_debounced (fetch_enquiries st) = es_debounced st" "es_timer (fetch_enquiries st) = es_timer st"
  by (simp_all add: fetch_enquiries_def)

lemma filter_effect_fields [simp]:
  "es_page (filter_effect st) = 1" "es_search (filter_effect st) = es_search st"
  "es_debounced (filter_effect st) = es_debounced st" "es_timer (filter_effect st) = es_timer st"
  by (simp_all add: filter_effect_def Let_def)

lemma settle_fields [simp]:
  "es_page (settle fb tz now pf r st) = es_page st" "es_search (settle fb tz now pf r st) = es_search st"
  "es_debounced (settle fb tz now pf r st) = es_debounced st" "es_timer (settle fb tz now pf r st) = es_timer st"
  by (simp_all add: settle_def Let_def split: option.splits)

lemma enq_inv_step: "enq_inv st \<Longrightarrow> enq_inv (enq_step api fb tz st a)"
  by (cases a) (auto simp: enq_inv_def Let_def split: api_answer.splits)

lemma enq_reach_inv: "enq_reach api fb tz st \<Longrightarrow> enq_inv st"
proof (induction rule: enq_reach.induct)
  case mount
  show ?case by (simp add: enq_inv_def mounted_enq_def initial_enq_def)
next
  case (step st a)
  from step.IH show ?case by (rule enq_inv_step)
qed

lemma demo_reach: "enq_reach demo_api (\<lambda>_. None) 0 (enq_step demo_api (\<lambda>_. None) 0 mounted_enq a)"
  by (rule enq_reach.step [OF enq_reach.mount])

lemma settle_pending [simp]: "es_pending (settle fb tz now pf r st) = es_pending st"
  by (simp add: settle_def Let_def split: option.splits)

lemma fetch_enquiries_ok: "1 \<le> es_page st \<Longrightarrow> queries_ok st \<Longrightarrow> queries_ok (fetch_enquiries st)"
  by (simp add: fetch_enquiries_def query_ok_def or_undefined_def)

lemma filter_effect_ok: "1 \<le> es_page st \<Longrightarrow> queries_ok st \<Longrightarrow> queries_ok (filter_effect st)"
  by (simp add: filter_effect_def Let_def fetch_enquiries_ok)

lemma enq_step_ok:
  assumes "enq_inv st" "queries_ok st"
  shows "queries_ok (enq_step api fb tz st a)"
proof (cases a)
  case (Answer i now)
  have "set (take i (es_pending st) @ drop (Suc i) (es_pending st)) \<subseteq> set (es_pending st)"
    using set_take_subset set_drop_subset by fastforce
  then show ?thesis using assms(2) Answer by (auto simp: Let_def list_all_iff split: api_answer.splits)
qed (use assms in \<open>auto simp: enq_inv_def Let_def intro!: filter_effect_ok fetch_enquiries_ok\<close>)

lemma enq_render_pagination:
  "enq_render fb tz st = Inr v \<Longrightarrow>
     ev_pagination v = (if 1 < es_totalPages st then
       Some \<lparr>pg_text = ''Page '' @ int_to_js_string (es_page st) @ '' of '' @ int_to_js_string (es_totalPages st),
             pg_prev_disabled = (es_page st = 1), pg_next_disabled = (es_page st = es_totalPages st)\<rparr>
       else None)"
  by (auto simp: enq_render_def Let_def split: if_splits sum.splits)

lemma enquiry_row_error: "isl (enquiry_row fb tz e) \<longleftrightarrow> parse_date fb tz (createdAt e) = None"
  by (simp add: enquiry_row_def format_date_def split: option.splits)

lemma enquiry_rows_error:
  "isl (enquiry_rows fb tz es) \<longleftrightarrow> (\<exists>e\<in>set es. parse_date fb tz (createdAt e) = None)"
  by (induction es) (auto simp: enquiry_row_error [symmetric] split: sum.splits)

lemma answer_step:
  assumes "i < length (es_pending st)"
  shows "es_pending (enq_step api fb tz st (Answer i now)) = take i (es_pending st) @ drop (Suc i) (es_pending st) \<and>
    (es_loading (enq_step api fb tz st (Answer i now)) \<longleftrightarrow>
       es_loading st \<and> api (pf_query (es_pending st ! i)) = ApiRejected)"
  using assms by (simp add: settle_def Let_def split: option.splits api_answer.splits)

subsection \<open>Properties of the enquiry list\<close>

text \<open>
  C20. Changing the status filter on a page \<open>p\<close> other than 1 sends a request for
  page \<open>p\<close> (the effect's stale \<open>page\<close>) and one for page 1. When the page-1
  answer arrives first and the page-\<open>p\<close> answer last, the page shows "page 1"
  with the rows and the page count of page \<open>p\<close> under the new filter, whatever
  the page-1 answer was.
\<close>
theorem stale_page_race:
  assumes "es_page st \<noteq> 1" "v \<noteq> es_status st"
    and "api \<lparr>q_page = es_page st, q_limit = 10, q_status = or_undefined v,
      q_search = or_undefined (es_debounced st)\<rparr> = ApiResolved r"
    and "ar_success r" "ar_data r = Some d"
  shows "es_page (enq_run api fb tz st [ChooseStatus v, Answer (Suc (length (es_pending st))) now_a,
      Answer (length (es_pending st)) now_b]) = 1 \<and>
    es_enquiries (enq_run api fb tz st [ChooseStatus v, Answer (Suc (length (es_pending st))) now_a,
      Answer (length (es_pending st)) now_b]) = client_filter fb tz now_b (es_date st) (es_class st) (pd_enquiries d) \<and>
    es_totalPages (enq_run api fb tz st [ChooseStatus v, Answer (Suc (length (es_pending st))) now_a,
      Answer (length (es_pending st)) now_b]) = pd_totalPages d \<and>
    es_pending (enq_run api fb tz st [ChooseStatus v, Answer (Suc (length (es_pending st))) now_a,
      Answer (length (es_pending st)) now_b]) = es_pending st"
  using assms
  by (cases "api \<lparr>q_page = 1, q_limit = 10, q_status = or_undefined v, q_search = or_undefined (es_debounced st)\<rparr>")
     (simp_all add: enq_run_def filter_effect_def fetch_enquiries_def Let_def settle_def nth_append
      split: option.splits)

theorem stale_page_race_witness:
  "es_page (enq_run demo_api (\<lambda>_. None) 0 (initial_enq\<lparr>es_page := 3\<rparr>)
      [ChooseStatus ''new'', Answer 1 None, Answer 0 None]) = 1 \<and>
   es_enquiries (enq_run demo_api (\<lambda>_. None) 0 (initial_enq\<lparr>es_page := 3\<rparr>)
      [ChooseStatus ''new'', Answer 1 None, Answer 0 None]) = [demo_enquiry 3]"
  using stale_page_race [where st = "initial_enq\<lparr>es_page := 3\<rparr>" and v = "''new''" and api = demo_api
      and r = "demo_page \<lparr>q_page = 3, q_limit = 10, q_status = Some ''new'', q_search = None\<rparr>"
      and d = "\<lparr>pd_enquiries = [demo_enquiry 3], pd_totalPages = 3, pd_total = 25\<rparr>"
      and fb = "\<lambda>_. None" and tz = 0 and now_a = None and now_b = None]
  by (simp add: initial_enq_def demo_api_def demo_page_def or_undefined_def client_filter_def)

text \<open>
  C21. A change of the status filter resets the page to 1 and issues a request with
  the page the page was on, followed by a second request for page 1 when that page
  was not 1.
\<close>
theorem filter_change_requests:
  assumes "v \<noteq> es_status st"
  shows "es_pending (enq_step api fb tz st (ChooseStatus v)) = es_pending st @
      \<lparr>pf_query = \<lparr>q_page = es_page st, q_limit = 10, q_status = or_undefined v,
         q_search = or_undefined (es_debounced st)\<rparr>, pf_date = es_date st, pf_class = es_class st\<rparr> #
      (if es_page st = 1 then []
       else [\<lparr>pf_query = \<lparr>q_page = 1, q_limit = 10, q_status = or_undefined v,
         q_search = or_undefined (es_debounced st)\<rparr>, pf_date = es_date st, pf_class = es_class st\<rparr>])
    \<and> es_page (enq_step api fb tz st (ChooseStatus v)) = 1"
  using assms by (simp add: filter_effect_def fetch_enquiries_def Let_def)

theorem filter_change_requests_witness:
  "length (es_pending (enq_step demo_api (\<lambda>_. None) 0 (initial_enq\<lparr>es_page := 3\<rparr>) (ChooseStatus ''new''))) = 2"
  using filter_change_requests [of "''new''" "initial_enq\<lparr>es_page := 3\<rparr>" demo_api "\<lambda>_. None" 0]
  by (simp add: initial_enq_def)

text \<open>
  C22. In every state the page can reach, the page number is at least 1: the
  buttons clamp it and a filter change resets it to 1.
\<close>
theorem enq_page_positive:
  assumes "enq_reach api fb tz st"
  shows "1 \<le> es_page st"
  using enq_reach_inv [OF assms] by (simp add: enq_inv_def)

theorem enq_page_positive_witness:
  "1 \<le> es_page (enq_step demo_api (\<lambda>_. None) 0 mounted_enq PrevPage)"
  using enq_page_positive [OF demo_reach] .

text \<open>
  C23. When an answer succeeds, the list shows only the enquiries of the class
  chosen when the request was made, while the total and the number of pages are
  the server's, counted before that filter.
\<close>
theorem settle_client_filters:
  assumes "ar_success r" "ar_data r = Some d" "pf_class pf \<noteq> []"
  shows "list_all (\<lambda>e. grade e = pf_class pf) (es_enquiries (settle fb tz now pf r st)) \<and>
    es_total (settle fb tz now pf r st) = pd_total d \<and>
    es_totalPages (settle fb tz now pf r st) = pd_totalPages d \<and>
    \<not> es_loading (settle fb tz now pf r st)"
  using assms by (simp add: settle_def client_filter_def Let_def list_all_iff)

theorem settle_client_filters_witness:
  "list_all (\<lambda>e. grade e = ''UKG'') (es_enquiries (settle (\<lambda>_. None) 0 None demo_fetch
     (demo_page (pf_query demo_fetch)) initial_enq)) \<and>
   es_total (settle (\<lambda>_. None) 0 None demo_fetch (demo_page (pf_query demo_fetch)) initial_enq) = 25"
  using settle_client_filters [of "demo_page (pf_query demo_fetch)"
      "\<lparr>pd_enquiries = [demo_enquiry 1], pd_totalPages = 3, pd_total = 25\<rparr>" demo_fetch "\<lambda>_. None" 0 None
      initial_enq]
  by (simp add: demo_page_def demo_fetch_def)

text \<open>
  C24. A keystroke sends no request, and when the debounce timer then fires the
  debounced search is what was typed.
\<close>
theorem debounce_applies_search:
  assumes "enq_reach api fb tz st"
  shows "es_pending (enq_step api fb tz st (TypeSearch s)) = es_pending st \<and>
    es_debounced (enq_step api fb tz (enq_step api fb tz st (TypeSearch s)) DebounceFire) = s"
  using enq_reach_inv [OF assms] by (auto simp: enq_inv_def Let_def)

theorem debounce_applies_search_witness:
  "es_debounced (enq_step demo_api (\<lambda>_. None) 0
     (enq_step demo_api (\<lambda>_. None) 0 (enq_step demo_api (\<lambda>_. None) 0 mounted_enq (Answer 0 None))
       (TypeSearch ''TKN'')) DebounceFire) = ''TKN''"
  using debounce_applies_search [OF demo_reach] by blast

text \<open>
  The two pages disagree on "this week": the enquiry list's \<open>startOfWeek\<close>
  starts on Sunday and the principal's calendar's \<open>startOfISOWeek\<close> on Monday, so on
  a Sunday the enquiry list's week starts six days later and on any other day one
  day earlier.
\<close>
lemma week_start_divergence:
  assumes "\<bar>u\<bar> + 8 * ms_per_day \<le> max_time_value"
  shows "\<exists>s. start_of_iso_week tz (Some u) = Some s \<and>
    start_of_week tz 0 (Some u) =
      Some (if (day (u + tz) + 4) mod 7 = 0 then s + 6 * ms_per_day else s - ms_per_day)"
proof -
  let ?wd = "(day (u + tz) + 4) mod 7"
  obtain a1 where w1: "start_of_week tz 1 (Some u) = Some ((day (u + tz) - a1) * ms_per_day - tz)"
    "a1 = (if ?wd < 1 then 7 else 0) + ?wd - 1"
    using week_bounds [OF assms, of 1 tz] by auto
  obtain a0 where w0: "start_of_week tz 0 (Some u) = Some ((day (u + tz) - a0) * ms_per_day - tz)"
    "a0 = (if ?wd < 0 then 7 else 0) + ?wd - 0"
    using week_bounds [OF assms, of 0 tz] by auto
  have nn: "0 \<le> ?wd" by simp
  show ?thesis
    unfolding start_of_iso_week_def w1(1) w0(1)
  proof (intro exI conjI)
    show "Some ((day (u + tz) - a0) * ms_per_day - tz) = Some (if ?wd = 0
      then (day (u + tz) - a1) * ms_per_day - tz + 6 * ms_per_day
      else (day (u + tz) - a1) * ms_per_day - tz - ms_per_day)"
      using nn by (cases "?wd = 0") (simp_all add: w0(2) w1(2) algebra_simps)
  qed simp
qed



text \<open>
  C31. Once every request in flight has been answered, in whatever order the
  answers arrive, no request is left; the spinner is off unless it was on and every
  one of those requests failed: a rejected \<open>getEnquiries\<close> skips
  \<open>setLoading(false)\<close>, and when all fail the spinner stays on for good.
\<close>
theorem enq_answers_settle:
  assumes "length is = length (es_pending st)" "\<forall>k < length is. is ! k < length (es_pending st) - k"
  shows "es_pending (enq_run api fb tz st (map (\<lambda>i. Answer i now) is)) = [] \<and>
    (es_loading (enq_run api fb tz st (map (\<lambda>i. Answer i now) is)) \<longleftrightarrow>
       es_loading st \<and> (\<forall>pf\<in>set (es_pending st). api (pf_query pf) = ApiRejected))"
  using assms
proof (induction "is" arbitrary: st)
  case Nil
  then show ?case by (simp add: enq_run_def)
next
  case (Cons i "is")
  let ?st' = "enq_step api fb tz st (Answer i now)"
  let ?R = "\<lambda>pf. api (pf_query pf) = ApiRejected"
  have i: "i < length (es_pending st)" using Cons.prems(2) by auto
  have a: "es_pending ?st' = take i (es_pending st) @ drop (Suc i) (es_pending st)"
    "es_loading ?st' \<longleftrightarrow> es_loading st \<and> ?R (es_pending st ! i)"
    using answer_step [OF i] by simp_all
  have len: "length (es_pending ?st') = length (es_pending st) - 1" using a(1) i by simp
  have "set (es_pending st) = insert (es_pending st ! i) (set (es_pending ?st'))"
    using id_take_nth_drop [OF i] a(1) by (metis Un_insert_right list.simps(15) set_append)
  then have all: "(\<forall>pf\<in>set (es_pending st). ?R pf) \<longleftrightarrow> ?R (es_pending st ! i) \<and> (\<forall>pf\<in>set (es_pending ?st'). ?R pf)"
    by simp
  have "\<forall>k < length is. is ! k < length (es_pending ?st') - k"
  proof (intro allI impI)
    fix k assume "k < length is"
    then show "is ! k < length (es_pending ?st') - k"
      using Cons.prems(2) [rule_format, of "Suc k"] len by simp
  qed
  moreover have "length is = length (es_pending ?st')" using len Cons.prems(1) by simp
  ultimately show ?case using Cons.IH [of ?st'] a(2) all by (auto simp: enq_run_def)
qed

theorem enq_answers_settle_witness:
  "es_pending (enq_run (\<lambda>_. ApiRejected) (\<lambda>_. None) 0 mounted_enq [Answer 1 None, Answer 0 None]) = [] \<and>
   es_loading (enq_run (\<lambda>_. ApiRejected) (\<lambda>_. None) 0 mounted_enq [Answer 1 None, Answer 0 None])"
  using enq_answers_settle [of "[1, 0]" mounted_enq "\<lambda>_. ApiRejected" "\<lambda>_. None" 0 None]
  by (simp add: mounted_enq_def initial_enq_def fetch_enquiries_def less_Suc_eq numeral_2_eq_2)

text \<open>
  C32. Every request the page sends is one the API accepts: a page number from 1,
  ten enquiries a page, and the status and search filters either left out or
  non-empty, never the empty string.
\<close>
theorem enq_queries_well_formed:
  assumes "enq_reach api fb tz st"
  shows "list_all (\<lambda>pf. query_ok (pf_query pf)) (es_pending st)"
  using assms
proof (induction rule: enq_reach.induct)
  case mount
  show ?case by (simp add: mounted_enq_def initial_enq_def fetch_enquiries_def query_ok_def or_undefined_def)
next
  case (step st a)
  show ?case using enq_step_ok [OF enq_reach_inv [OF step.hyps] step.IH] .
qed

theorem enq_queries_well_formed_witness:
  "list_all (\<lambda>pf. query_ok (pf_query pf)) (es_pending (enq_step demo_api (\<lambda>_. None) 0 mounted_enq (ChooseStatus ''new'')))"
  using enq_queries_well_formed [OF demo_reach] .

text \<open>
  C33. Rendering the list throws (the \<open>RangeError\<close> of \<open>format\<close>) exactly when it is
  not loading and one of the enquiries shown has a creation date that does not
  parse; one such enquiry takes the whole page down.
\<close>
theorem enq_render_error:
  "isl (enq_render fb tz st) \<longleftrightarrow>
     \<not> es_loading st \<and> (\<exists>e\<in>set (es_enquiries st). parse_date fb tz (createdAt e) = None)"
proof (cases "es_loading st \<or> es_enquiries st = []")
  case True
  then show ?thesis by (auto simp: enq_render_def)
next
  case False
  then show ?thesis
    using enquiry_rows_error [of fb tz "es_enquiries st"]
    by (cases "enquiry_rows fb tz (es_enquiries st)") (simp_all add: enq_render_def)
qed

theorem enq_render_error_witness:
  "isl (enq_render (\<lambda>_. None) 0 (initial_enq\<lparr>es_loading := False,
     es_enquiries := [(demo_enquiry 1)\<lparr>createdAt := ''10/03/2024''\<rparr>]\<rparr>))"
proof -
  have "parse_date (\<lambda>_. None) 0 (createdAt ((demo_enquiry 1)\<lparr>createdAt := ''10/03/2024''\<rparr>)) = None"
    by (simp add: parse_date_def iso_fields_def iso_separators_def date_only_fields_def utc_offset_def)
  then show ?thesis using enq_render_error [of "\<lambda>_. None" 0] by (simp add: initial_enq_def)
qed

text \<open>
  C35. The pagination bar and the buttons' handlers agree: in every state the
  page can reach and render, a click on "previous" or "next" changes the page
  exactly when the bar is shown and that button is enabled.
\<close>
theorem pagination_buttons:
  assumes "enq_reach api fb tz st" and "enq_render fb tz st = Inr v"
  shows "(es_page (enq_step api fb tz st PrevPage) \<noteq> es_page st \<longleftrightarrow>
      (\<exists>pg. ev_pagination v = Some pg \<and> \<not> pg_prev_disabled pg)) \<and>
    (es_page (enq_step api fb tz st NextPage) \<noteq> es_page st \<longleftrightarrow>
      (\<exists>pg. ev_pagination v = Some pg \<and> \<not> pg_next_disabled pg))"
proof -
  have p: "1 \<le> es_page st" using enq_reach_inv [OF assms(1)] by (simp add: enq_inv_def)
  show ?thesis
    using p enq_render_pagination [OF assms(2)] by (auto simp: Let_def min_def max_def)
qed

theorem pagination_buttons_witness:
  "es_page (enq_step empty_pages_api (\<lambda>_. None) 0
      (enq_step empty_pages_api (\<lambda>_. None) 0 mounted_enq (Answer 0 None)) NextPage) = 2 \<and>
   es_page (enq_step empty_pages_api (\<lambda>_. None) 0
      (enq_step empty_pages_api (\<lambda>_. None) 0 mounted_enq (Answer 0 None)) PrevPage) = 1"
proof -
  let ?S = "enq_step empty_pages_api (\<lambda>_. None) 0 mounted_enq (Answer 0 None)"
  have reach: "enq_reach empty_pages_api (\<lambda>_. None) 0 ?S" by (rule enq_reach.step [OF enq_reach.mount])
  have s: "es_page ?S = 1" "es_totalPages ?S = 3" "\<not> es_loading ?S" "es_enquiries ?S = []"
    by (simp_all add: mounted_enq_def initial_enq_def fetch_enquiries_def empty_pages_api_def settle_def
        client_filter_def)
  obtain v where v: "enq_render (\<lambda>_. None) 0 ?S = Inr v" using s(3,4) by (simp add: enq_render_def)
  have "\<exists>pg. ev_pagination v = Some pg \<and> \<not> pg_next_disabled pg" "\<not> (\<exists>pg. ev_pagination v = Some pg \<and> \<not> pg_prev_disabled pg)"
    using enq_render_pagination [OF v] s(1,2) by simp_all
  then have "es_page (enq_step empty_pages_api (\<lambda>_. None) 0 ?S NextPage) \<noteq> 1"
    "es_page (enq_step empty_pages_api (\<lambda>_. None) 0 ?S PrevPage) = 1"
    using pagination_buttons [OF reach v] s(1) by simp_all
  then show ?thesis using s(1,2) by (auto simp: Let_def split: if_splits)
qed

end
