(* ===== verification/Spec2Isabelle.thy ===== *)
theory Spec2Isabelle
  imports EmailService PrincipalCalendar EnquiriesPage
begin

text \<open>
  \<^bold>\<open>A verification model of the school-admission repository.\<close>

  \<^bold>\<open>The program.\<close> The repository holds an API service and a web console. The
  part with behaviour of its own is the invite composer and dispatcher,
  src/apps/api/src/services/email.ts: \<open>sendParentCalendarInvite\<close> and
  \<open>sendPrincipalCalendarInvite\<close> turn a booked counselling slot into a calendar
  file (through the \<open>ics\<close> library, in \<open>generateICSContent\<close>) and a letter, and
  either print them (\<open>NODE_ENV\<close> is \<open>development\<close>) or hand one email with a
  base64 attachment to Resend, reporting a \<open>SendEmailResult\<close>. The web pages
  (src/apps/web/app/...) display enquiries, slots and bookings fetched from the API.

  \<^bold>\<open>The theories.\<close>
  \<^item> \<open>Prelude\<close>: the model's types (a \<open>Date\<close>'s time value as \<open>int option\<close>,
    \<open>process.env\<close> as a partial map, console entries) and the ECMAScript string
    built-ins the code calls: \<open>split\<close> with a one-character separator, \<open>trim\<close>,
    \<open>join\<close>, string comparison \<open><\<close>, array indexing, the \<open>x || d\<close> fallback.
  \<^item> \<open>JsNumber\<close>: \<open>Number(string)\<close> (the StringNumericLiteral grammar: white
    space, signs, decimals with fraction and exponent, \<open>Infinity\<close>, \<open>0x\<close>/\<open>0o\<close>/\<open>0b\<close>
    literals, overflow to infinity) followed by the truncation that \<open>setHours\<close>
    applies; \<open>None\<close> is \<open>NaN\<close> or an infinity, both of which make \<open>setHours\<close>
    produce an invalid date.
  \<^item> \<open>JsDate\<close>: the \<open>Date\<close> arithmetic of ECMAScript section 21.4.1 on time values
    in milliseconds: Day, TimeWithinDay, MakeTime, MakeDay, MakeDate, TimeClip,
    YearFromTime, MonthFromTime, DateFromTime, and \<open>setHours\<close>, \<open>getHours\<close>,
    \<open>getMinutes\<close>, \<open>getFullYear\<close>, \<open>getMonth\<close>, \<open>getDate\<close> in a local zone of
    fixed offset \<open>tz\<close> (milliseconds east of UTC). YearFromTime is computed from an
    estimate corrected by two loops, \<open>year_down\<close> and \<open>year_up\<close>, each a
    \<open>function\<close> with a termination measure, and each runs at most once.
  \<^item> \<open>Base64\<close>: \<open>Buffer.from(s).toString('base64')\<close>: UTF-8 encoding of the
    characters into \<open>8 word\<close> bytes and RFC 4648 base64, with a decoder.
  \<^item> \<open>InviteCalendar\<close>: the records of email.ts (\<open>CalendarEventData\<close>,
    \<open>SendEmailResult\<close>, the handlers' arguments), the external capabilities as the
    record \<open>platform\<close> (the \<open>ics\<close> library's \<open>createEvent\<close>, Resend's
    \<open>emails.send\<close>, the two \<open>toLocaleDateString\<close> formats, the zone offset), the
    world the handlers change (\<open>console\<close>, and \<open>outbox\<close>, the emails handed to
    Resend in order), \<open>parse_time\<close> (lines 79-80), \<open>slot_instants\<close> (lines 82-86
    and 191-195), \<open>ics_attributes\<close> and \<open>generateICSContent\<close> (lines 24-59).
  \<^item> \<open>EmailService\<close>: the delivery call and its three outcomes
    (\<open>send_via_resend\<close>, lines 136-169 and 236-269), the configuration lookups,
    and for each handler its event, letter, subject, development log, payload and
    the handler itself (\<open>sendParentCalendarInvite\<close>, lines 65-170;
    \<open>sendPrincipalCalendarInvite\<close>, lines 175-270).
  \<^item> \<open>JsDateParse\<close>: \<open>new Date(string)\<close> on the Date Time String Format
    (local date-times, and UTC ones with the suffix \<open>Z\<close>; other strings go to an
    implementation-defined parser, a parameter), and the "YYYY-MM-DD" and "HH:MM"
    formats of the data.
  \<^item> \<open>DateFns\<close>: the date-fns functions the pages call (\<open>startOfDay\<close>,
    \<open>endOfDay\<close>, \<open>startOfWeek\<close>, \<open>endOfWeek\<close>, \<open>startOfISOWeek\<close>,
    \<open>endOfISOWeek\<close>, \<open>startOfMonth\<close>), from the library's code, over \<open>getDay\<close> and
    \<open>setDate\<close>.
  \<^item> \<open>DateFormat\<close>: date-fns \<open>format\<close> for the two patterns of the pages
    (\<open>'dd MMM yyyy'\<close>, \<open>'MMMM d, yyyy'\<close>): the \<open>RangeError\<close> on an invalid
    date, then the local date, month name and era year with \<open>addLeadingZeros\<close>.
  \<^item> \<open>SlotCalendar\<close>: the slot data of the web pages and the admin slot calendar,
    src/apps/web/app/admin/slots/CalendarView.tsx: slots to events, their titles,
    the colour of \<open>eventPropGetter\<close> and the legend it implements, and the
    rendered view (\<open>calendar_view\<close>: one cell per slot, then the legend).
  \<^item> \<open>PrincipalCalendar\<close>: src/apps/web/app/principal/calendar/page.tsx as a
    state machine (\<open>page_step\<close>, reachable states \<open>page_reach\<close>): \<open>fetchSlots\<close>
    and its filter of booked slots, one event per booking, the today, week and all
    filters, the statistics, and the modal; its render (\<open>principal_render\<close>):
    spinner, filter buttons, statistics, calendar or empty message, and the modal,
    whose \<open>format\<close> may throw; and src/apps/web/app/principal/layout.tsx, the
    portal's metadata and the layout around the page (\<open>principal_portal\<close>).
  \<^item> \<open>EnquiriesPage\<close>: src/apps/web/app/admin/enquiries/page.tsx as a state
    machine over its React state, the debounce timer and the requests in flight
    (\<open>enq_step\<close>, reachable states \<open>enq_reach\<close>); answers may arrive in any order,
    and each call of \<open>getEnquiries\<close> is resolved or rejected (\<open>api_answer\<close>).
    Its render (\<open>enq_render\<close>): the total, the inputs, the spinner, the empty
    message or one row per enquiry (with \<open>format\<close> of its creation date), and the
    pagination bar.

  Each handler is a function \<open>platform \<Rightarrow> env \<Rightarrow> data \<Rightarrow> world \<Rightarrow> outcome\<close>; the
  outcome pairs \<open>Inr\<close> of the result the promise resolves to, or \<open>Inl\<close> of the
  exception it rejects with, with the new world. The awaited delivery call is one
  application of \<open>resend_send\<close>; its settled promise is a \<open>resend_response\<close>
  (resolved with data or error, or rejected with a thrown value).

  \<^bold>\<open>What is proved.\<close>
  \<^item> Dispatch (EmailService): development mode succeeds and sends nothing; a
    provider error and a thrown error give \<open>Failed to send email: \<close> and its text;
    outside development mode exactly one email, with its sender, recipient (the
    parent, or \<open>PRINCIPAL_EMAIL\<close>), subject, text and one attachment whose base64
    content decodes to the calendar file; calendar failure still sends, with an
    empty attachment; success reports success; the spec's first scenario.
  \<^item> Time (InviteCalendar, JsDate, JsNumber): for "HH:MM" times and a date at
    least a day inside the range of \<open>Date\<close>, both instants are valid, their order
    is the string order of the two times, and the ICS arrays hold the date's
    local year, month and day with the given hours and minutes. Supporting
    lemmas (not properties of the program): YearFromTime meets its ECMAScript
    definition and its correction loops run at most once; MakeDay and the field
    getters are inverse; \<open>Number\<close> reads back every integer's decimal numeral
    below \<open>10^21\<close>; \<open>new Date(`${date}T${time}`)\<close> gives back the fields of
    well-formed strings; base64 decoding inverts the encoding.
  \<^item> Web pages: on both calendars an event starts at its slot's local date and
    start time; the principal's "today" is inside its "this week"; the admin calendar's colours implement its legend, its rendered cells carry them, and its titles
    read back; the enquiry list keeps its page at least 1, a keystroke sends nothing
    and the timer applies it, and a filter change issues the requests stated;
    every query it sends has a page from 1, ten a page and no empty filter; once
    all requests in flight are answered, in any order, nothing is pending and the
    spinner is on exactly when it was and every request failed; the pagination
    buttons change the page exactly when the bar shows them enabled; the list's
    render throws exactly when a listed enquiry's date
    is invalid, and the principal's exactly when the modal shows an event with an
    invalid start.
  \<^item> Findings, as theorems: on the enquiry list a filter change on a page
    \<open>p \<noteq> 1\<close> can end showing page \<open>p\<close>'s rows as "page 1" (answers applied in
    arrival order); its totals ignore the client-side filters; a rejected request
    leaves the spinner on; its week starts on Sunday while the principal's starts
    on Monday, so the same instant is in one "This Week" and not the other; a booking without a name is "Unknown Student" on the calendar
    and "Unknown" in the modal; a rejection with a nullish value escapes as a
    \<open>TypeError\<close> (the spec says no exception escapes); any \<open>NODE_ENV\<close> other than
    \<open>development\<close>, unset included, sends real email; inverted times are sent
    without complaint; the principal's development log omits the calendar file;
    one enquiry with an unparseable creation date takes the whole list down.

  \<^bold>\<open>Bounds.\<close> The date must satisfy \<open>\<bar>t\<bar> + 86400000 \<le> 8.64 * 10^15\<close>: a
  day's margin inside TimeClip's range, so that setting the time of day never
  leaves it. \<open>Number\<close> is proved exact on digit strings of at most 300 digits,
  far below the 309 digits where a decimal overflows to \<open>Infinity\<close>. No fuel is
  used: every loop of the model is a terminating \<open>fun\<close> or \<open>function\<close>. The
  week filters need \<open>now\<close> eight days inside the range, so that moving to the
  week's ends stays valid; dates of the slot format have four-digit years, far
  inside the range. The React pages are modelled as one commit per event: effects
  run after the state change that triggers them, in the order React runs them.

  \<^bold>\<open>Not modelled.\<close> The \<open>ics\<close> library's encoding and Resend's transport
  (external libraries, left as parameters of \<open>platform\<close>); \<open>toLocaleDateString\<close>
  (ICU locale data, a parameter); Node's \<open>util.inspect\<close> rendering of logged
  error values; the API server and \<open>lib/api\<close>, which are not in the repository
  (their answers are parameters); the DOM and react-big-calendar's layout
  beyond the values each render computes (the class names, texts and rows),
  date-fns \<open>format\<close> beyond the two patterns used, the en-US locale beyond its
  month names; the Slot type of admin/slots/page.tsx, which is not in
  the repository (the principal page's Slot interface is used); characters above
  U+00FF (the modelled paths only handle ASCII format strings, times and
  identifiers).
\<close>

subsection \<open>Properties across the calendar and the dispatcher\<close>

text \<open>
  C14. Each handler makes exactly one delivery attempt unless \<open>NODE_ENV\<close> is
  exactly \<open>development\<close>: an unset \<open>NODE_ENV\<close>, or \<open>test\<close>, sends real email,
  although the spec describes every non-production mode as logging only.
\<close>
theorem delivery_attempts:
  "length (outbox (snd (sendParentCalendarInvite P env d w))) =
     length (outbox w) + (if env ''NODE_ENV'' = Some ''development'' then 0 else 1) \<and>
   length (outbox (snd (sendPrincipalCalendarInvite P env d' w))) =
     length (outbox w) + (if env ''NODE_ENV'' = Some ''development'' then 0 else 1)"
  by (simp add: handler_unfold dev_mode_def)

text \<open>
  C15. The start and end times are never compared: a booking whose end time comes
  before its start time gives an end instant before the start instant, and the
  parent's invite is still sent and reported as a success.
\<close>
theorem inverted_slot_sent:
  assumes "hhmm_ok (slotStartTime d)" "hhmm_ok (slotEndTime d)"
    and "js_str_less (slotEndTime d) (slotStartTime d)"
    and "slotDate d = Some t" "\<bar>t\<bar> + ms_per_day \<le> max_time_value"
    and "\<not> dev_mode env" "\<forall>p. resend_send P p = Resolved x None"
  shows "\<exists>s e. slot_instants (tz_offset P) d = (Some s, Some e) \<and> e < s \<and>
           fst (sendParentCalendarInvite P env d w) =
             Inr \<lparr>success = True, message = ''Calendar invite email sent to parent''\<rparr>"
proof -
  have "60 * hh (slotEndTime d) + mm (slotEndTime d) < 60 * hh (slotStartTime d) + mm (slotStartTime d)"
    using hhmm_less [OF assms(2,1)] assms(3) by simp
  then have "int (hh (slotEndTime d)) * ms_per_hour + int (mm (slotEndTime d)) * ms_per_minute
      < int (hh (slotStartTime d)) * ms_per_hour + int (mm (slotStartTime d)) * ms_per_minute"
    by linarith
  then show ?thesis
    using assms(6,7) by (simp add: slot_instants_hhmm [OF assms(1,2,4,5)] sendParentCalendarInvite_unfold
        send_via_resend_result)
qed

theorem inverted_slot_sent_witness:
  "\<exists>s e. slot_instants 19800000 (asha_booking\<lparr>slotStartTime := ''10:30'', slotEndTime := ''10:00''\<rparr>)
       = (Some s, Some e) \<and> e < s \<and>
     fst (sendParentCalendarInvite (test_platform ics_ok (Resolved (Some ''em_123'') None)) prod_env
       (asha_booking\<lparr>slotStartTime := ''10:30'', slotEndTime := ''10:00''\<rparr>) empty_world) =
       Inr \<lparr>success = True, message = ''Calendar invite email sent to parent''\<rparr>"
  using inverted_slot_sent [of "asha_booking\<lparr>slotStartTime := ''10:30'', slotEndTime := ''10:00''\<rparr>"
      1710009000000 prod_env "test_platform ics_ok (Resolved (Some ''em_123'') None)" "Some ''em_123''"
      empty_world] hhmm_ok_example
  by (simp add: asha_booking_def prod_env_def dev_mode_def test_platform_def)

text \<open>
  C25. The two pages disagree on "this week". On any day but Sunday, an enquiry
  created on the Sunday before the principal's ISO week began is kept by the
  enquiry list's "This Week" (\<open>startOfWeek\<close>, weeks from Sunday), while a
  counselling session at the same instant is not in the principal calendar's
  "This Week" (\<open>startOfISOWeek\<close>, weeks from Monday).
\<close>
theorem week_filters_disagree:
  assumes "\<bar>u\<bar> + 8 * ms_per_day \<le> max_time_value" "(day (u + tz) + 4) mod 7 \<noteq> 0"
    and "start_of_iso_week tz (Some u) = Some s" "s - ms_per_day \<le> t" "t < s"
    and "parse_date fb tz (createdAt e) = Some t" "pe_start pe = Some t"
  shows "date_keep fb tz (Some u) ''week'' e \<and> \<not> in_filter tz (Some u) FilterWeek pe"
proof -
  obtain s' where "start_of_iso_week tz (Some u) = Some s'" and
    w: "start_of_week tz 0 (Some u) =
      Some (if (day (u + tz) + 4) mod 7 = 0 then s' + 6 * ms_per_day else s' - ms_per_day)"
    using week_start_divergence [OF assms(1), of tz] by blast
  with assms(2,3) have "start_of_week tz 0 (Some u) = Some (s - ms_per_day)" by simp
  then show ?thesis using assms(3-7) by (simp add: date_keep_def in_filter_def js_le_def)
qed

theorem week_filters_disagree_witness:
  "date_keep (\<lambda>_. None) 19800000 (Some 1710147600000) ''week'' ((demo_enquiry 1)\<lparr>createdAt := ''2024-03-10T10:00''\<rparr>) \<and>
   \<not> in_filter 19800000 (Some 1710147600000) FilterWeek (booking_event (\<lambda>_. None) 19800000 demo_booked_slot demo_booking)"
proof -
  have w: "start_of_iso_week 19800000 (Some 1710147600000) = Some 1710095400000" by code_simp
  have p: "parse_date (\<lambda>_. None) 19800000 ''2024-03-10T10:00'' = Some 1710045000000" by code_simp
  have q: "pe_start (booking_event (\<lambda>_. None) 19800000 demo_booked_slot demo_booking) = Some 1710045000000"
    by code_simp
  have d: "(day (1710147600000 + 19800000) + 4) mod 7 \<noteq> 0" by (simp add: day_def)
  show ?thesis
    using week_filters_disagree [OF _ d w _ _ _ q, of "\<lambda>_. None" "(demo_enquiry 1)\<lparr>createdAt := ''2024-03-10T10:00''\<rparr>"] p
    by simp
qed

end
